theory Spec2Isabelle
  imports Complex_Main "HOL-Library.Word" "HOL-Library.List_Lexorder" "HOL-Library.AList"
    "HOL-Library.Multiset"
begin

section \<open>JavaScript values and strings\<close>

text \<open>
  A JavaScript string is a sequence of UTF-16 code units. The regular expressions and
  the string methods of \<^verbatim>\<open>server.mjs\<close> work on code units (no \<^verbatim>\<open>u\<close> flag), and
  the default \<^verbatim>\<open>Array.prototype.sort\<close> compares strings by code units, which is the
  lexicographic order of lists of 16-bit words.
\<close>

type_synonym jschar = "16 word"
type_synonym jsstring = "jschar list"

definition js :: "string \<Rightarrow> jsstring" where
  "js s = map (\<lambda>c. of_nat (of_char c)) s"

text \<open>
  The values the code meets in parsed log lines and tool arguments. Numbers carry their
  value as a rational (no NaN or infinity comes out of \<^verbatim>\<open>JSON.parse\<close>).
\<close>

datatype jsval =
    JUndefined
  | JNull
  | JBool bool
  | JNum rat
  | JStr jsstring
  | JArr "jsval list"
  | JObj "(jsstring \<times> jsval) list"

fun truthy :: "jsval \<Rightarrow> bool" where
  "truthy JUndefined = False"
| "truthy JNull = False"
| "truthy (JBool b) = b"
| "truthy (JNum r) = (r \<noteq> 0)"
| "truthy (JStr s) = (s \<noteq> [])"
| "truthy (JArr _) = True"
| "truthy (JObj _) = True"

text \<open>
  Errors as values. \<^verbatim>\<open>new Error(msg)\<close> has no \<^verbatim>\<open>code\<close>; an error of the
  file system carries one (\<^verbatim>\<open>ENOENT\<close>, \<^verbatim>\<open>EEXIST\<close>, ...). \<open>TypeError\<close> is the
  exception of the engine itself, as on reading a property of undefined; its message is
  the engine's and is left out.
\<close>

datatype error = Error string | SysError string | TypeError

fun error_code :: "error \<Rightarrow> string option" where
  "error_code (Error _) = None"
| "error_code (SysError c) = Some c"
| "error_code TypeError = None"

text \<open>\<^verbatim>\<open>function isObject(value)\<close>: not null, of type object, not an array.\<close>

fun isObject :: "jsval \<Rightarrow> bool" where
  "isObject (JObj _) = True"
| "isObject _ = False"

text \<open>
  \<^verbatim>\<open>String.prototype.trim\<close> removes WhiteSpace and LineTerminator code units from both
  ends: TAB, LF, VT, FF, CR, SP, NBSP, U+1680, U+2000..U+200A, LS, PS, U+202F, U+205F,
  U+3000 and the BOM.
\<close>

definition is_js_whitespace :: "jschar \<Rightarrow> bool" where
  "is_js_whitespace c =
     (c = 0x09 \<or> c = 0x0A \<or> c = 0x0B \<or> c = 0x0C \<or> c = 0x0D \<or> c = 0x20 \<or> c = 0xA0
      \<or> c = 0x1680 \<or> (0x2000 \<le> c \<and> c \<le> 0x200A) \<or> c = 0x2028 \<or> c = 0x2029
      \<or> c = 0x202F \<or> c = 0x205F \<or> c = 0x3000 \<or> c = 0xFEFF)"

definition js_trim :: "jsstring \<Rightarrow> jsstring" where
  "js_trim s = rev (dropWhile is_js_whitespace (rev (dropWhile is_js_whitespace s)))"

section \<open>Record Log: parsing\<close>

text \<open>
  \<^verbatim>\<open>rawText.split(/\r?\n/)\<close>: every LF ends a line, and a CR right before it belongs
  to the separator. A CR elsewhere stays in its line. The empty text is one empty line.
\<close>

fun split_lines :: "jsstring \<Rightarrow> jsstring list" where
  "split_lines [] = [[]]"
| "split_lines (c # cs) =
     (if c = 0x0A then [] # split_lines cs
      else if c = 0x0D \<and> cs \<noteq> [] \<and> hd cs = 0x0A then [] # split_lines (tl cs)
      else (case split_lines cs of
              [] \<Rightarrow> [[c]]
            | l # ls \<Rightarrow> (c # l) # ls))"

record parse_error =
  pe_line :: nat
  pe_error :: string

text \<open>
  \<^verbatim>\<open>function parseEntries(rawText)\<close>. \<^verbatim>\<open>JSON.parse\<close> is the host's: it is the
  parameter \<open>json_parse\<close>, which returns the decoded value or \<^verbatim>\<open>String(error)\<close> of the
  SyntaxError it throws. The loop runs over the lines with their index \<open>i\<close>, pushing
  to \<open>entries\<close> or to \<open>parseErrors\<close>.
\<close>

definition is_blank_line :: "jsstring \<Rightarrow> bool" where
  "is_blank_line line = (line = [] \<or> js_trim line = [])"

fun parseEntries_loop ::
  "(jsstring \<Rightarrow> string + jsval) \<Rightarrow> jsstring list \<Rightarrow> nat \<Rightarrow> jsval list \<Rightarrow> parse_error list
     \<Rightarrow> jsval list \<times> parse_error list" where
  "parseEntries_loop json_parse [] i entries parseErrors = (entries, parseErrors)"
| "parseEntries_loop json_parse (line # rest) i entries parseErrors =
     (if is_blank_line line then parseEntries_loop json_parse rest (i + 1) entries parseErrors
      else (case json_parse line of
              Inr parsed \<Rightarrow>
                (if isObject parsed
                 then parseEntries_loop json_parse rest (i + 1) (entries @ [parsed]) parseErrors
                 else parseEntries_loop json_parse rest (i + 1) entries
                        (parseErrors @
                           [\<lparr>pe_line = i + 1, pe_error = ''Error: line is not a JSON object''\<rparr>]))
            | Inl msg \<Rightarrow>
                parseEntries_loop json_parse rest (i + 1) entries
                  (parseErrors @ [\<lparr>pe_line = i + 1, pe_error = msg\<rparr>])))"

definition parseEntries ::
  "(jsstring \<Rightarrow> string + jsval) \<Rightarrow> jsstring \<Rightarrow> jsval list \<times> parse_error list" where
  "parseEntries json_parse rawText = parseEntries_loop json_parse (split_lines rawText) 0 [] []"

text \<open>
  The words of the specification, for comparison: a line is accepted when it decodes to a
  plain object; the entries are the decoded accepted lines in file order; the parse
  errors are the other non-blank lines, by their 1-based line number.
\<close>

definition accepted_line :: "(jsstring \<Rightarrow> string + jsval) \<Rightarrow> jsstring \<Rightarrow> bool" where
  "accepted_line json_parse line =
     (case json_parse line of Inr v \<Rightarrow> isObject v | Inl _ \<Rightarrow> False)"

definition spec_entries :: "(jsstring \<Rightarrow> string + jsval) \<Rightarrow> jsstring list \<Rightarrow> jsval list" where
  "spec_entries json_parse lines =
     map (\<lambda>l. projr (json_parse l))
       (filter (\<lambda>l. \<not> is_blank_line l \<and> accepted_line json_parse l) lines)"

definition error_text :: "(jsstring \<Rightarrow> string + jsval) \<Rightarrow> jsstring \<Rightarrow> string" where
  "error_text json_parse line =
     (case json_parse line of
        Inl msg \<Rightarrow> msg
      | Inr _ \<Rightarrow> ''Error: line is not a JSON object'')"

definition rejected_lines ::
  "(jsstring \<Rightarrow> string + jsval) \<Rightarrow> nat \<Rightarrow> jsstring list \<Rightarrow> (nat \<times> jsstring) list" where
  "rejected_lines json_parse first lines =
     filter (\<lambda>(n, l). \<not> is_blank_line l \<and> \<not> accepted_line json_parse l)
       (enumerate first lines)"

definition spec_parse_errors ::
  "(jsstring \<Rightarrow> string + jsval) \<Rightarrow> jsstring list \<Rightarrow> parse_error list" where
  "spec_parse_errors json_parse lines =
     map (\<lambda>(n, l). \<lparr>pe_line = n, pe_error = error_text json_parse l\<rparr>)
       (rejected_lines json_parse 1 lines)"

text \<open>A toy decoder for examples: \<^verbatim>\<open>{}\<close> is an object, \<^verbatim>\<open>[]\<close> an array, the rest fails.\<close>

definition toy_json_parse :: "jsstring \<Rightarrow> string + jsval" where
  "toy_json_parse s =
     (if s = [0x7B, 0x7D] then Inr (JObj [])
      else if s = [0x5B, 0x5D] then Inr (JArr [])
      else Inl ''SyntaxError'')"

section \<open>Display text\<close>

text \<open>
  \<^verbatim>\<open>string.replace(regex, replacement)\<close> with a global regular expression: scan from
  the left; where the expression matches (\<open>m\<close> gives the length of the match at the start
  of the rest), drop the match for the replacement and go on after it. None of the
  expressions of the source matches the empty string.
\<close>

function replace_all :: "(jsstring \<Rightarrow> nat option) \<Rightarrow> jsstring \<Rightarrow> jsstring \<Rightarrow> jsstring" where
  "replace_all m rep [] = []"
| "replace_all m rep (c # cs) =
     (case m (c # cs) of
        None \<Rightarrow> c # replace_all m rep cs
      | Some n \<Rightarrow>
          (if n = 0 then c # replace_all m rep cs
           else rep @ replace_all m rep (drop n (c # cs))))"
  by pat_completeness auto
termination
  by (relation "measure (\<lambda>(m, rep, s). length s)") auto

text \<open>
  \<^verbatim>\<open>ANSI_OSC_REGEX = /\x1b\][^\x07]*(?:\x07|\x1b\\)/g\<close>. After ESC and the bracket,
  the greedy class takes every code unit up to the first BEL; if there is a BEL the
  match ends with it, otherwise backtracking finds the last ESC backslash.
\<close>

fun last_string_terminator :: "jsstring \<Rightarrow> nat option" where
  "last_string_terminator (a # b # cs) =
     (case last_string_terminator (b # cs) of
        Some k \<Rightarrow> Some (Suc k)
      | None \<Rightarrow> (if a = 0x1B \<and> b = 0x5C then Some 0 else None))"
| "last_string_terminator _ = None"

fun ANSI_OSC_REGEX :: "jsstring \<Rightarrow> nat option" where
  "ANSI_OSC_REGEX (e # b # rest) =
     (if e = 0x1B \<and> b = 0x5D then
        (let run = takeWhile (\<lambda>c. c \<noteq> 0x07) rest in
         if length run < length rest then Some (2 + length run + 1)
         else (case last_string_terminator rest of
                 Some k \<Rightarrow> Some (2 + k + 2)
               | None \<Rightarrow> None))
      else None)"
| "ANSI_OSC_REGEX _ = None"

text \<open>
  \<^verbatim>\<open>ANSI_CSI_REGEX = /\x1b\[[0-?]*[ -/]*[@-~]/g\<close>. The three classes are disjoint, so
  the greedy match is the only one.
\<close>

fun ANSI_CSI_REGEX :: "jsstring \<Rightarrow> nat option" where
  "ANSI_CSI_REGEX (e # b # rest) =
     (if e = 0x1B \<and> b = 0x5B then
        (let r1 = dropWhile (\<lambda>c. 0x30 \<le> c \<and> c \<le> 0x3F) rest;
             r2 = dropWhile (\<lambda>c. 0x20 \<le> c \<and> c \<le> 0x2F) r1
         in (case r2 of
               [] \<Rightarrow> None
             | c # _ \<Rightarrow>
                 (if 0x40 \<le> c \<and> c \<le> 0x7E then Some (2 + (length rest - length r2) + 1)
                  else None)))
      else None)"
| "ANSI_CSI_REGEX _ = None"

text \<open>\<^verbatim>\<open>/[\r\n\t]+/g\<close>: the longest run of CR, LF and TAB.\<close>

definition line_break_run :: "jsstring \<Rightarrow> nat option" where
  "line_break_run s =
     (let run = takeWhile (\<lambda>c. c = 0x0D \<or> c = 0x0A \<or> c = 0x09) s
      in if run = [] then None else Some (length run))"

definition is_stripped_control :: "jschar \<Rightarrow> bool" where
  "is_stripped_control c =
     (c \<le> 0x08 \<or> c = 0x0B \<or> c = 0x0C \<or> (0x0E \<le> c \<and> c \<le> 0x1F) \<or> c = 0x7F)"

text \<open>\<^verbatim>\<open>export function sanitizeDisplayText(value, { singleLine })\<close>, on a string.\<close>

definition sanitizeDisplayText :: "jsstring \<Rightarrow> bool \<Rightarrow> jsstring" where
  "sanitizeDisplayText v singleLine =
     (let out = filter (\<lambda>c. \<not> is_stripped_control c)
                  (filter (\<lambda>c. c \<noteq> 0x1B)
                     (replace_all ANSI_CSI_REGEX [] (replace_all ANSI_OSC_REGEX [] v)))
      in if singleLine then js_trim (replace_all line_break_run [0x20] out) else out)"

text \<open>\<^verbatim>\<open>function truncateText(value, maxLength = 120)\<close>; \<open>None\<close> is undefined.\<close>

definition truncateText :: "jsval \<Rightarrow> nat \<Rightarrow> jsstring option" where
  "truncateText v maxLength =
     (case v of
        JStr s \<Rightarrow>
          (let txt = js_trim (sanitizeDisplayText s True) in
           if txt = [] then None
           else if length txt \<le> maxLength then Some txt
           else Some (take (maxLength - 3) txt @ js ''...''))
      | _ \<Rightarrow> None)"

section \<open>Entries and session summaries\<close>

text \<open>
  An entry is a decoded log line (or the object an append builds): the fields the code
  reads, each any JavaScript value, \<open>JUndefined\<close> where the property is missing.
\<close>

record entry =
  entry_ts :: jsval
  entry_kind :: jsval
  entry_project :: jsval
  entry_agent :: jsval
  entry_session_id :: jsval
  entry_task :: jsval
  entry_summary :: jsval

text \<open>
  \<^verbatim>\<open>function normalizeSessionId(value)\<close>: undefined for undefined, null and blank
  strings; throws on any other non-string.
\<close>

definition normalizeSessionId :: "jsval \<Rightarrow> error + jsstring option" where
  "normalizeSessionId v =
     (case v of
        JUndefined \<Rightarrow> Inr None
      | JNull \<Rightarrow> Inr None
      | JStr s \<Rightarrow> (let out = js_trim s in if out = [] then Inr None else Inr (Some out))
      | _ \<Rightarrow> Inl (Error ''Expected string for session_id''))"

record session_summary =
  session_id :: jsstring
  project :: jsval
  entry_count :: nat
  note_count :: nat
  handoff_count :: nat
  latest_ts :: "jsstring option"
  latest_ts_ms :: "int option"
  latest_file_index :: int
  last_entry_kind :: jsval
  task :: "jsstring option"
  agents :: "jsstring list"
  latest_handoff_summary :: "jsstring option"

text \<open>\<^verbatim>\<open>function makeSessionSummary(sessionId, project)\<close>.\<close>

definition makeSessionSummary :: "jsstring \<Rightarrow> jsval \<Rightarrow> session_summary" where
  "makeSessionSummary sessionId proj =
     \<lparr>session_id = sessionId,
      project = (if truthy proj then proj else JUndefined),
      entry_count = 0,
      note_count = 0,
      handoff_count = 0,
      latest_ts = None,
      latest_ts_ms = None,
      latest_file_index = - 1,
      last_entry_kind = JUndefined,
      task = None,
      agents = [],
      latest_handoff_summary = None\<rparr>"

text \<open>\<^verbatim>\<open>function pushUniqueString(target, value)\<close>.\<close>

definition pushUniqueString :: "jsstring list \<Rightarrow> jsval \<Rightarrow> jsstring list" where
  "pushUniqueString target v =
     (case v of
        JStr s \<Rightarrow>
          (let trimmed = js_trim s in
           if trimmed = [] then target
           else if trimmed \<in> set target then target
           else target @ [trimmed])
      | _ \<Rightarrow> target)"

text \<open>
  The file signature is the template string \<^verbatim>\<open>`${stat.size}:${Math.trunc(stat.mtimeMs)}`\<close>,
  which the code only compares with \<^verbatim>\<open>===\<close> and tests for truth (it is never
  empty). It is kept as the pair of the two numbers it prints; \<open>None\<close> is null.
\<close>

type_synonym signature = "nat \<times> int"

text \<open>
  An object used as a dictionary is an association list of its own properties in
  insertion order: \<open>map_of\<close> reads a key, \<open>AList.update\<close> replaces the value of a
  key in place or adds the key at the end. The dictionaries of the index are made by
  \<^verbatim>\<open>{}\<close>, so they inherit from \<^verbatim>\<open>Object.prototype\<close>: the name
  \<^verbatim>\<open>__proto__\<close> is never an own key, reading it gives \<^verbatim>\<open>Object.prototype\<close>
  itself and assigning it sets the prototype; any other name that is not an own key
  reads what \<^verbatim>\<open>Object.prototype\<close> holds under it. (No index file that the
  source writes has the key \<^verbatim>\<open>__proto__\<close>, so the dictionaries of an index that
  is read back have this prototype too.)
\<close>

definition PROTO :: jsstring where
  "PROTO = js ''__proto__''"

record session_index =
  version :: nat
  context_signature :: "signature option"
  next_file_index :: int
  projects :: "(jsstring \<times> (jsstring \<times> session_summary) list) list"

section \<open>The host and the configuration\<close>

text \<open>
  What the JavaScript host provides and the source only calls: \<^verbatim>\<open>Date.parse\<close> (with
  the string conversion of its argument; \<open>None\<close> is NaN, a time value is an integer of
  milliseconds), \<^verbatim>\<open>new Date(ms).toISOString()\<close> and
  \<^verbatim>\<open>String.prototype.localeCompare\<close> (the collation of the host's locale).

  Every function below is described as it runs in a process whose
  \<^verbatim>\<open>Object.prototype\<close> has the properties the host gave it and no other: functions
  under the names of its methods, the accessor \<^verbatim>\<open>__proto__\<close>, and undefined under
  every other name. Once the program has assigned a property of
  \<^verbatim>\<open>Object.prototype\<close>, every object of the process reads it under that name (an
  entry without the property, a dictionary looked up under the name), and the records of
  this theory do not follow such a read. Where a loop of the source comes to an entry
  that may read a name assigned earlier in the loop, what the loop does from that entry
  on is the host's \<open>after_prototype_write\<close>: from the names assigned, the index, the
  entries left and the position of the first of them, the exception thrown, if any, and
  the index as the loop leaves it.
\<close>

record host =
  Date_parse :: "jsval \<Rightarrow> int option"
  toISOString :: "int \<Rightarrow> jsstring"
  localeCompare :: "jsstring \<Rightarrow> jsstring \<Rightarrow> int"
  after_prototype_write ::
    "jsstring list \<Rightarrow> session_index \<Rightarrow> entry list \<Rightarrow> int \<Rightarrow> error option \<times> session_index"

text \<open>The module constants that come from the environment of the process.\<close>

record config =
  DEFAULT_PROJECT :: jsstring
  MAX_CONTEXT_FILE_BYTES :: nat
  CONTEXT_FILE :: string
  LOCK_FILE :: string

definition MAX_LOCK_WAIT_MS :: int where
  "MAX_LOCK_WAIT_MS = 5000"

definition STALE_LOCK_MS :: rat where
  "STALE_LOCK_MS = 30000"

definition SESSION_INDEX_VERSION :: nat where
  "SESSION_INDEX_VERSION = 1"

definition NO_SESSION_BUCKET :: jsstring where
  "NO_SESSION_BUCKET = js ''(no-session-id)''"

section \<open>Session index\<close>

text \<open>
  \<^verbatim>\<open>function applyEntryToSessionSummary(summary, entry, fileIndex)\<close>, the statements in
  the order of the source. \<open>fileIndex\<close> is an integer at every call.
\<close>

definition applyEntryToSessionSummary ::
  "host \<Rightarrow> session_summary \<Rightarrow> entry \<Rightarrow> int \<Rightarrow> session_summary" where
  "applyEntryToSessionSummary h summary e fileIndex =
     (let s1 = summary\<lparr>entry_count := entry_count summary + 1\<rparr>;
          s2 = (if entry_kind e = JStr (js ''note'') then s1\<lparr>note_count := note_count s1 + 1\<rparr>
                else s1);
          s3 = (if entry_kind e = JStr (js ''handoff'')
                then s2\<lparr>handoff_count := handoff_count s2 + 1\<rparr> else s2);
          s4 = s3\<lparr>last_entry_kind :=
                     (if truthy (entry_kind e) then entry_kind e else last_entry_kind s3)\<rparr>;
          s5 = s4\<lparr>latest_file_index := fileIndex\<rparr>;
          s6 = (if \<not> truthy (project s5) \<and> truthy (entry_project e)
                then s5\<lparr>project := entry_project e\<rparr> else s5);
          s7 = (case entry_task e of
                  JStr t \<Rightarrow> (if js_trim t \<noteq> [] then s6\<lparr>task := Some (js_trim t)\<rparr> else s6)
                | _ \<Rightarrow> s6);
          s8 = s7\<lparr>agents := pushUniqueString (agents s7) (entry_agent e)\<rparr>;
          s9 = (if entry_kind e = JStr (js ''handoff'')
                then (case truncateText (entry_summary e) 180 of
                        Some handoffSummary \<Rightarrow> s8\<lparr>latest_handoff_summary := Some handoffSummary\<rparr>
                      | None \<Rightarrow> s8)
                else s8);
          entryTs = (case entry_ts e of JStr t \<Rightarrow> Some t | _ \<Rightarrow> None);
          entryTsMs = (case entryTs of
                         Some t \<Rightarrow> (if t \<noteq> [] then Date_parse h (JStr t) else None)
                       | None \<Rightarrow> None)
      in (case entryTsMs of
            Some ms \<Rightarrow>
              (if latest_ts_ms s9 = None \<or> ms \<ge> the (latest_ts_ms s9)
               then s9\<lparr>latest_ts_ms := Some ms,
                       latest_ts := Some (toISOString h ms),
                       latest_file_index := fileIndex\<rparr>
               else s9)
          | None \<Rightarrow>
              (if (latest_ts s9 = None \<or> latest_ts s9 = Some []) \<and> entryTs \<noteq> None
                    \<and> entryTs \<noteq> Some []
               then s9\<lparr>latest_ts := entryTs\<rparr>
               else s9)))"

text \<open>\<^verbatim>\<open>function makeSessionIndexSkeleton(contextSignature = null)\<close>.\<close>

definition makeSessionIndexSkeleton :: "signature option \<Rightarrow> session_index" where
  "makeSessionIndexSkeleton contextSignature =
     \<lparr>version = SESSION_INDEX_VERSION,
      context_signature = contextSignature,
      next_file_index = 0,
      projects = []\<rparr>"

text \<open>\<^verbatim>\<open>function getSessionProject(entry)\<close>.\<close>

definition getSessionProject :: "config \<Rightarrow> entry \<Rightarrow> jsstring" where
  "getSessionProject cfg e =
     (case entry_project e of
        JStr p \<Rightarrow> (if js_trim p \<noteq> [] then js_trim p else DEFAULT_PROJECT cfg)
      | _ \<Rightarrow> DEFAULT_PROJECT cfg)"

text \<open>
  \<^verbatim>\<open>applyEntryToSessionSummary(summary, entry, fileIndex)\<close> where \<open>summary\<close> is
  \<^verbatim>\<open>Object.prototype\<close>: the names of the properties it assigns, in the order of the
  statements. Every field it reads of \<^verbatim>\<open>Object.prototype\<close> is undefined: the
  counters become NaN, \<^verbatim>\<open>!summary.project\<close> holds, \<^verbatim>\<open>summary.latest_ts_ms\<close> is
  not null and no number is \<^verbatim>\<open>>=\<close> it. \<^verbatim>\<open>pushUniqueString(undefined, agent)\<close>
  throws a TypeError at \<^verbatim>\<open>target.includes\<close> when the agent is a string that is not
  blank, and the statements after it are not reached.
\<close>

definition object_prototype_writes :: "host \<Rightarrow> entry \<Rightarrow> jsstring list" where
  "object_prototype_writes h e =
     (let w1 = [js ''entry_count''];
          w2 = (if entry_kind e = JStr (js ''note'') then w1 @ [js ''note_count''] else w1);
          w3 = (if entry_kind e = JStr (js ''handoff'') then w2 @ [js ''handoff_count''] else w2);
          w4 = w3 @ [js ''last_entry_kind''];
          w5 = w4 @ [js ''latest_file_index''];
          w6 = (if truthy (entry_project e) then w5 @ [js ''project''] else w5);
          w7 = (case entry_task e of
                  JStr t \<Rightarrow> (if js_trim t \<noteq> [] then w6 @ [js ''task''] else w6)
                | _ \<Rightarrow> w6);
          throwsAtAgent = (case entry_agent e of JStr a \<Rightarrow> js_trim a \<noteq> [] | _ \<Rightarrow> False);
          w9 = (if entry_kind e = JStr (js ''handoff'')
                then (case truncateText (entry_summary e) 180 of
                        Some handoffSummary \<Rightarrow> w7 @ [js ''latest_handoff_summary'']
                      | None \<Rightarrow> w7)
                else w7);
          entryTs = (case entry_ts e of JStr t \<Rightarrow> Some t | _ \<Rightarrow> None);
          entryTsMs = (case entryTs of
                         Some t \<Rightarrow> (if t \<noteq> [] then Date_parse h (JStr t) else None)
                       | None \<Rightarrow> None)
      in if throwsAtAgent then w7
         else (case entryTsMs of
                 Some ms \<Rightarrow> w9
               | None \<Rightarrow>
                   (if entryTs \<noteq> None \<and> entryTs \<noteq> Some [] then w9 @ [js ''latest_ts'']
                    else w9)))"

text \<open>
  \<^verbatim>\<open>function applyEntryToSessionIndex(index, entry, fileIndex)\<close>. The index is
  changed in place; the result is the exception the call throws, if any
  (\<^verbatim>\<open>normalizeSessionId\<close> throws after \<^verbatim>\<open>next_file_index\<close> is advanced), the
  names of the properties of \<^verbatim>\<open>Object.prototype\<close> it assigns, and the index as the
  call leaves it.

  Under the project \<^verbatim>\<open>__proto__\<close>, \<^verbatim>\<open>index.projects[project]\<close> is
  \<^verbatim>\<open>Object.prototype\<close>, an object, so no bucket is made. What it holds under the
  session id is not an object (a method, or undefined; null under \<^verbatim>\<open>__proto__\<close>),
  so the new summary is assigned to \<^verbatim>\<open>Object.prototype[sessionId]\<close> and the entry
  is folded into it there: the index gets no key. Under the session id
  \<^verbatim>\<open>__proto__\<close> that assignment is to the prototype of \<^verbatim>\<open>Object.prototype\<close>,
  which cannot be set: a TypeError.

  Under any other project the bucket is an own key of \<^verbatim>\<open>index.projects\<close>, made
  empty where it is missing. Under the session id \<^verbatim>\<open>__proto__\<close> the bucket reads
  \<^verbatim>\<open>Object.prototype\<close>, an object, so no summary is made and the entry is folded
  into \<^verbatim>\<open>Object.prototype\<close>; that throws a TypeError in
  \<^verbatim>\<open>pushUniqueString\<close>, or else \<^verbatim>\<open>Object.prototype.agents.sort()\<close> does, on
  undefined.
\<close>

definition applyEntryToSessionIndex ::
  "host \<Rightarrow> config \<Rightarrow> session_index \<Rightarrow> entry \<Rightarrow> int
     \<Rightarrow> error option \<times> jsstring list \<times> session_index" where
  "applyEntryToSessionIndex h cfg index e fileIndex =
     (let index1 = (if fileIndex \<ge> 0
                    then index\<lparr>next_file_index := max (next_file_index index) (fileIndex + 1)\<rparr>
                    else index)
      in (case normalizeSessionId (entry_session_id e) of
            Inl err \<Rightarrow> (Some err, [], index1)
          | Inr None \<Rightarrow> (None, [], index1)
          | Inr (Some sessionId) \<Rightarrow>
              (let proj = getSessionProject cfg e in
               if proj = PROTO then
                 (if sessionId = PROTO then (Some TypeError, [], index1)
                  else (None, [sessionId], index1))
               else
                 (let bucket = (case map_of (projects index1) proj of
                                  None \<Rightarrow> []
                                | Some b \<Rightarrow> b)
                  in if sessionId = PROTO then
                       (Some TypeError, object_prototype_writes h e,
                        index1\<lparr>projects := AList.update proj bucket (projects index1)\<rparr>)
                     else
                       (let summary = (case map_of bucket sessionId of
                                         None \<Rightarrow> makeSessionSummary sessionId (JStr proj)
                                       | Some s \<Rightarrow> s);
                            summary1 = applyEntryToSessionSummary h summary e fileIndex;
                            summary2 = summary1\<lparr>agents := sort (agents summary1)\<rparr>
                        in (None, [],
                            index1\<lparr>projects :=
                              AList.update proj (AList.update sessionId summary2 bucket)
                                (projects index1)\<rparr>))))))"

text \<open>
  Whether the call for the entry may read a name in \<open>written\<close>, the names under which
  earlier calls of the loop have left summaries on \<^verbatim>\<open>Object.prototype\<close>: a field
  of the entry that is undefined here (it may be missing from the object) under its own
  name; or, with a project other than \<^verbatim>\<open>__proto__\<close>, the bucket where the project
  is not an own key, the summary where the session id is not an own key of the bucket,
  and the fields of \<^verbatim>\<open>Object.prototype\<close> under the session id
  \<^verbatim>\<open>__proto__\<close>. A call that reads none of them does to the index what it does in a
  fresh process; under the project \<^verbatim>\<open>__proto__\<close> a summary that is already on
  \<^verbatim>\<open>Object.prototype\<close> is folded into, there as well.
\<close>

definition reads_through :: "config \<Rightarrow> jsstring list \<Rightarrow> session_index \<Rightarrow> entry \<Rightarrow> bool" where
  "reads_through cfg written index e =
     (written \<noteq> []
      \<and> ((entry_session_id e = JUndefined \<and> js ''session_id'' \<in> set written)
          \<or> (entry_project e = JUndefined \<and> js ''project'' \<in> set written)
          \<or> (entry_kind e = JUndefined \<and> js ''kind'' \<in> set written)
          \<or> (entry_task e = JUndefined \<and> js ''task'' \<in> set written)
          \<or> (entry_agent e = JUndefined \<and> js ''agent'' \<in> set written)
          \<or> (entry_summary e = JUndefined \<and> js ''summary'' \<in> set written)
          \<or> (entry_ts e = JUndefined \<and> js ''ts'' \<in> set written)
          \<or> (case normalizeSessionId (entry_session_id e) of
                Inr (Some sessionId) \<Rightarrow>
                  (let proj = getSessionProject cfg e
                   in proj \<noteq> PROTO
                      \<and> (sessionId = PROTO
                          \<or> (case map_of (projects index) proj of
                                None \<Rightarrow> proj \<in> set written \<or> sessionId \<in> set written
                              | Some bucket \<Rightarrow>
                                  sessionId \<in> set written \<and> map_of bucket sessionId = None)))
              | _ \<Rightarrow> False)))"

text \<open>
  \<^verbatim>\<open>entries.forEach((entry, fileIndex) => applyEntryToSessionIndex(...))\<close>, from the
  position \<open>i\<close> on, with the names the calls before have assigned on
  \<^verbatim>\<open>Object.prototype\<close>; an exception ends the loop. From an entry that may read
  one of these names on, the loop is the host's to account for.
\<close>

fun index_forEach ::
  "host \<Rightarrow> config \<Rightarrow> jsstring list \<Rightarrow> session_index \<Rightarrow> entry list \<Rightarrow> int
     \<Rightarrow> error option \<times> session_index" where
  "index_forEach h cfg written index [] i = (None, index)"
| "index_forEach h cfg written index (e # es) i =
     (if reads_through cfg written index e
      then after_prototype_write h written index (e # es) i
      else (case applyEntryToSessionIndex h cfg index e i of
              (Some err, w, index') \<Rightarrow> (Some err, index')
            | (None, w, index') \<Rightarrow> index_forEach h cfg (written @ w) index' es (i + 1)))"

text \<open>\<^verbatim>\<open>function buildSessionIndexFromEntries(entries, contextSignature)\<close>.\<close>

definition buildSessionIndexFromEntries ::
  "host \<Rightarrow> config \<Rightarrow> entry list \<Rightarrow> signature option \<Rightarrow> error + session_index" where
  "buildSessionIndexFromEntries h cfg entries contextSignature =
     (case index_forEach h cfg [] (makeSessionIndexSkeleton contextSignature) entries 0 of
        (Some err, _) \<Rightarrow> Inl err
      | (None, index) \<Rightarrow>
          (if next_file_index index < int (length entries)
           then Inr (index\<lparr>next_file_index := int (length entries)\<rparr>)
           else Inr index))"

section \<open>Process state\<close>

text \<open>
  The module-level caches (\<^verbatim>\<open>contextCache\<close>, \<^verbatim>\<open>sessionIndexCache\<close>) and the
  writes the process has made to the shared files, in order. What the process reads
  from the file system is an argument of each operation: other processes change the
  files between any two calls.
\<close>

record context_cache =
  cc_signature :: "signature option"
  cc_raw :: jsstring
  cc_entries :: "jsval list"
  cc_parseErrors :: "parse_error list"

record index_cache =
  cache_contextSignature :: "signature option"
  cache_index :: "session_index option"

datatype effect =
    AppendedLog jsstring
  | WroteSessionIndex session_index
  | WroteActiveSession jsstring
  | WroteLockMetadata
  | UnlinkedStaleLock
  | ReleasedLock
  | Slept int

record state =
  contextCache :: context_cache
  sessionIndexCache :: index_cache
  effects :: "effect list"

text \<open>\<^verbatim>\<open>function invalidateContextCache()\<close>, \<^verbatim>\<open>function invalidateSessionIndexCache()\<close>.\<close>

definition invalidateContextCache :: "state \<Rightarrow> state" where
  "invalidateContextCache st =
     st\<lparr>contextCache :=
          \<lparr>cc_signature = None, cc_raw = [], cc_entries = [], cc_parseErrors = []\<rparr>\<rparr>"

definition invalidateSessionIndexCache :: "state \<Rightarrow> state" where
  "invalidateSessionIndexCache st =
     st\<lparr>sessionIndexCache := \<lparr>cache_contextSignature = None, cache_index = None\<rparr>\<rparr>"

text \<open>
  \<^verbatim>\<open>async function loadSessionIndex(expectedContextSignature)\<close>. \<open>fromFile\<close> is what
  \<^verbatim>\<open>readSessionIndexFile()\<close> returns when it is called (null for a missing,
  unreadable or invalid file).
\<close>

definition loadSessionIndex ::
  "session_index option \<Rightarrow> state \<Rightarrow> signature option \<Rightarrow> session_index option \<times> state" where
  "loadSessionIndex fromFile st expectedContextSignature =
     (if expectedContextSignature = None then (None, st)
      else if cache_contextSignature (sessionIndexCache st) = expectedContextSignature
              \<and> cache_index (sessionIndexCache st) \<noteq> None
              \<and> context_signature (the (cache_index (sessionIndexCache st)))
                    = expectedContextSignature
      then (cache_index (sessionIndexCache st), st)
      else (case fromFile of
              None \<Rightarrow> (None, invalidateSessionIndexCache st)
            | Some index \<Rightarrow>
                (if context_signature index \<noteq> expectedContextSignature
                 then (None, invalidateSessionIndexCache st)
                 else (Some index,
                       st\<lparr>sessionIndexCache :=
                            \<lparr>cache_contextSignature = expectedContextSignature,
                             cache_index = Some index\<rparr>\<rparr>))))"

text \<open>
  \<^verbatim>\<open>async function persistSessionIndex(index)\<close>. \<open>writeOk\<close> says whether
  \<^verbatim>\<open>writeSessionIndexFile\<close> (temporary file, then rename) succeeds.
\<close>

definition persistSessionIndex :: "bool \<Rightarrow> state \<Rightarrow> session_index \<Rightarrow> state" where
  "persistSessionIndex writeOk st index =
     (if writeOk
      then st\<lparr>effects := effects st @ [WroteSessionIndex index],
              sessionIndexCache :=
                \<lparr>cache_contextSignature = context_signature index, cache_index = Some index\<rparr>\<rparr>
      else invalidateSessionIndexCache st)"

text \<open>
  \<^verbatim>\<open>async function tryUpdateSessionIndexOnAppend(entry, { beforeSignature, afterSignature })\<close>.
  The index that \<^verbatim>\<open>loadSessionIndex\<close> returns is the object the cache holds, so
  the assignments to it show in the cache when \<^verbatim>\<open>applyEntryToSessionIndex\<close> throws.
  What that call assigns on \<^verbatim>\<open>Object.prototype\<close> is no part of the state below.
\<close>

definition tryUpdateSessionIndexOnAppend ::
  "host \<Rightarrow> config \<Rightarrow> session_index option \<Rightarrow> bool \<Rightarrow> state \<Rightarrow> entry
     \<Rightarrow> signature option \<Rightarrow> signature option \<Rightarrow> error option \<times> state" where
  "tryUpdateSessionIndexOnAppend h cfg fromFile writeOk st e beforeSignature afterSignature =
     (if afterSignature = None then (None, invalidateSessionIndexCache st)
      else if beforeSignature = None then
        (let index = makeSessionIndexSkeleton afterSignature;
             fileIndex = (if next_file_index index \<ge> 0 then next_file_index index else 0)
         in (case applyEntryToSessionIndex h cfg index e fileIndex of
               (Some err, _, _) \<Rightarrow> (Some err, st)
             | (None, _, index1) \<Rightarrow>
                 (None, persistSessionIndex writeOk st
                    (if next_file_index index1 < fileIndex + 1
                     then index1\<lparr>next_file_index := fileIndex + 1\<rparr> else index1))))
      else
        (case loadSessionIndex fromFile st beforeSignature of
           (None, st1) \<Rightarrow> (None, invalidateSessionIndexCache st1)
         | (Some loaded, st1) \<Rightarrow>
             (let index = loaded\<lparr>context_signature := afterSignature\<rparr>;
                  fileIndex = (if next_file_index index \<ge> 0 then next_file_index index else 0)
              in (case applyEntryToSessionIndex h cfg index e fileIndex of
                    (Some err, _, index1) \<Rightarrow>
                      (Some err,
                       st1\<lparr>sessionIndexCache :=
                             (sessionIndexCache st1)\<lparr>cache_index := Some index1\<rparr>\<rparr>)
                  | (None, _, index1) \<Rightarrow>
                      (None, persistSessionIndex writeOk st1
                         (if next_file_index index1 < fileIndex + 1
                          then index1\<lparr>next_file_index := fileIndex + 1\<rparr> else index1))))))"

text \<open>
  The update as \<^verbatim>\<open>appendEntry\<close> runs it:
  \<^verbatim>\<open>await tryUpdateSessionIndexOnAppend(...).catch(() => { invalidateSessionIndexCache(); })\<close>.
\<close>

definition updateIndexOnAppend ::
  "host \<Rightarrow> config \<Rightarrow> session_index option \<Rightarrow> bool \<Rightarrow> state \<Rightarrow> entry
     \<Rightarrow> signature option \<Rightarrow> signature option \<Rightarrow> state" where
  "updateIndexOnAppend h cfg fromFile writeOk st e beforeSignature afterSignature =
     (case tryUpdateSessionIndexOnAppend h cfg fromFile writeOk st e beforeSignature afterSignature of
        (Some err, st1) \<Rightarrow> invalidateSessionIndexCache st1
      | (None, st1) \<Rightarrow> st1)"

text \<open>
  A run of appends by one process: each entry comes with the signature of the log after
  its append, which is the signature before the next one. The index file is written at
  every step and not read (the cache answers); \<open>fromFile\<close> is what a read would return.
  The run is that of the source for entries with keys other than \<^verbatim>\<open>__proto__\<close>
  (\<open>plain_keys\<close> below), whose updates leave \<^verbatim>\<open>Object.prototype\<close> as it is.
\<close>

fun append_updates ::
  "host \<Rightarrow> config \<Rightarrow> session_index option \<Rightarrow> state \<Rightarrow> signature
     \<Rightarrow> (entry \<times> signature) list \<Rightarrow> state" where
  "append_updates h cfg fromFile st before [] = st"
| "append_updates h cfg fromFile st before ((e, after) # rest) =
     append_updates h cfg fromFile
       (updateIndexOnAppend h cfg fromFile True st e (Some before) (Some after)) after rest"

text \<open>The summary an index holds for a project and a session.\<close>

definition session_summary_of ::
  "session_index \<Rightarrow> jsstring \<Rightarrow> jsstring \<Rightarrow> session_summary option" where
  "session_summary_of index proj sid =
     (case map_of (projects index) proj of
        None \<Rightarrow> None
      | Some bucket \<Rightarrow> map_of bucket sid)"

text \<open>
  What \<^verbatim>\<open>makeEntryBase\<close> puts in \<^verbatim>\<open>session_id\<close>: a string or undefined.
\<close>

definition appendable :: "entry \<Rightarrow> bool" where
  "appendable e = (case entry_session_id e of JStr _ \<Rightarrow> True | JUndefined \<Rightarrow> True | _ \<Rightarrow> False)"

text \<open>
  An entry whose project and session id are names other than \<^verbatim>\<open>__proto__\<close>: the
  index keeps it under own keys.
\<close>

definition plain_keys :: "config \<Rightarrow> entry \<Rightarrow> bool" where
  "plain_keys cfg e =
     (getSessionProject cfg e \<noteq> PROTO
      \<and> normalizeSessionId (entry_session_id e) \<noteq> Inr (Some PROTO))"

section \<open>Query engine: filtering, summarization, sorting\<close>

text \<open>
  The filters \<^verbatim>\<open>{ project, agent, session_id, kind, since }\<close> as the tool handlers
  pass them: each a string or undefined (\<open>None\<close>). The code tests a filter for truth,
  so the empty string counts as no filter.
\<close>

record filters =
  filter_project :: "jsstring option"
  filter_agent :: "jsstring option"
  filter_session_id :: "jsstring option"
  filter_kind :: "jsstring option"
  filter_since :: "jsstring option"

definition present :: "jsstring option \<Rightarrow> bool" where
  "present f = (f \<noteq> None \<and> f \<noteq> Some [])"

text \<open>\<^verbatim>\<open>a < b\<close> on numbers where \<open>None\<close> is NaN: false when either side is NaN.\<close>

definition number_less :: "int option \<Rightarrow> int option \<Rightarrow> bool" where
  "number_less a b = (case (a, b) of (Some x, Some y) \<Rightarrow> x < y | _ \<Rightarrow> False)"

text \<open>
  The callback of \<^verbatim>\<open>entries.filter\<close> in \<^verbatim>\<open>function filterEntries(entries, filters)\<close>.
  \<open>sinceMs\<close> is \<open>None\<close> for null, \<open>Some None\<close> for NaN.
\<close>

definition filterEntries_keep ::
  "host \<Rightarrow> filters \<Rightarrow> int option option \<Rightarrow> entry \<Rightarrow> bool" where
  "filterEntries_keep h f sinceMs e =
     (if present (filter_project f) \<and> entry_project e \<noteq> JStr (the (filter_project f)) then False
      else if present (filter_agent f) \<and> entry_agent e \<noteq> JStr (the (filter_agent f)) then False
      else if present (filter_session_id f)
                \<and> entry_session_id e \<noteq> JStr (the (filter_session_id f)) then False
      else if present (filter_kind f) \<and> entry_kind e \<noteq> JStr (the (filter_kind f)) then False
      else (case sinceMs of
              None \<Rightarrow> True
            | Some ms \<Rightarrow>
                (let entryMs = Date_parse h (if truthy (entry_ts e) then entry_ts e else JStr [])
                 in if entryMs = None \<or> number_less entryMs ms then False else True)))"

definition filterEntries :: "host \<Rightarrow> entry list \<Rightarrow> filters \<Rightarrow> entry list" where
  "filterEntries h entries f =
     (let sinceMs = (if present (filter_since f)
                     then Some (Date_parse h (JStr (the (filter_since f)))) else None)
      in filter (filterEntries_keep h f sinceMs) entries)"

text \<open>
  The words of the specification, for comparison: every present filter field equals the
  entry's field as a string, and with \<open>since\<close> present the entry's timestamp parses and
  is not earlier than the parsed \<open>since\<close>.
\<close>

definition field_matches :: "jsstring option \<Rightarrow> jsval \<Rightarrow> bool" where
  "field_matches f v = (if present f then v = JStr (the f) else True)"

definition entry_time :: "host \<Rightarrow> entry \<Rightarrow> int option" where
  "entry_time h e = Date_parse h (if truthy (entry_ts e) then entry_ts e else JStr [])"

definition since_matches :: "host \<Rightarrow> jsstring option \<Rightarrow> entry \<Rightarrow> bool" where
  "since_matches h since e =
     (if present since
      then entry_time h e \<noteq> None
             \<and> \<not> number_less (entry_time h e) (Date_parse h (JStr (the since)))
      else True)"

definition entry_matches :: "host \<Rightarrow> filters \<Rightarrow> entry \<Rightarrow> bool" where
  "entry_matches h f e =
     (field_matches (filter_project f) (entry_project e)
      \<and> field_matches (filter_agent f) (entry_agent e)
      \<and> field_matches (filter_session_id f) (entry_session_id e)
      \<and> field_matches (filter_kind f) (entry_kind e)
      \<and> since_matches h (filter_since f) e)"

text \<open>
  \<^verbatim>\<open>function getSummaryLatestTsMs(summary)\<close>; \<open>None\<close> is
  \<^verbatim>\<open>Number.NEGATIVE_INFINITY\<close>.
\<close>

definition getSummaryLatestTsMs :: "host \<Rightarrow> session_summary \<Rightarrow> int option" where
  "getSummaryLatestTsMs h summary =
     (case latest_ts_ms summary of
        Some ms \<Rightarrow> Some ms
      | None \<Rightarrow>
          (case latest_ts summary of
             None \<Rightarrow> None
           | Some t \<Rightarrow> (if t \<noteq> [] then Date_parse h (JStr t) else None)))"

text \<open>
  The comparator of \<^verbatim>\<open>function sortSessionSummaries(summaries)\<close>. Only the sign of
  its result is read: where a timestamp is minus infinity the infinite difference is
  given as 1 or -1.
\<close>

definition compareSummaries :: "host \<Rightarrow> session_summary \<Rightarrow> session_summary \<Rightarrow> int" where
  "compareSummaries h a b =
     (let aTs = getSummaryLatestTsMs h a;
          bTs = getSummaryLatestTsMs h b
      in if bTs \<noteq> aTs
         then (case (bTs, aTs) of
                 (Some y, Some x) \<Rightarrow> y - x
               | (Some y, None) \<Rightarrow> 1
               | (None, _) \<Rightarrow> - 1)
         else (let aIndex = latest_file_index a;
                   bIndex = latest_file_index b
               in if bIndex \<noteq> aIndex then bIndex - aIndex
                  else localeCompare h (session_id a) (session_id b)))"

text \<open>
  \<^verbatim>\<open>Array.prototype.sort(comparator)\<close> is stable: each element goes before the first
  later element it does not compare greater than.
\<close>

fun insert_sorted :: "('a \<Rightarrow> 'a \<Rightarrow> int) \<Rightarrow> 'a \<Rightarrow> 'a list \<Rightarrow> 'a list" where
  "insert_sorted cmp x [] = [x]"
| "insert_sorted cmp x (y # ys) =
     (if cmp x y \<le> 0 then x # y # ys else y # insert_sorted cmp x ys)"

definition array_sort :: "('a \<Rightarrow> 'a \<Rightarrow> int) \<Rightarrow> 'a list \<Rightarrow> 'a list" where
  "array_sort cmp xs = foldr (insert_sorted cmp) xs []"

definition sortSessionSummaries :: "host \<Rightarrow> session_summary list \<Rightarrow> session_summary list" where
  "sortSessionSummaries h summaries = array_sort (compareSummaries h) summaries"

text \<open>
  The order the comparator gives, for comparison: latest timestamp descending, then
  latest file index descending, then session id ascending in the host's string order.
\<close>

definition ts_greater :: "int option \<Rightarrow> int option \<Rightarrow> bool" where
  "ts_greater a b =
     (case (a, b) of
        (Some x, Some y) \<Rightarrow> x > y
      | (Some x, None) \<Rightarrow> True
      | (None, _) \<Rightarrow> False)"

definition listed_before :: "host \<Rightarrow> session_summary \<Rightarrow> session_summary \<Rightarrow> bool" where
  "listed_before h a b =
     (ts_greater (getSummaryLatestTsMs h a) (getSummaryLatestTsMs h b)
      \<or> (getSummaryLatestTsMs h a = getSummaryLatestTsMs h b
          \<and> (latest_file_index a > latest_file_index b
              \<or> (latest_file_index a = latest_file_index b
                  \<and> localeCompare h (session_id a) (session_id b) \<le> 0))))"

text \<open>
  The order as the specification words it: the third key is the lexicographic order of
  the session ids, which on strings is the order of their code units.
\<close>

definition spec_listed_before :: "host \<Rightarrow> session_summary \<Rightarrow> session_summary \<Rightarrow> bool" where
  "spec_listed_before h a b =
     (ts_greater (getSummaryLatestTsMs h a) (getSummaryLatestTsMs h b)
      \<or> (getSummaryLatestTsMs h a = getSummaryLatestTsMs h b
          \<and> (latest_file_index a > latest_file_index b
              \<or> (latest_file_index a = latest_file_index b
                  \<and> session_id a \<le> session_id b))))"

text \<open>What sorting needs of \<^verbatim>\<open>localeCompare\<close>: a total preorder on strings.\<close>

definition consistent_collation :: "(jsstring \<Rightarrow> jsstring \<Rightarrow> int) \<Rightarrow> bool" where
  "consistent_collation lc =
     ((\<forall>a b. lc a b \<le> 0 \<or> lc b a \<le> 0)
      \<and> (\<forall>a b c. lc a b \<le> 0 \<and> lc b c \<le> 0 \<longrightarrow> lc a c \<le> 0))"

text \<open>
  \<^verbatim>\<open>function buildSessionSummaries(entries, { includeUnsessioned })\<close>. The
  \<^verbatim>\<open>Map\<close> keeps its keys in insertion order.
\<close>

fun summaries_forEach ::
  "host \<Rightarrow> bool \<Rightarrow> (jsstring \<times> session_summary) list \<Rightarrow> entry list \<Rightarrow> int
     \<Rightarrow> (jsstring \<times> session_summary) list" where
  "summaries_forEach h includeUnsessioned sessions [] i = sessions"
| "summaries_forEach h includeUnsessioned sessions (e # es) i =
     (let rawSessionId = (case entry_session_id e of JStr s \<Rightarrow> js_trim s | _ \<Rightarrow> []);
          sessionId = (if rawSessionId \<noteq> [] then rawSessionId
                       else if includeUnsessioned then NO_SESSION_BUCKET else [])
      in if sessionId = [] then summaries_forEach h includeUnsessioned sessions es (i + 1)
         else (let summary = (case map_of sessions sessionId of
                                None \<Rightarrow> makeSessionSummary sessionId (entry_project e)
                              | Some s \<Rightarrow> s)
               in summaries_forEach h includeUnsessioned
                    (AList.update sessionId (applyEntryToSessionSummary h summary e i) sessions)
                    es (i + 1)))"

definition buildSessionSummaries :: "host \<Rightarrow> entry list \<Rightarrow> bool \<Rightarrow> session_summary list" where
  "buildSessionSummaries h entries includeUnsessioned =
     sortSessionSummaries h
       (map (\<lambda>(k, summary). summary\<lparr>agents := sort (agents summary)\<rparr>)
          (summaries_forEach h includeUnsessioned [] entries 0))"

text \<open>
  \<^verbatim>\<open>Object.values(bucket)\<close>: the values of the keys that are array indices (canonical
  decimal numerals below \<open>2^32 - 1\<close>) in ascending numeric order, then those of the other
  keys in insertion order.
\<close>

definition is_digit :: "jschar \<Rightarrow> bool" where
  "is_digit c = (0x30 \<le> c \<and> c \<le> 0x39)"

definition numeral_value :: "jsstring \<Rightarrow> nat" where
  "numeral_value k = foldl (\<lambda>n c. 10 * n + (unat c - 48)) 0 k"

definition is_array_index :: "jsstring \<Rightarrow> bool" where
  "is_array_index k =
     (k \<noteq> [] \<and> list_all is_digit k \<and> (k = [0x30] \<or> hd k \<noteq> 0x30)
      \<and> numeral_value k < 4294967295)"

definition object_values :: "(jsstring \<times> 'v) list \<Rightarrow> 'v list" where
  "object_values obj =
     map snd (sort_key (\<lambda>(k, v). numeral_value k) (filter (\<lambda>(k, v). is_array_index k) obj))
     @ map snd (filter (\<lambda>(k, v). \<not> is_array_index k) obj)"

text \<open>\<^verbatim>\<open>function listProjectSessionsFromIndex(index, project)\<close>.\<close>

definition listProjectSessionsFromIndex ::
  "host \<Rightarrow> session_index option \<Rightarrow> jsstring \<Rightarrow> session_summary list" where
  "listProjectSessionsFromIndex h index proj =
     (case index of
        None \<Rightarrow> []
      | Some ix \<Rightarrow>
          (case map_of (projects ix) proj of
             None \<Rightarrow> []
           | Some bucket \<Rightarrow>
               sortSessionSummaries h
                 (map (\<lambda>summary. summary\<lparr>agents := sort (agents summary)\<rparr>)
                    (object_values bucket))))"

section \<open>Read cache\<close>

text \<open>What \<^verbatim>\<open>fs.stat\<close> reports of the log: its size in bytes and \<^verbatim>\<open>mtimeMs\<close>.\<close>

record file_stat =
  stat_size :: nat
  stat_mtimeMs :: rat

definition Math_trunc :: "rat \<Rightarrow> int" where
  "Math_trunc r = (if r \<ge> 0 then \<lfloor>r\<rfloor> else \<lceil>r\<rceil>)"

text \<open>\<^verbatim>\<open>function makeFileSignature(stat)\<close>; \<open>None\<close> is null.\<close>

definition makeFileSignature :: "file_stat option \<Rightarrow> signature option" where
  "makeFileSignature st =
     (case st of
        None \<Rightarrow> None
      | Some s \<Rightarrow> Some (stat_size s, Math_trunc (stat_mtimeMs s)))"

text \<open>Decimal digits of a number in a message.\<close>

definition digit_char :: "nat \<Rightarrow> char" where
  "digit_char d =
     (if d = 0 then CHR ''0'' else if d = 1 then CHR ''1'' else if d = 2 then CHR ''2''
      else if d = 3 then CHR ''3'' else if d = 4 then CHR ''4'' else if d = 5 then CHR ''5''
      else if d = 6 then CHR ''6'' else if d = 7 then CHR ''7'' else if d = 8 then CHR ''8''
      else CHR ''9'')"

fun show_nat :: "nat \<Rightarrow> string" where
  "show_nat n =
     (if n < 10 then [digit_char n]
      else show_nat (n div 10) @ [digit_char (n mod 10)])"

declare show_nat.simps [simp del]

definition SizeExceeded :: "config \<Rightarrow> error" where
  "SizeExceeded cfg =
     Error (''Context file exceeds configured max size ('' @ show_nat (MAX_CONTEXT_FILE_BYTES cfg)
            @ '' bytes): '' @ CONTEXT_FILE cfg)"

text \<open>
  What one pass of the loop of \<^verbatim>\<open>readEntries\<close> gets from the file system, in the
  order of its calls: \<^verbatim>\<open>statContextFile()\<close> (null for ENOENT, or another error
  thrown), \<^verbatim>\<open>fs.readFile\<close>, \<^verbatim>\<open>statContextFile()\<close> again. The statements after
  the loop call \<^verbatim>\<open>readRawContextFile()\<close>, which stats and reads once more.
\<close>

record read_obs =
  obs_beforeStat :: "error + file_stat option"
  obs_readFile :: "error + jsstring"
  obs_afterStat :: "error + file_stat option"

record read_world =
  attempt_obs :: "nat \<Rightarrow> read_obs"
  raw_stat :: "error + file_stat"
  raw_readFile :: "error + jsstring"

record read_result =
  rr_raw :: jsstring
  rr_entries :: "jsval list"
  rr_parseErrors :: "parse_error list"
  rr_signature :: "signature option"

text \<open>\<^verbatim>\<open>async function readRawContextFile()\<close>.\<close>

definition readRawContextFile :: "config \<Rightarrow> read_world \<Rightarrow> error + jsstring" where
  "readRawContextFile cfg w =
     (case raw_stat w of
        Inl err \<Rightarrow> (if error_code err = Some ''ENOENT'' then Inr [] else Inl err)
      | Inr st \<Rightarrow>
          (if stat_size st > MAX_CONTEXT_FILE_BYTES cfg then Inl (SizeExceeded cfg)
           else (case raw_readFile w of
                   Inl err \<Rightarrow> (if error_code err = Some ''ENOENT'' then Inr [] else Inl err)
                 | Inr raw \<Rightarrow> Inr raw)))"

text \<open>
  \<^verbatim>\<open>async function readEntries()\<close>. The body of the loop
  \<^verbatim>\<open>for (let attempt = 0; attempt < 2; attempt += 1)\<close> either returns (or throws)
  or goes on to the next pass with \<^verbatim>\<open>continue\<close>.
\<close>

datatype 'a loop_step = Continue | Return 'a

definition readEntries_attempt ::
  "(jsstring \<Rightarrow> string + jsval) \<Rightarrow> config \<Rightarrow> read_obs \<Rightarrow> state \<Rightarrow> nat
     \<Rightarrow> ((error + read_result) \<times> state) loop_step" where
  "readEntries_attempt json_parse cfg ob st attempt =
     (case obs_beforeStat ob of
        Inl err \<Rightarrow> Return (Inl err, st)
      | Inr beforeStat \<Rightarrow>
          (let beforeSignature = makeFileSignature beforeStat in
           if beforeSignature \<noteq> None \<and> cc_signature (contextCache st) = beforeSignature
           then Return (Inr \<lparr>rr_raw = cc_raw (contextCache st),
                             rr_entries = cc_entries (contextCache st),
                             rr_parseErrors = cc_parseErrors (contextCache st),
                             rr_signature = cc_signature (contextCache st)\<rparr>, st)
           else (case beforeStat of
                   None \<Rightarrow>
                     Return (Inr \<lparr>rr_raw = [], rr_entries = [], rr_parseErrors = [],
                                  rr_signature = None\<rparr>,
                             invalidateContextCache st)
                 | Some bs \<Rightarrow>
                     (if stat_size bs > MAX_CONTEXT_FILE_BYTES cfg
                      then Return (Inl (SizeExceeded cfg), st)
                      else (case obs_readFile ob of
                              Inl err \<Rightarrow> Return (Inl err, st)
                            | Inr raw \<Rightarrow>
                                (case obs_afterStat ob of
                                   Inl err \<Rightarrow> Return (Inl err, st)
                                 | Inr afterStat \<Rightarrow>
                                     (let afterSignature = makeFileSignature afterStat in
                                      if beforeSignature \<noteq> None \<and> afterSignature \<noteq> None
                                         \<and> beforeSignature \<noteq> afterSignature \<and> attempt = 0
                                      then Continue
                                      else
                                        (let parsed = parseEntries json_parse raw in
                                         if afterSignature \<noteq> None \<and> beforeSignature \<noteq> None
                                            \<and> beforeSignature = afterSignature
                                         then Return
                                                (Inr \<lparr>rr_raw = raw, rr_entries = fst parsed,
                                                      rr_parseErrors = snd parsed,
                                                      rr_signature = afterSignature\<rparr>,
                                                 st\<lparr>contextCache :=
                                                      \<lparr>cc_signature = afterSignature,
                                                       cc_raw = raw,
                                                       cc_entries = fst parsed,
                                                       cc_parseErrors = snd parsed\<rparr>\<rparr>)
                                         else Return
                                                (Inr \<lparr>rr_raw = raw, rr_entries = fst parsed,
                                                      rr_parseErrors = snd parsed,
                                                      rr_signature = None\<rparr>,
                                                 invalidateContextCache st)))))))))"

text \<open>The loop from \<open>attempt\<close> on, then the statements after it.\<close>

function readEntries_from ::
  "(jsstring \<Rightarrow> string + jsval) \<Rightarrow> config \<Rightarrow> read_world \<Rightarrow> state \<Rightarrow> nat
     \<Rightarrow> (error + read_result) \<times> state" where
  "readEntries_from json_parse cfg w st attempt =
     (if attempt < 2 then
        (case readEntries_attempt json_parse cfg (attempt_obs w attempt) st attempt of
           Continue \<Rightarrow> readEntries_from json_parse cfg w st (attempt + 1)
         | Return r \<Rightarrow> r)
      else
        (case readRawContextFile cfg w of
           Inl err \<Rightarrow> (Inl err, st)
         | Inr raw \<Rightarrow>
             (let parsed = parseEntries json_parse raw in
              (Inr \<lparr>rr_raw = raw, rr_entries = fst parsed, rr_parseErrors = snd parsed,
                    rr_signature = None\<rparr>, st))))"
  by pat_completeness auto
termination
  by (relation "measure (\<lambda>(json_parse, cfg, w, st, attempt). 2 - attempt)") auto

declare readEntries_from.simps [simp del]

definition readEntries ::
  "(jsstring \<Rightarrow> string + jsval) \<Rightarrow> config \<Rightarrow> read_world \<Rightarrow> state
     \<Rightarrow> (error + read_result) \<times> state" where
  "readEntries json_parse cfg w st = readEntries_from json_parse cfg w st 0"

text \<open>
  For the statement on file states: the log at one instant is its text, its size and
  its modification time. Writers only append, and an append adds at least the newline,
  so from one instant to a later one the log is the same or has grown.
\<close>

record log_file =
  log_raw :: jsstring
  log_size :: nat
  log_mtimeMs :: rat

definition stat_of :: "log_file \<Rightarrow> file_stat" where
  "stat_of f = \<lparr>stat_size = log_size f, stat_mtimeMs = log_mtimeMs f\<rparr>"

definition grown :: "log_file \<Rightarrow> log_file \<Rightarrow> bool" where
  "grown a b = (a = b \<or> log_size a < log_size b)"

text \<open>The cache is coherent when it is empty or holds the parse of its own text.\<close>

definition cache_coherent :: "(jsstring \<Rightarrow> string + jsval) \<Rightarrow> context_cache \<Rightarrow> bool" where
  "cache_coherent json_parse c =
     (cc_signature c = None
      \<or> (cc_entries c, cc_parseErrors c) = parseEntries json_parse (cc_raw c))"

text \<open>
  An attempt stored its read in the cache \<open>c\<close>: both signatures around the read are
  the cached one, the cached text is the text read, and the cached parse is its parse.
\<close>

definition stored_by_attempt ::
  "(jsstring \<Rightarrow> string + jsval) \<Rightarrow> read_obs \<Rightarrow> context_cache \<Rightarrow> bool" where
  "stored_by_attempt json_parse ob c =
     (case obs_beforeStat ob of
        Inl _ \<Rightarrow> False
      | Inr beforeStat \<Rightarrow>
          (case obs_readFile ob of
             Inl _ \<Rightarrow> False
           | Inr raw \<Rightarrow>
               (case obs_afterStat ob of
                  Inl _ \<Rightarrow> False
                | Inr afterStat \<Rightarrow>
                    cc_signature c \<noteq> None
                    \<and> makeFileSignature beforeStat = cc_signature c
                    \<and> makeFileSignature afterStat = cc_signature c
                    \<and> cc_raw c = raw
                    \<and> (cc_entries c, cc_parseErrors c) = parseEntries json_parse raw)))"

text \<open>
  An attempt is torn: it misses the cache, reads the file, and the signature after the
  read is another one than before it.
\<close>

definition torn_attempt :: "config \<Rightarrow> state \<Rightarrow> read_obs \<Rightarrow> bool" where
  "torn_attempt cfg st ob =
     (case obs_beforeStat ob of
        Inr (Some bs) \<Rightarrow>
          (case obs_readFile ob of
             Inl _ \<Rightarrow> False
           | Inr raw \<Rightarrow>
               (case obs_afterStat ob of
                  Inr (Some as) \<Rightarrow>
                    cc_signature (contextCache st) \<noteq> makeFileSignature (Some bs)
                    \<and> stat_size bs \<le> MAX_CONTEXT_FILE_BYTES cfg
                    \<and> makeFileSignature (Some bs) \<noteq> makeFileSignature (Some as)
                | _ \<Rightarrow> False))
      | _ \<Rightarrow> False)"

text \<open>An attempt whose three calls see the log in the states \<open>s1\<close>, \<open>s2\<close>, \<open>s3\<close>.\<close>

definition obs_of :: "log_file \<Rightarrow> log_file \<Rightarrow> log_file \<Rightarrow> read_obs" where
  "obs_of s1 s2 s3 =
     \<lparr>obs_beforeStat = Inr (Some (stat_of s1)),
      obs_readFile = Inr (log_raw s2),
      obs_afterStat = Inr (Some (stat_of s3))\<rparr>"

section \<open>Session resolution\<close>

definition MissingSessionId :: error where
  "MissingSessionId =
     Error ''Missing session_id. Choose one with list_sessions/choose_session (or run pick-session.mjs) and try again.''"

text \<open>A variable of \<^verbatim>\<open>process.env\<close> is a string or undefined.\<close>

definition env_value :: "jsstring option \<Rightarrow> jsval" where
  "env_value v = (case v of None \<Rightarrow> JUndefined | Some s \<Rightarrow> JStr s)"

text \<open>
  \<^verbatim>\<open>async function readActiveSessionId()\<close>. \<open>envOverride\<close> is
  \<^verbatim>\<open>process.env.MCP_SHARED_CONTEXT_ACTIVE_SESSION\<close>; \<open>pointerFile\<close> is what
  \<^verbatim>\<open>fs.readFile(ACTIVE_SESSION_FILE, "utf8")\<close> gives when it is called.
\<close>

definition readActiveSessionId ::
  "jsstring option \<Rightarrow> error + jsstring \<Rightarrow> error + jsstring option" where
  "readActiveSessionId envOverride pointerFile =
     (case normalizeSessionId (env_value envOverride) of
        Inl err \<Rightarrow> Inl err
      | Inr (Some envSessionId) \<Rightarrow> Inr (Some envSessionId)
      | Inr None \<Rightarrow>
          (case pointerFile of
             Inr txt \<Rightarrow> normalizeSessionId (JStr txt)
           | Inl err \<Rightarrow> (if error_code err = Some ''ENOENT'' then Inr None else Inl err)))"

text \<open>\<^verbatim>\<open>async function resolveSessionIdInput(value, { required = false } = {})\<close>.\<close>

definition resolveSessionIdInput ::
  "jsstring option \<Rightarrow> error + jsstring \<Rightarrow> jsval \<Rightarrow> bool \<Rightarrow> error + jsstring option" where
  "resolveSessionIdInput envOverride pointerFile v required =
     (case normalizeSessionId v of
        Inl err \<Rightarrow> Inl err
      | Inr (Some explicit) \<Rightarrow> Inr (Some explicit)
      | Inr None \<Rightarrow>
          (case readActiveSessionId envOverride pointerFile of
             Inl err \<Rightarrow> Inl err
           | Inr (Some active) \<Rightarrow> Inr (Some active)
           | Inr None \<Rightarrow> (if required then Inl MissingSessionId else Inr None)))"

section \<open>Lock manager and append\<close>

definition LockTimeout :: "config \<Rightarrow> error" where
  "LockTimeout cfg = Error (''Timed out waiting for context lock ('' @ LOCK_FILE cfg @ '')'')"

text \<open>
  What one pass of the loop of \<^verbatim>\<open>withWriteLock\<close> gets from the host, in the order
  of its calls: \<^verbatim>\<open>fs.open(LOCK_FILE, "wx")\<close> (\<open>None\<close> is success),
  \<^verbatim>\<open>handle.writeFile\<close>, \<^verbatim>\<open>Date.now()\<close> in the catch block, then in
  \<^verbatim>\<open>maybeBreakStaleLock\<close> the \<^verbatim>\<open>mtimeMs\<close> of \<^verbatim>\<open>fs.stat(LOCK_FILE)\<close> and
  \<^verbatim>\<open>Date.now()\<close>, and \<^verbatim>\<open>Math.random()\<close>.
\<close>

record lock_obs =
  open_result :: "error option"
  metadata_write :: "error option"
  now_on_failure :: int
  lock_stat :: "error + rat"
  now_on_stat :: int
  random :: rat

definition add_effect :: "state \<Rightarrow> effect \<Rightarrow> state" where
  "add_effect st e = st\<lparr>effects := effects st @ [e]\<rparr>"

text \<open>
  \<^verbatim>\<open>async function maybeBreakStaleLock()\<close>. The unlink is best effort: its own
  failure is swallowed.
\<close>

definition maybeBreakStaleLock :: "lock_obs \<Rightarrow> state \<Rightarrow> error option \<times> state" where
  "maybeBreakStaleLock ob st =
     (case lock_stat ob of
        Inr mtimeMs \<Rightarrow>
          (if of_int (now_on_stat ob) - mtimeMs > STALE_LOCK_MS
           then (None, add_effect st UnlinkedStaleLock)
           else (None, st))
      | Inl err \<Rightarrow> (if error_code err \<noteq> Some ''ENOENT'' then (Some err, st) else (None, st)))"

definition backoff_ms :: "lock_obs \<Rightarrow> int" where
  "backoff_ms ob = 40 + \<lfloor>random ob * 60\<rfloor>"

text \<open>
  \<^verbatim>\<open>async function withWriteLock(fn)\<close>, \<open>start\<close> being the first \<^verbatim>\<open>Date.now()\<close>.
  One pass of \<^verbatim>\<open>while (true)\<close> per observation; the result is \<open>None\<close> while the
  loop is still running when the observations end. What the \<^verbatim>\<open>try\<close> block
  throws, from \<^verbatim>\<open>fs.open\<close>, from \<^verbatim>\<open>handle.writeFile\<close> or from \<^verbatim>\<open>fn\<close>
  (after the \<^verbatim>\<open>finally\<close> released the lock), goes to the same catch block.
\<close>

fun withWriteLock ::
  "config \<Rightarrow> int \<Rightarrow> lock_obs list \<Rightarrow> (state \<Rightarrow> (error + 'a) \<times> state) \<Rightarrow> state
     \<Rightarrow> ((error + 'a) \<times> state) option" where
  "withWriteLock cfg start [] fn st = None"
| "withWriteLock cfg start (ob # rest) fn st =
     (let tried =
        (case open_result ob of
           Some err \<Rightarrow> (Inl err, st)
         | None \<Rightarrow>
             (case metadata_write ob of
                Some err \<Rightarrow> (Inl err, st)
              | None \<Rightarrow>
                  (case fn (add_effect st WroteLockMetadata) of
                     (r, st1) \<Rightarrow> (r, add_effect st1 ReleasedLock))))
      in (case tried of
            (Inr v, st1) \<Rightarrow> Some (Inr v, st1)
          | (Inl err, st1) \<Rightarrow>
              (if error_code err = Some ''EEXIST'' then
                 (if now_on_failure ob - start > MAX_LOCK_WAIT_MS
                  then Some (Inl (LockTimeout cfg), st1)
                  else (case maybeBreakStaleLock ob st1 of
                          (Some thrown, st2) \<Rightarrow> Some (Inl thrown, st2)
                        | (None, st2) \<Rightarrow>
                            withWriteLock cfg start rest fn
                              (add_effect st2 (Slept (backoff_ms ob)))))
               else Some (Inl err, st1))))"

text \<open>
  What \<^verbatim>\<open>appendEntry\<close> gets from the host besides the lock:
  \<^verbatim>\<open>ensureContextDirectory()\<close>, the first \<^verbatim>\<open>Date.now()\<close>, and inside the
  critical section the two \<^verbatim>\<open>statContextFile()\<close> around \<^verbatim>\<open>fs.appendFile\<close>, the
  index file and whether writing it succeeds.
\<close>

record append_world =
  mkdir_result :: "error option"
  lock_start :: int
  lock_passes :: "lock_obs list"
  cs_beforeStat :: "error + file_stat option"
  cs_appendFile :: "error option"
  cs_afterStat :: "error + file_stat option"
  cs_indexFile :: "session_index option"
  cs_indexWriteOk :: bool

text \<open>The function \<^verbatim>\<open>appendEntry\<close> passes to \<^verbatim>\<open>withWriteLock\<close>.\<close>

definition append_critical_section ::
  "host \<Rightarrow> config \<Rightarrow> append_world \<Rightarrow> entry \<Rightarrow> jsstring \<Rightarrow> state \<Rightarrow> (error + unit) \<times> state" where
  "append_critical_section h cfg w e line st =
     (case cs_beforeStat w of
        Inl err \<Rightarrow> (Inl err, st)
      | Inr beforeStat \<Rightarrow>
          (case cs_appendFile w of
             Some err \<Rightarrow> (Inl err, st)
           | None \<Rightarrow>
               (let st1 = add_effect st (AppendedLog line) in
                case cs_afterStat w of
                  Inl err \<Rightarrow> (Inl err, st1)
                | Inr afterStat \<Rightarrow>
                    (Inr (),
                     updateIndexOnAppend h cfg (cs_indexFile w) (cs_indexWriteOk w) st1 e
                       (makeFileSignature beforeStat) (makeFileSignature afterStat)))))"

text \<open>
  \<^verbatim>\<open>async function appendEntry(entry)\<close>; \<open>stringify\<close> is \<^verbatim>\<open>JSON.stringify\<close>.
\<close>

definition appendEntry ::
  "host \<Rightarrow> config \<Rightarrow> (entry \<Rightarrow> jsstring) \<Rightarrow> append_world \<Rightarrow> state \<Rightarrow> entry
     \<Rightarrow> ((error + unit) \<times> state) option" where
  "appendEntry h cfg stringify w st e =
     (case mkdir_result w of
        Some err \<Rightarrow> Some (Inl err, st)
      | None \<Rightarrow>
          (let line = stringify e @ [0x0A] in
           case withWriteLock cfg (lock_start w) (lock_passes w)
                  (append_critical_section h cfg w e line) st of
             None \<Rightarrow> None
           | Some (Inl err, st1) \<Rightarrow> Some (Inl err, st1)
           | Some (Inr u, st1) \<Rightarrow> Some (Inr u, invalidateContextCache st1)))"

text \<open>
  For the statements on the lock: the marker is never created in these passes; the wait
  runs into the timeout (every pass fails on the existing marker, and one of them finds
  the maximum wait exceeded before any \<^verbatim>\<open>fs.stat\<close> of the marker throws); the
  effects of waiting.
\<close>

definition never_created :: "lock_obs list \<Rightarrow> bool" where
  "never_created passes = list_all (\<lambda>ob. open_result ob \<noteq> None) passes"

fun times_out :: "int \<Rightarrow> lock_obs list \<Rightarrow> bool" where
  "times_out start [] = False"
| "times_out start (ob # rest) =
     (open_result ob = Some (SysError ''EEXIST'')
      \<and> (now_on_failure ob - start > MAX_LOCK_WAIT_MS
          \<or> ((case lock_stat ob of Inr _ \<Rightarrow> True | Inl err \<Rightarrow> error_code err = Some ''ENOENT'')
              \<and> times_out start rest)))"

fun is_wait_effect :: "effect \<Rightarrow> bool" where
  "is_wait_effect UnlinkedStaleLock = True"
| "is_wait_effect (Slept _) = True"
| "is_wait_effect _ = False"

text \<open>
  From \<open>st\<close> to \<open>st'\<close> the process has only waited for the lock: the caches are the
  same, and the effects added are stale-marker unlinks and sleeps.
\<close>

definition only_waited :: "state \<Rightarrow> state \<Rightarrow> bool" where
  "only_waited st st' =
     (contextCache st' = contextCache st
      \<and> sessionIndexCache st' = sessionIndexCache st
      \<and> take (length (effects st)) (effects st') = effects st
      \<and> list_all is_wait_effect (drop (length (effects st)) (effects st')))"

fun sleeps_after_break :: "effect list \<Rightarrow> bool" where
  "sleeps_after_break (UnlinkedStaleLock # Slept n # rest) = True"
| "sleeps_after_break (x # rest) = sleeps_after_break rest"
| "sleeps_after_break [] = False"

section \<open>Session listing\<close>

text \<open>The fields of a decoded log line that the code reads.\<close>

definition property :: "jsval \<Rightarrow> string \<Rightarrow> jsval" where
  "property v name =
     (case v of
        JObj props \<Rightarrow> (case map_of props (js name) of None \<Rightarrow> JUndefined | Some x \<Rightarrow> x)
      | _ \<Rightarrow> JUndefined)"

definition entry_of :: "jsval \<Rightarrow> entry" where
  "entry_of v =
     \<lparr>entry_ts = property v ''ts'',
      entry_kind = property v ''kind'',
      entry_project = property v ''project'',
      entry_agent = property v ''agent'',
      entry_session_id = property v ''session_id'',
      entry_task = property v ''task'',
      entry_summary = property v ''summary''\<rparr>"

text \<open>The options \<^verbatim>\<open>parseSessionListOptions\<close> returns.\<close>

record list_options =
  opt_project :: jsstring
  opt_agent :: "jsstring option"
  opt_since :: "jsstring option"
  opt_limit :: nat
  opt_includeUnsessioned :: bool
  opt_format :: jsstring

record list_result =
  lr_parseErrors :: "parse_error list"
  lr_allSessions :: "session_summary list"
  lr_visibleSessions :: "session_summary list"

text \<open>
  What \<^verbatim>\<open>buildSessionListResult\<close> gets from the file system:
  \<^verbatim>\<open>statContextFile()\<close>, the index file, the reads of \<^verbatim>\<open>readEntries\<close>, and
  whether writing the index file succeeds.
\<close>

record list_world =
  lw_stat :: "error + file_stat option"
  lw_indexFile :: "session_index option"
  lw_read :: read_world
  lw_indexWriteOk :: bool

definition canUseIndex :: "list_options \<Rightarrow> bool" where
  "canUseIndex options =
     (\<not> present (opt_agent options) \<and> \<not> present (opt_since options)
      \<and> \<not> opt_includeUnsessioned options)"

definition list_filters :: "list_options \<Rightarrow> filters" where
  "list_filters options =
     \<lparr>filter_project = Some (opt_project options),
      filter_agent = opt_agent options,
      filter_session_id = None,
      filter_kind = None,
      filter_since = opt_since options\<rparr>"

text \<open>
  The full scan, as both branches of \<^verbatim>\<open>buildSessionListResult\<close> compute it from
  the entries read: filter, summarize, cut to the limit.
\<close>

definition scan_sessions :: "host \<Rightarrow> list_options \<Rightarrow> read_result \<Rightarrow> list_result" where
  "scan_sessions h options r =
     (let filtered = filterEntries h (map entry_of (rr_entries r)) (list_filters options);
          allSessions = buildSessionSummaries h filtered (opt_includeUnsessioned options)
      in \<lparr>lr_parseErrors = rr_parseErrors r,
          lr_allSessions = allSessions,
          lr_visibleSessions = take (opt_limit options) allSessions\<rparr>)"

text \<open>\<^verbatim>\<open>async function buildSessionListResult(options)\<close>.\<close>

definition buildSessionListResult ::
  "host \<Rightarrow> (jsstring \<Rightarrow> string + jsval) \<Rightarrow> config \<Rightarrow> list_world \<Rightarrow> state \<Rightarrow> list_options
     \<Rightarrow> (error + list_result) \<times> state" where
  "buildSessionListResult h json_parse cfg w st options =
     (if canUseIndex options then
        (case lw_stat w of
           Inl err \<Rightarrow> (Inl err, st)
         | Inr stat \<Rightarrow>
             (let contextSignature = makeFileSignature stat in
              if contextSignature = None
              then (Inr \<lparr>lr_parseErrors = [], lr_allSessions = [], lr_visibleSessions = []\<rparr>, st)
              else
                (case loadSessionIndex (lw_indexFile w) st contextSignature of
                   (Some indexed, st1) \<Rightarrow>
                     (let allSessions =
                            listProjectSessionsFromIndex h (Some indexed) (opt_project options)
                      in (Inr \<lparr>lr_parseErrors = [],
                               lr_allSessions = allSessions,
                               lr_visibleSessions = take (opt_limit options) allSessions\<rparr>,
                          st1))
                 | (None, st1) \<Rightarrow>
                     (case readEntries json_parse cfg (lw_read w) st1 of
                        (Inl err, st2) \<Rightarrow> (Inl err, st2)
                      | (Inr r, st2) \<Rightarrow>
                          (let indexSignature =
                                 (if rr_signature r \<noteq> None then rr_signature r
                                  else contextSignature)
                           in (case buildSessionIndexFromEntries h cfg
                                       (map entry_of (rr_entries r)) indexSignature of
                                 Inl err \<Rightarrow> (Inl err, st2)
                               | Inr rebuiltIndex \<Rightarrow>
                                   (Inr (scan_sessions h options r),
                                    persistSessionIndex (lw_indexWriteOk w) st2
                                      rebuiltIndex)))))))
      else
        (case readEntries json_parse cfg (lw_read w) st of
           (Inl err, st1) \<Rightarrow> (Inl err, st1)
         | (Inr r, st1) \<Rightarrow> (Inr (scan_sessions h options r), st1)))"

section \<open>The tool \<^verbatim>\<open>choose_session\<close>\<close>

text \<open>\<^verbatim>\<open>function asString(value, name, { required = false, trim = true } = {})\<close>.\<close>

definition asString :: "jsval \<Rightarrow> string \<Rightarrow> bool \<Rightarrow> bool \<Rightarrow> error + jsstring option" where
  "asString v name required trim =
     (case v of
        JUndefined \<Rightarrow>
          (if required then Inl (Error (''Missing required string: '' @ name)) else Inr None)
      | JNull \<Rightarrow>
          (if required then Inl (Error (''Missing required string: '' @ name)) else Inr None)
      | JStr s \<Rightarrow>
          (let out = (if trim then js_trim s else s) in
           if required \<and> out = [] then Inl (Error (''String cannot be empty: '' @ name))
           else Inr (Some out))
      | _ \<Rightarrow> Inl (Error (''Expected string for '' @ name)))"

text \<open>
  \<^verbatim>\<open>function asPositiveInt(value, name, fallback, min = 1, max = 200)\<close>;
  \<^verbatim>\<open>Number.isInteger\<close> is false of every value that is not a number.
\<close>

definition Number_isInteger :: "rat \<Rightarrow> bool" where
  "Number_isInteger r = (of_int \<lfloor>r\<rfloor> = r)"

definition asPositiveInt ::
  "jsval \<Rightarrow> string \<Rightarrow> int option \<Rightarrow> nat \<Rightarrow> nat \<Rightarrow> error + int option" where
  "asPositiveInt v name fallback lo hi =
     (case v of
        JUndefined \<Rightarrow> Inr fallback
      | JNull \<Rightarrow> Inr fallback
      | JNum r \<Rightarrow>
          (if \<not> Number_isInteger r then Inl (Error (''Expected integer for '' @ name))
           else if \<lfloor>r\<rfloor> < int lo \<or> \<lfloor>r\<rfloor> > int hi
           then Inl (Error (name @ '' must be between '' @ show_nat lo @ '' and '' @ show_nat hi))
           else Inr (Some \<lfloor>r\<rfloor>))
      | _ \<Rightarrow> Inl (Error (''Expected integer for '' @ name)))"

text \<open>\<^verbatim>\<open>function asBoolean(value, name, fallback = false)\<close>.\<close>

definition asBoolean :: "jsval \<Rightarrow> string \<Rightarrow> bool \<Rightarrow> error + bool" where
  "asBoolean v name fallback =
     (case v of
        JUndefined \<Rightarrow> Inr fallback
      | JNull \<Rightarrow> Inr fallback
      | JBool b \<Rightarrow> Inr b
      | _ \<Rightarrow> Inl (Error (''Expected boolean for '' @ name)))"

text \<open>\<^verbatim>\<open>function asIsoDateOrUndefined(value, name)\<close>.\<close>

definition asIsoDateOrUndefined :: "host \<Rightarrow> jsval \<Rightarrow> string \<Rightarrow> error + jsstring option" where
  "asIsoDateOrUndefined h v name =
     (case asString v name False True of
        Inl err \<Rightarrow> Inl err
      | Inr None \<Rightarrow> Inr None
      | Inr (Some txt) \<Rightarrow>
          (if txt = [] then Inr None
           else (case Date_parse h (JStr txt) of
                   None \<Rightarrow> Inl (Error (''Invalid date for '' @ name @ ''; expected ISO-8601''))
                 | Some ms \<Rightarrow> Inr (Some (toISOString h ms)))))"

text \<open>\<^verbatim>\<open>function normalizeProject(project)\<close>, of a string or undefined.\<close>

definition normalizeProject :: "config \<Rightarrow> jsstring option \<Rightarrow> jsstring" where
  "normalizeProject cfg p =
     (case p of
        None \<Rightarrow> DEFAULT_PROJECT cfg
      | Some s \<Rightarrow> (if js_trim s \<noteq> [] then js_trim s else DEFAULT_PROJECT cfg))"

text \<open>\<^verbatim>\<open>function normalizeFormat(value)\<close>.\<close>

definition normalizeFormat :: "jsval \<Rightarrow> error + jsstring" where
  "normalizeFormat v =
     (let fmt = (case v of JUndefined \<Rightarrow> JStr (js ''text'') | JNull \<Rightarrow> JStr (js ''text'') | _ \<Rightarrow> v)
      in if fmt = JStr (js ''text'') then Inr (js ''text'')
         else if fmt = JStr (js ''json'') then Inr (js ''json'')
         else Inl (Error (''format must be '' @ [CHR 0x27] @ ''text'' @ [CHR 0x27] @ '' or ''
                          @ [CHR 0x27] @ ''json'' @ [CHR 0x27])))"

text \<open>The arguments object of a tool call, by the properties the handler reads.\<close>

record tool_args =
  arg_project :: jsval
  arg_agent :: jsval
  arg_since :: jsval
  arg_limit :: jsval
  arg_include_unsessioned :: jsval
  arg_format :: jsval
  arg_index :: jsval
  arg_session_id :: jsval

text \<open>
  \<^verbatim>\<open>function parseSessionListOptions(args)\<close>: the properties of the object literal
  are evaluated in order, and the first exception ends the evaluation.
\<close>

definition parseSessionListOptions :: "host \<Rightarrow> config \<Rightarrow> tool_args \<Rightarrow> error + list_options" where
  "parseSessionListOptions h cfg args =
     (case asString (arg_project args) ''project'' False True of
        Inl err \<Rightarrow> Inl err
      | Inr p \<Rightarrow>
     (case asString (arg_agent args) ''agent'' False True of
        Inl err \<Rightarrow> Inl err
      | Inr agent \<Rightarrow>
     (case asIsoDateOrUndefined h (arg_since args) ''since'' of
        Inl err \<Rightarrow> Inl err
      | Inr since \<Rightarrow>
     (case asPositiveInt (arg_limit args) ''limit'' (Some 20) 1 200 of
        Inl err \<Rightarrow> Inl err
      | Inr limit \<Rightarrow>
     (case asBoolean (arg_include_unsessioned args) ''include_unsessioned'' False of
        Inl err \<Rightarrow> Inl err
      | Inr includeUnsessioned \<Rightarrow>
     (case normalizeFormat (arg_format args) of
        Inl err \<Rightarrow> Inl err
      | Inr fmt \<Rightarrow>
          Inr \<lparr>opt_project = normalizeProject cfg p,
               opt_agent = agent,
               opt_since = since,
               opt_limit = nat (the limit),
               opt_includeUnsessioned = includeUnsessioned,
               opt_format = fmt\<rparr>))))))"

text \<open>
  What the handler of \<^verbatim>\<open>choose_session\<close> returns, by its content (the rendering as
  text or JSON is left out): the two \<^verbatim>\<open>isError\<close> results and the selection.
\<close>

datatype choice_result =
    NoSessionAtIndex int nat
  | SessionNotFound jsstring
  | SessionChosen session_summary

record choose_world =
  cw_list :: list_world
  cw_mkdir :: "error option"
  cw_writeFile :: "error option"

text \<open>\<^verbatim>\<open>async function writeActiveSessionId(sessionId)\<close>.\<close>

definition writeActiveSessionId :: "choose_world \<Rightarrow> state \<Rightarrow> jsstring \<Rightarrow> error option \<times> state" where
  "writeActiveSessionId w st sessionId =
     (case normalizeSessionId (JStr sessionId) of
        Inl err \<Rightarrow> (Some err, st)
      | Inr None \<Rightarrow> (Some (Error ''Cannot persist empty session_id''), st)
      | Inr (Some normalized) \<Rightarrow>
          (case cw_mkdir w of
             Some err \<Rightarrow> (Some err, st)
           | None \<Rightarrow>
               (case cw_writeFile w of
                  Some err \<Rightarrow> (Some err, st)
                | None \<Rightarrow> (None, add_effect st (WroteActiveSession (normalized @ [0x0A]))))))"

text \<open>The branch \<^verbatim>\<open>if (name === "choose_session")\<close> of \<^verbatim>\<open>callTool\<close>.\<close>

definition choose_session ::
  "host \<Rightarrow> (jsstring \<Rightarrow> string + jsval) \<Rightarrow> config \<Rightarrow> choose_world \<Rightarrow> state \<Rightarrow> tool_args
     \<Rightarrow> (error + choice_result) \<times> state" where
  "choose_session h json_parse cfg w st args =
     (case parseSessionListOptions h cfg args of
        Inl err \<Rightarrow> (Inl err, st)
      | Inr options \<Rightarrow>
     (case asPositiveInt (arg_index args) ''index'' None 1 200 of
        Inl err \<Rightarrow> (Inl err, st)
      | Inr index \<Rightarrow>
     (case asString (arg_session_id args) ''session_id'' False True of
        Inl err \<Rightarrow> (Inl err, st)
      | Inr sessionId \<Rightarrow>
          (let hasIndex = (index \<noteq> None);
               hasSessionIdArg = (sessionId \<noteq> None)
           in if \<not> hasIndex \<and> \<not> hasSessionIdArg
              then (Inl (Error ''choose_session requires either index or session_id''), st)
              else if hasIndex \<and> hasSessionIdArg
              then (Inl (Error ''choose_session accepts either index or session_id, not both''), st)
              else
                (case buildSessionListResult h json_parse cfg (cw_list w) st options of
                   (Inl err, st1) \<Rightarrow> (Inl err, st1)
                 | (Inr lr, st1) \<Rightarrow>
                     (let selected =
                        (if hasIndex
                         then (if nat (the index - 1) < length (lr_visibleSessions lr)
                               then Some (lr_visibleSessions lr ! nat (the index - 1)) else None)
                         else find (\<lambda>session. session_id session = the sessionId)
                                (lr_allSessions lr))
                      in (case selected of
                            None \<Rightarrow>
                              (if hasIndex
                               then (Inr (NoSessionAtIndex (the index)
                                            (length (lr_visibleSessions lr))), st1)
                               else (Inr (SessionNotFound (the sessionId)), st1))
                          | Some chosen \<Rightarrow>
                              (case writeActiveSessionId w st1 (session_id chosen) of
                                 (Some err, st2) \<Rightarrow> (Inl err, st2)
                               | (None, st2) \<Rightarrow> (Inr (SessionChosen chosen), st2)))))))))"

text \<open>An argument is supplied when it is neither undefined nor null.\<close>

definition supplied :: "jsval \<Rightarrow> bool" where
  "supplied v = (v \<noteq> JUndefined \<and> v \<noteq> JNull)"

section \<open>Example data\<close>

text \<open>
  A host for examples: a timestamp is a decimal numeral of milliseconds, printed back in
  decimal, and strings compare by code units. No example has an entry that may read a
  name assigned on \<^verbatim>\<open>Object.prototype\<close>; this host ends such a loop with an
  exception.
\<close>

definition example_Date_parse :: "jsval \<Rightarrow> int option" where
  "example_Date_parse v =
     (case v of
        JStr s \<Rightarrow> (if s \<noteq> [] \<and> list_all is_digit s then Some (int (numeral_value s)) else None)
      | _ \<Rightarrow> None)"

definition code_unit_compare :: "jsstring \<Rightarrow> jsstring \<Rightarrow> int" where
  "code_unit_compare a b = (if a < b then - 1 else if a = b then 0 else 1)"

definition example_host :: host where
  "example_host =
     \<lparr>Date_parse = example_Date_parse,
      toISOString = (\<lambda>ms. js (show_nat (nat ms))),
      localeCompare = code_unit_compare,
      after_prototype_write = (\<lambda>written index es i. (Some TypeError, index))\<rparr>"

text \<open>
  A host whose \<^verbatim>\<open>localeCompare\<close> orders strings of ASCII letters as the collation
  of a locale does: by the letters first, whatever their case, then lower case before
  upper case at the first difference. In code units every upper case letter comes
  before every lower case one.
\<close>

definition to_lower :: "jschar \<Rightarrow> jschar" where
  "to_lower c = (if 0x41 \<le> c \<and> c \<le> 0x5A then c + 0x20 else c)"

definition collation_compare :: "jsstring \<Rightarrow> jsstring \<Rightarrow> int" where
  "collation_compare a b =
     (let la = map to_lower a; lb = map to_lower b
      in if la < lb then - 1
         else if lb < la then 1
         else if a = b then 0
         else if b < a then - 1
         else 1)"

definition collating_host :: host where
  "collating_host = example_host\<lparr>localeCompare := collation_compare\<rparr>"

definition example_config :: config where
  "example_config =
     \<lparr>DEFAULT_PROJECT = js ''shared'',
      MAX_CONTEXT_FILE_BYTES = 52428800,
      CONTEXT_FILE = ''/tmp/shared-context.jsonl'',
      LOCK_FILE = ''/tmp/shared-context.jsonl.lock''\<rparr>"

definition empty_state :: state where
  "empty_state =
     \<lparr>contextCache =
        \<lparr>cc_signature = None, cc_raw = [], cc_entries = [], cc_parseErrors = []\<rparr>,
      sessionIndexCache = \<lparr>cache_contextSignature = None, cache_index = None\<rparr>,
      effects = []\<rparr>"

definition example_note :: "string \<Rightarrow> string \<Rightarrow> entry" where
  "example_note sid ts =
     \<lparr>entry_ts = JStr (js ts),
      entry_kind = JStr (js ''note''),
      entry_project = JStr (js ''shared''),
      entry_agent = JStr (js ''codex''),
      entry_session_id = JStr (js sid),
      entry_task = JUndefined,
      entry_summary = JUndefined\<rparr>"

definition no_filters :: filters where
  "no_filters =
     \<lparr>filter_project = None, filter_agent = None, filter_session_id = None,
      filter_kind = None, filter_since = None\<rparr>"

text \<open>
  A log of one note in session \<open>a\<close>, its index, a process whose cache holds that index,
  and two appends.
\<close>

definition example_index :: session_index where
  "example_index =
     \<lparr>version = 1, context_signature = Some (1, 5), next_file_index = 1,
      projects =
        [(js ''shared'',
          [(js ''a'',
            \<lparr>session_id = js ''a'',
             project = JStr (js ''shared''),
             entry_count = 1, note_count = 1, handoff_count = 0,
             latest_ts = Some (js ''1000''),
             latest_ts_ms = Some 1000, latest_file_index = 0,
             last_entry_kind = JStr (js ''note''), task = None,
             agents = [js ''codex''],
             latest_handoff_summary = None\<rparr>)])]\<rparr>"

definition example_state :: state where
  "example_state =
     empty_state\<lparr>sessionIndexCache :=
       \<lparr>cache_contextSignature = Some (1, 5), cache_index = Some example_index\<rparr>\<rparr>"

definition example_appends :: "(entry \<times> signature) list" where
  "example_appends =
     [(example_note ''a'' ''1005'', (2, 7)), (example_note ''b'' ''1003'', (3, 9))]"

text \<open>A summary with a given session id, latest timestamp and latest file index.\<close>

definition example_summary :: "string \<Rightarrow> int \<Rightarrow> int \<Rightarrow> session_summary" where
  "example_summary sid ms idx =
     (makeSessionSummary (js sid) JUndefined)\<lparr>latest_ts_ms := Some ms, latest_file_index := idx\<rparr>"

text \<open>
  Two states of the log, before and after an append, and two worlds: in the first the
  append falls into the first attempt of a read; in the second, appends fall into both.
\<close>

definition log_one :: log_file where
  "log_one = \<lparr>log_raw = js ''{}'' @ [0x0A], log_size = 3, log_mtimeMs = 1000\<rparr>"

definition log_two :: log_file where
  "log_two =
     \<lparr>log_raw = js ''{}'' @ [0x0A] @ js ''[]'' @ [0x0A], log_size = 6, log_mtimeMs = 4001 / 2\<rparr>"

definition log_three :: log_file where
  "log_three =
     \<lparr>log_raw = js ''{}'' @ [0x0A] @ js ''[]'' @ [0x0A] @ js ''{}'' @ [0x0A], log_size = 9,
      log_mtimeMs = 3000\<rparr>"

definition no_raw_read :: "(nat \<Rightarrow> read_obs) \<Rightarrow> read_world" where
  "no_raw_read obs =
     \<lparr>attempt_obs = obs, raw_stat = Inl (SysError ''ENOENT''), raw_readFile = Inr []\<rparr>"

definition torn_once_world :: read_world where
  "torn_once_world =
     no_raw_read (\<lambda>k. if k = 0 then obs_of log_one log_two log_two
                      else obs_of log_two log_two log_two)"

definition torn_twice_world :: read_world where
  "torn_twice_world =
     no_raw_read (\<lambda>k. if k = 0 then obs_of log_one log_one log_two
                      else obs_of log_two log_two log_three)"

text \<open>
  Passes of the lock loop, the first \<^verbatim>\<open>Date.now()\<close> being 0: the marker exists and
  is stale (its \<^verbatim>\<open>mtimeMs\<close> is 1000 at time 100000); the marker is free; the marker
  exists and is fresh, at time \<open>now\<close>.
\<close>

definition stale_pass :: lock_obs where
  "stale_pass =
     \<lparr>open_result = Some (SysError ''EEXIST''), metadata_write = None, now_on_failure = 100,
      lock_stat = Inr 1000, now_on_stat = 100000, random = 0\<rparr>"

definition free_pass :: lock_obs where
  "free_pass =
     \<lparr>open_result = None, metadata_write = None, now_on_failure = 0,
      lock_stat = Inl (SysError ''ENOENT''), now_on_stat = 0, random = 0\<rparr>"

definition busy_pass :: "int \<Rightarrow> lock_obs" where
  "busy_pass now =
     \<lparr>open_result = Some (SysError ''EEXIST''), metadata_write = None, now_on_failure = now,
      lock_stat = Inr (of_int now - 10), now_on_stat = now, random = 1 / 2\<rparr>"

definition do_nothing :: "state \<Rightarrow> (error + unit) \<times> state" where
  "do_nothing st = (Inr (), st)"

definition held_world :: append_world where
  "held_world =
     \<lparr>mkdir_result = None, lock_start = 0, lock_passes = [busy_pass 3000, busy_pass 6000],
      cs_beforeStat = Inr None, cs_appendFile = None, cs_afterStat = Inr None,
      cs_indexFile = None, cs_indexWriteOk = True\<rparr>"

text \<open>
  Listing options for the project \<open>shared\<close> with no filter, a world in which the log
  has the signature of \<open>example_index\<close>, and the summary that index holds.
\<close>

definition plain_options :: list_options where
  "plain_options =
     \<lparr>opt_project = js ''shared'', opt_agent = None, opt_since = None, opt_limit = 20,
      opt_includeUnsessioned = False, opt_format = js ''text''\<rparr>"

definition indexed_world :: list_world where
  "indexed_world =
     \<lparr>lw_stat = Inr (Some \<lparr>stat_size = 1, stat_mtimeMs = 5\<rparr>),
      lw_indexFile = None,
      lw_read = torn_twice_world,
      lw_indexWriteOk = True\<rparr>"


text \<open>A validation error is a plain \<^verbatim>\<open>Error\<close>, not an error of the file system.\<close>

fun is_plain_error :: "error \<Rightarrow> bool" where
  "is_plain_error (Error _) = True"
| "is_plain_error (SysError _) = False"
| "is_plain_error TypeError = False"

text \<open>Tool arguments with no property set, and a world for \<^verbatim>\<open>choose_session\<close>.\<close>

definition no_args :: tool_args where
  "no_args =
     \<lparr>arg_project = JUndefined, arg_agent = JUndefined, arg_since = JUndefined,
      arg_limit = JUndefined, arg_include_unsessioned = JUndefined, arg_format = JUndefined,
      arg_index = JUndefined, arg_session_id = JUndefined\<rparr>"

definition choosing_world :: choose_world where
  "choosing_world = \<lparr>cw_list = indexed_world, cw_mkdir = None, cw_writeFile = None\<rparr>"

section \<open>Properties of parsing\<close>

lemma split_lines_single: "0x0A \<notin> set a \<Longrightarrow> split_lines a = [a]"
  by (induction a) (auto split: list.splits dest: hd_in_set)

lemma split_lines_nonempty: "split_lines s \<noteq> []"
  by (induction s) (auto split: list.splits)

lemma split_lines_first:
  "0x0A \<notin> set a \<Longrightarrow>
     split_lines (a @ 0x0A # rest)
       = (if a \<noteq> [] \<and> last a = 0x0D then butlast a else a) # split_lines rest"
proof (induction a)
  case Nil
  then show ?case by simp
next
  case (Cons c a)
  then show ?case
    by (cases a) (auto split: list.splits simp: split_lines_nonempty)
qed

lemma parseEntries_loop_spec:
  "parseEntries_loop jp lines i es pes =
     (es @ spec_entries jp lines,
      pes @ map (\<lambda>(n, l). \<lparr>pe_line = n, pe_error = error_text jp l\<rparr>)
              (rejected_lines jp (i + 1) lines))"
proof (induction lines arbitrary: i es pes)
  case Nil
  then show ?case by (simp add: spec_entries_def rejected_lines_def)
next
  case (Cons l ls)
  show ?case
    by (auto simp: Cons spec_entries_def rejected_lines_def accepted_line_def error_text_def
        split: sum.splits)
qed

lemma parseEntries_spec:
  "parseEntries jp raw =
     (spec_entries jp (split_lines raw), spec_parse_errors jp (split_lines raw))"
  by (simp add: parseEntries_def parseEntries_loop_spec spec_parse_errors_def)

lemma rejected_count:
  "length (rejected_lines jp i lines)
     = length (filter (\<lambda>l. \<not> is_blank_line l \<and> \<not> accepted_line jp l) lines)"
  by (induction lines arbitrary: i) (auto simp: rejected_lines_def)

lemma rejected_numbers:
  "(n, l) \<in> set (rejected_lines jp i lines) \<Longrightarrow>
     i \<le> n \<and> n < i + length lines \<and> lines ! (n - i) = l"
  by (auto simp: rejected_lines_def in_set_enumerate_eq)

text \<open>
  C6. For every raw text and every decoder: the text is split at each LF, a CR right
  before it being part of the separator; blank lines are ignored; the entries are the
  decoded values of the accepted lines, in file order; every other non-blank line gives
  exactly one parse error, with its 1-based line number; nothing aborts (the result is
  this pair for every input).
\<close>

theorem parseEntries_lines:
  "parseEntries jp raw
     = (spec_entries jp (split_lines raw), spec_parse_errors jp (split_lines raw))
   \<and> length (fst (parseEntries jp raw))
       = length (filter (\<lambda>l. \<not> is_blank_line l \<and> accepted_line jp l) (split_lines raw))
   \<and> length (snd (parseEntries jp raw))
       = length (filter (\<lambda>l. \<not> is_blank_line l \<and> \<not> accepted_line jp l) (split_lines raw))
   \<and> (\<forall>e \<in> set (snd (parseEntries jp raw)).
         1 \<le> pe_line e \<and> pe_line e \<le> length (split_lines raw)
         \<and> \<not> is_blank_line (split_lines raw ! (pe_line e - 1))
         \<and> \<not> accepted_line jp (split_lines raw ! (pe_line e - 1)))
   \<and> distinct (map pe_line (snd (parseEntries jp raw)))
   \<and> (0x0A \<notin> set a \<longrightarrow> split_lines a = [a])
   \<and> (0x0A \<notin> set a \<longrightarrow>
         split_lines (a @ 0x0A # rest)
           = (if a \<noteq> [] \<and> last a = 0x0D then butlast a else a) # split_lines rest)"
proof -
  let ?lines = "split_lines raw"
  have p: "parseEntries jp raw = (spec_entries jp ?lines, spec_parse_errors jp ?lines)"
    by (rule parseEntries_spec)
  have c1: "length (fst (parseEntries jp raw))
       = length (filter (\<lambda>l. \<not> is_blank_line l \<and> accepted_line jp l) ?lines)"
    by (simp add: p spec_entries_def)
  have c2: "length (snd (parseEntries jp raw))
       = length (filter (\<lambda>l. \<not> is_blank_line l \<and> \<not> accepted_line jp l) ?lines)"
    by (simp add: p spec_parse_errors_def rejected_count)
  have c3: "\<forall>e \<in> set (snd (parseEntries jp raw)).
         1 \<le> pe_line e \<and> pe_line e \<le> length ?lines
         \<and> \<not> is_blank_line (?lines ! (pe_line e - 1))
         \<and> \<not> accepted_line jp (?lines ! (pe_line e - 1))"
  proof
    fix e assume "e \<in> set (snd (parseEntries jp raw))"
    then obtain n l where nl: "(n, l) \<in> set (rejected_lines jp 1 ?lines)" and e: "pe_line e = n"
      by (auto simp: p spec_parse_errors_def)
    from rejected_numbers[OF nl] have r: "1 \<le> n" "n < 1 + length ?lines" "?lines ! (n - 1) = l"
      by simp_all
    from nl have "\<not> is_blank_line l \<and> \<not> accepted_line jp l"
      by (auto simp: rejected_lines_def)
    with r e show "1 \<le> pe_line e \<and> pe_line e \<le> length ?lines
         \<and> \<not> is_blank_line (?lines ! (pe_line e - 1))
         \<and> \<not> accepted_line jp (?lines ! (pe_line e - 1))" by simp
  qed
  have "map pe_line (snd (parseEntries jp raw)) = map fst (rejected_lines jp 1 ?lines)"
    by (simp add: p spec_parse_errors_def case_prod_beta cong: map_cong)
  moreover have "distinct (map fst (rejected_lines jp 1 ?lines))"
    unfolding rejected_lines_def by (rule distinct_map_filter) (simp add: enumerate_eq_zip)
  ultimately have c4: "distinct (map pe_line (snd (parseEntries jp raw)))" by simp
  show ?thesis
    using p c1 c2 c3 c4 split_lines_single[of a] split_lines_first[of a rest] by blast
qed

theorem parseEntries_lines_witness:
  "parseEntries toy_json_parse
     (js ''{}'' @ [0x0D, 0x0A] @ js ''oops'' @ [0x0A, 0x0A] @ js ''[]'' @ [0x0A] @ js ''{}'')
     = ([JObj [], JObj []],
        [\<lparr>pe_line = 2, pe_error = ''SyntaxError''\<rparr>,
         \<lparr>pe_line = 4, pe_error = ''Error: line is not a JSON object''\<rparr>])
   \<and> split_lines (js ''{}'' @ 0x0A # js ''x'') = [js ''{}'', js ''x'']"
proof -
  let ?raw = "js ''{}'' @ [0x0D, 0x0A] @ js ''oops'' @ [0x0A, 0x0A] @ js ''[]'' @ [0x0A] @ js ''{}''"
  have n: "0x0A \<notin> set (js ''{}'')" by (simp add: js_def)
  from parseEntries_lines[of toy_json_parse ?raw "js ''{}''" "js ''x''"] n
  have "parseEntries toy_json_parse ?raw
          = (spec_entries toy_json_parse (split_lines ?raw),
             spec_parse_errors toy_json_parse (split_lines ?raw))"
    and "split_lines (js ''{}'' @ 0x0A # js ''x'')
           = (if js ''{}'' \<noteq> [] \<and> last (js ''{}'') = 0x0D then butlast (js ''{}'') else js ''{}'')
             # split_lines (js ''x'')"
    by blast+
  then show ?thesis
    by (simp add: js_def spec_entries_def spec_parse_errors_def rejected_lines_def
        toy_json_parse_def accepted_line_def error_text_def is_blank_line_def js_trim_def
        is_js_whitespace_def enumerate_eq_zip)
qed

section \<open>Properties of filtering\<close>

lemma filterEntries_keep_matches:
  "filterEntries_keep h f
     (if present (filter_since f) then Some (Date_parse h (JStr (the (filter_since f)))) else None) e
     = entry_matches h f e"
  by (simp add: filterEntries_keep_def entry_matches_def field_matches_def since_matches_def
      entry_time_def Let_def)

lemma filterEntries_spec: "filterEntries h es f = filter (entry_matches h f) es"
  unfolding filterEntries_def Let_def
  by (rule filter_cong[OF refl]) (rule filterEntries_keep_matches)

text \<open>
  C7. For every entry list and filter set, the entries kept are, in order, those that
  match: each present filter field (a non-empty string, as the code tests it) equals the
  entry's field as a string, and with \<open>since\<close> present the entry's timestamp parses and
  is not earlier than the parsed \<open>since\<close>. An entry whose timestamp does not parse
  fails every filter set with \<open>since\<close>. With entries at three increasing times and
  \<open>since\<close> at the second, exactly the last two are returned.
\<close>

theorem filterEntries_matches:
  "filterEntries h es f = filter (entry_matches h f) es
   \<and> (entry_matches h f e \<longleftrightarrow>
        (present (filter_project f) \<longrightarrow> entry_project e = JStr (the (filter_project f)))
        \<and> (present (filter_agent f) \<longrightarrow> entry_agent e = JStr (the (filter_agent f)))
        \<and> (present (filter_session_id f) \<longrightarrow> entry_session_id e = JStr (the (filter_session_id f)))
        \<and> (present (filter_kind f) \<longrightarrow> entry_kind e = JStr (the (filter_kind f)))
        \<and> (present (filter_since f) \<longrightarrow>
              entry_time h e \<noteq> None
              \<and> \<not> number_less (entry_time h e) (Date_parse h (JStr (the (filter_since f))))))
   \<and> (present (filter_since f) \<and> entry_time h e = None \<longrightarrow> e \<notin> set (filterEntries h es f))
   \<and> (entry_time h e1 = Some t1 \<and> entry_time h e2 = Some t2 \<and> entry_time h e3 = Some t3
        \<and> t1 < t2 \<and> t2 < t3 \<and> since \<noteq> [] \<and> Date_parse h (JStr since) = Some t2 \<longrightarrow>
        filterEntries h [e1, e2, e3] (no_filters\<lparr>filter_since := Some since\<rparr>) = [e2, e3])"
proof -
  have a: "filterEntries h es f = filter (entry_matches h f) es"
    by (rule filterEntries_spec)
  have b: "entry_matches h f e \<longleftrightarrow>
        (present (filter_project f) \<longrightarrow> entry_project e = JStr (the (filter_project f)))
        \<and> (present (filter_agent f) \<longrightarrow> entry_agent e = JStr (the (filter_agent f)))
        \<and> (present (filter_session_id f) \<longrightarrow> entry_session_id e = JStr (the (filter_session_id f)))
        \<and> (present (filter_kind f) \<longrightarrow> entry_kind e = JStr (the (filter_kind f)))
        \<and> (present (filter_since f) \<longrightarrow>
              entry_time h e \<noteq> None
              \<and> \<not> number_less (entry_time h e) (Date_parse h (JStr (the (filter_since f)))))"
    by (simp add: entry_matches_def field_matches_def since_matches_def)
  have c: "present (filter_since f) \<and> entry_time h e = None \<longrightarrow> e \<notin> set (filterEntries h es f)"
    by (simp add: a entry_matches_def since_matches_def)
  have d: "entry_time h e1 = Some t1 \<and> entry_time h e2 = Some t2 \<and> entry_time h e3 = Some t3
        \<and> t1 < t2 \<and> t2 < t3 \<and> since \<noteq> [] \<and> Date_parse h (JStr since) = Some t2 \<longrightarrow>
        filterEntries h [e1, e2, e3] (no_filters\<lparr>filter_since := Some since\<rparr>) = [e2, e3]"
    by (simp add: filterEntries_spec entry_matches_def field_matches_def since_matches_def
        no_filters_def present_def number_less_def)
  from a b c d show ?thesis by blast
qed

theorem filterEntries_matches_witness:
  "filterEntries example_host
     [example_note ''s'' ''1000'', example_note ''s'' ''1005'', example_note ''s'' ''1010'']
     (no_filters\<lparr>filter_since := Some (js ''1005'')\<rparr>)
     = [example_note ''s'' ''1005'', example_note ''s'' ''1010'']"
proof -
  have t: "entry_time example_host (example_note ''s'' ''1000'') = Some 1000
         \<and> entry_time example_host (example_note ''s'' ''1005'') = Some 1005
         \<and> entry_time example_host (example_note ''s'' ''1010'') = Some 1010
         \<and> (1000::int) < 1005 \<and> (1005::int) < 1010 \<and> js ''1005'' \<noteq> []
         \<and> Date_parse example_host (JStr (js ''1005'')) = Some 1005"
    by (simp add: entry_time_def example_host_def example_Date_parse_def example_note_def
        js_def is_digit_def numeral_value_def)
  from filterEntries_matches[of example_host "[]" no_filters "example_note ''s'' ''1000''"
      "example_note ''s'' ''1000''" 1000 "example_note ''s'' ''1005''" 1005
      "example_note ''s'' ''1010''" 1010 "js ''1005''"] t
  show ?thesis by blast
qed

section \<open>Properties of the session index\<close>

lemma apply_index_signature:
  "applyEntryToSessionIndex h cfg (index\<lparr>context_signature := s\<rparr>) e i =
     (fst (applyEntryToSessionIndex h cfg index e i),
      fst (snd (applyEntryToSessionIndex h cfg index e i)),
      (snd (snd (applyEntryToSessionIndex h cfg index e i)))\<lparr>context_signature := s\<rparr>)"
  by (simp add: applyEntryToSessionIndex_def Let_def split: sum.splits option.splits)

lemma apply_index_next:
  "0 \<le> i \<Longrightarrow> next_file_index (snd (snd (applyEntryToSessionIndex h cfg index e i)))
       = max (next_file_index index) (i + 1)"
  by (simp add: applyEntryToSessionIndex_def Let_def split: sum.splits option.splits)

lemma apply_keeps_signature:
  "context_signature (snd (snd (applyEntryToSessionIndex h cfg index e i)))
     = context_signature index"
  by (simp add: applyEntryToSessionIndex_def Let_def split: sum.splits option.splits)

lemma plain_no_write:
  "plain_keys cfg e \<Longrightarrow> fst (snd (applyEntryToSessionIndex h cfg index e i)) = []"
  by (auto simp: plain_keys_def applyEntryToSessionIndex_def Let_def
      split: sum.splits option.splits)

lemma reads_through_Nil [simp]: "\<not> reads_through cfg [] index e"
  by (simp add: reads_through_def)

lemma forEach_plain:
  assumes "plain_keys cfg e"
  shows "index_forEach h cfg [] index (e # es) i =
           (case applyEntryToSessionIndex h cfg index e i of
              (Some err, written, index') \<Rightarrow> (Some err, index')
            | (None, written, index') \<Rightarrow> index_forEach h cfg [] index' es (i + 1))"
  using plain_no_write[OF assms, where h=h and index=index and i=i]
  by (auto split: prod.splits option.splits)

lemma forEach_signature:
  "list_all (plain_keys cfg) es \<Longrightarrow>
   index_forEach h cfg [] (index\<lparr>context_signature := s\<rparr>) es i =
     (fst (index_forEach h cfg [] index es i),
      (snd (index_forEach h cfg [] index es i))\<lparr>context_signature := s\<rparr>)"
proof (induction es arbitrary: index i)
  case Nil
  show ?case by simp
next
  case (Cons e es)
  from Cons.prems have p: "plain_keys cfg e" and ps: "list_all (plain_keys cfg) es"
    by simp_all
  obtain r w index1 where a: "applyEntryToSessionIndex h cfg index e i = (r, w, index1)"
    by (metis prod_cases3)
  have b: "applyEntryToSessionIndex h cfg (index\<lparr>context_signature := s\<rparr>) e i
             = (r, w, index1\<lparr>context_signature := s\<rparr>)"
    using apply_index_signature[where h=h and cfg=cfg and index=index and s=s and e=e and i=i] a
    by simp
  show ?case
    using Cons.IH[OF ps, where index=index1 and i="i + 1"]
    by (cases r) (simp_all only: forEach_plain[OF p] a b prod.case option.case fst_conv snd_conv)
qed

lemma forEach_keeps_signature:
  "list_all (plain_keys cfg) es \<Longrightarrow>
   context_signature (snd (index_forEach h cfg [] index es i)) = context_signature index"
proof (induction es arbitrary: index i)
  case Nil
  show ?case by simp
next
  case (Cons e es)
  from Cons.prems have p: "plain_keys cfg e" and ps: "list_all (plain_keys cfg) es"
    by simp_all
  obtain r w index1 where a: "applyEntryToSessionIndex h cfg index e i = (r, w, index1)"
    by (metis prod_cases3)
  have "context_signature index1 = context_signature index"
    using apply_keeps_signature[where h=h and cfg=cfg and index=index and e=e and i=i] a
    by simp
  then show ?case using Cons.IH[OF ps, where index=index1 and i="i + 1"]
    by (cases r) (simp_all only: forEach_plain[OF p] a prod.case option.case snd_conv)
qed

lemma forEach_append:
  "list_all (plain_keys cfg) xs \<Longrightarrow>
   index_forEach h cfg [] index (xs @ ys) i =
     (case index_forEach h cfg [] index xs i of
        (Some err, index') \<Rightarrow> (Some err, index')
      | (None, index') \<Rightarrow> index_forEach h cfg [] index' ys (i + int (length xs)))"
proof (induction xs arbitrary: index i)
  case Nil
  show ?case by simp
next
  case (Cons x xs)
  from Cons.prems have p: "plain_keys cfg x" and ps: "list_all (plain_keys cfg) xs"
    by simp_all
  obtain r w index1 where a: "applyEntryToSessionIndex h cfg index x i = (r, w, index1)"
    by (metis prod_cases3)
  have e1: "index_forEach h cfg [] index ((x # xs) @ ys) i =
              (case r of Some err \<Rightarrow> (Some err, index1)
               | None \<Rightarrow> index_forEach h cfg [] index1 (xs @ ys) (i + 1))"
    using forEach_plain[OF p, where h=h and index=index and es="xs @ ys" and i=i] a
    by (cases r) simp_all
  have e2: "index_forEach h cfg [] index (x # xs) i =
              (case r of Some err \<Rightarrow> (Some err, index1)
               | None \<Rightarrow> index_forEach h cfg [] index1 xs (i + 1))"
    using forEach_plain[OF p, where h=h and index=index and es=xs and i=i] a
    by (cases r) simp_all
  show ?case
  proof (cases r)
    case None
    show ?thesis
      unfolding e1 e2 None
      using Cons.IH[OF ps, where index=index1 and i="i + 1"]
      by (simp del: index_forEach.simps add: ac_simps split: prod.splits option.splits)
  next
    case (Some err)
    show ?thesis
      unfolding e1 e2 Some by simp
  qed
qed

lemma forEach_next:
  "list_all (plain_keys cfg) es \<Longrightarrow> 0 \<le> i \<Longrightarrow>
   index_forEach h cfg [] index es i = (None, index') \<Longrightarrow> next_file_index index \<le> i
     \<Longrightarrow> next_file_index index' = (if es = [] then next_file_index index else i + int (length es))"
proof (induction es arbitrary: index i)
  case Nil
  then show ?case by simp
next
  case (Cons e es)
  from Cons.prems(1) have p: "plain_keys cfg e" and ps: "list_all (plain_keys cfg) es"
    by simp_all
  obtain r w index1 where a: "applyEntryToSessionIndex h cfg index e i = (r, w, index1)"
    by (metis prod_cases3)
  have u: "index_forEach h cfg [] index (e # es) i =
             (case r of Some err \<Rightarrow> (Some err, index1)
              | None \<Rightarrow> index_forEach h cfg [] index1 es (i + 1))"
    using forEach_plain[OF p, where h=h and index=index and es=es and i=i] a
    by (cases r) simp_all
  from Cons.prems(3) u have r: "r = None"
    and fe: "index_forEach h cfg [] index1 es (i + 1) = (None, index')"
    by (cases r; simp)+
  have n1: "next_file_index index1 = i + 1"
    using apply_index_next[OF Cons.prems(2), where h=h and cfg=cfg and index=index and e=e]
      a Cons.prems(4) by simp
  have "next_file_index index'
          = (if es = [] then next_file_index index1 else (i + 1) + int (length es))"
    by (rule Cons.IH[OF ps _ fe]) (use Cons.prems n1 in auto)
  then show ?case using n1 by auto
qed

lemma skeleton_signature:
  "makeSessionIndexSkeleton s = (makeSessionIndexSkeleton s')\<lparr>context_signature := s\<rparr>"
  by (simp add: makeSessionIndexSkeleton_def)

lemma build_forEach:
  assumes "buildSessionIndexFromEntries h cfg xs s = Inr index"
      and p: "list_all (plain_keys cfg) xs"
  shows "index_forEach h cfg [] (makeSessionIndexSkeleton s) xs 0 = (None, index)
         \<and> next_file_index index = int (length xs) \<and> context_signature index = s"
proof -
  obtain r ix where fe: "index_forEach h cfg [] (makeSessionIndexSkeleton s) xs 0 = (r, ix)"
    by (cases "index_forEach h cfg [] (makeSessionIndexSkeleton s) xs 0")
  with assms(1) have r: "r = None"
    by (auto simp: buildSessionIndexFromEntries_def split: option.splits)
  have nx: "next_file_index ix = int (length xs)"
    using forEach_next[OF p, where i=0 and h=h and index="makeSessionIndexSkeleton s"
        and index'=ix] fe r
    by (auto simp: makeSessionIndexSkeleton_def)
  have "index = ix" using assms(1) fe r nx
    by (auto simp: buildSessionIndexFromEntries_def split: if_splits)
  moreover have "context_signature ix = s"
    using forEach_keeps_signature[OF p, where h=h
        and index="makeSessionIndexSkeleton s" and i=0] fe
    by (simp add: makeSessionIndexSkeleton_def)
  ultimately show ?thesis using fe r nx by simp
qed

lemma appendable_no_throw:
  "appendable e \<Longrightarrow> plain_keys cfg e \<Longrightarrow> fst (applyEntryToSessionIndex h cfg index e i) = None"
  by (auto simp: appendable_def plain_keys_def applyEntryToSessionIndex_def
      normalizeSessionId_def Let_def split: jsval.splits)

lemma build_snoc:
  assumes b: "buildSessionIndexFromEntries h cfg xs s0 = Inr idx0"
      and p: "list_all (plain_keys cfg) xs"
      and a: "appendable y"
      and py: "plain_keys cfg y"
  shows "buildSessionIndexFromEntries h cfg (xs @ [y]) s1 =
           Inr (snd (snd (applyEntryToSessionIndex h cfg (idx0\<lparr>context_signature := s1\<rparr>) y
                  (next_file_index idx0))))"
proof -
  from build_forEach[OF b p]
  have fe: "index_forEach h cfg [] (makeSessionIndexSkeleton s0) xs 0 = (None, idx0)"
    and nx: "next_file_index idx0 = int (length xs)" by simp_all
  let ?ix = "idx0\<lparr>context_signature := s1\<rparr>"
  have fe1: "index_forEach h cfg [] (makeSessionIndexSkeleton s1) xs 0 = (None, ?ix)"
    using forEach_signature[OF p, where h=h and index="makeSessionIndexSkeleton s0"
        and s=s1 and i=0] fe
    by (simp add: skeleton_signature[of s1 s0])
  obtain r w index1 where ap:
    "applyEntryToSessionIndex h cfg ?ix y (int (length xs)) = (r, w, index1)"
    by (metis prod_cases3)
  have r: "r = None"
    using appendable_no_throw[OF a py, where h=h and index="?ix"
        and i="int (length xs)"] ap
    by simp
  have n1: "next_file_index index1 = int (length xs) + 1"
    using apply_index_next[where i="int (length xs)" and h=h and cfg=cfg and index="?ix"
        and e=y] ap nx
    by simp
  have "index_forEach h cfg [] ?ix [y] (int (length xs)) = (None, index1)"
    using forEach_plain[OF py, where h=h and index="?ix" and es="[]" and i="int (length xs)"]
      ap r by simp
  then have "index_forEach h cfg [] (makeSessionIndexSkeleton s1) (xs @ [y]) 0 = (None, index1)"
    by (simp add: forEach_append[OF p] fe1)
  then show ?thesis
    using n1 ap nx by (simp add: buildSessionIndexFromEntries_def)
qed

lemma load_cases:
  assumes "fst (loadSessionIndex ff st (Some s0)) = Some idx0"
  shows "context_signature idx0 = Some s0
         \<and> (\<exists>st1. loadSessionIndex ff st (Some s0) = (Some idx0, st1)
                \<and> effects st1 = effects st \<and> contextCache st1 = contextCache st)"
  using assms
  by (auto simp: loadSessionIndex_def invalidateSessionIndexCache_def
      split: if_splits option.splits)

lemma update_step:
  assumes b: "buildSessionIndexFromEntries h cfg xs (Some s0) = Inr idx0"
      and p: "list_all (plain_keys cfg) xs"
      and a: "appendable y"
      and py: "plain_keys cfg y"
      and c: "fst (loadSessionIndex ff st (Some s0)) = Some idx0"
  shows "\<exists>idx1. buildSessionIndexFromEntries h cfg (xs @ [y]) (Some s1) = Inr idx1
           \<and> fst (loadSessionIndex ff
                    (updateIndexOnAppend h cfg ff True st y (Some s0) (Some s1)) (Some s1))
               = Some idx1"
proof -
  from build_forEach[OF b p]
  have nx: "next_file_index idx0 = int (length xs)" by simp
  from load_cases[OF c] obtain st1 where ld: "loadSessionIndex ff st (Some s0) = (Some idx0, st1)"
    by blast
  let ?ix = "idx0\<lparr>context_signature := Some s1\<rparr>"
  obtain r w index1 where ap:
    "applyEntryToSessionIndex h cfg ?ix y (int (length xs)) = (r, w, index1)"
    by (metis prod_cases3)
  have r: "r = None"
    using appendable_no_throw[OF a py, where h=h and index="?ix"
        and i="int (length xs)"] ap by simp
  have n1: "next_file_index index1 = int (length xs) + 1"
    using apply_index_next[where i="int (length xs)" and h=h and cfg=cfg and index="?ix"
        and e=y] ap nx by simp
  have s1: "context_signature index1 = Some s1"
    using apply_keeps_signature[where h=h and cfg=cfg and index="?ix" and e=y
        and i="int (length xs)"] ap by simp
  have "sessionIndexCache (updateIndexOnAppend h cfg ff True st y (Some s0) (Some s1))
          = \<lparr>cache_contextSignature = Some s1, cache_index = Some index1\<rparr>"
    by (simp add: updateIndexOnAppend_def tryUpdateSessionIndexOnAppend_def ld nx ap r n1 s1
        persistSessionIndex_def Let_def)
  then have "fst (loadSessionIndex ff
                    (updateIndexOnAppend h cfg ff True st y (Some s0) (Some s1)) (Some s1))
               = Some index1"
    by (simp add: loadSessionIndex_def s1)
  moreover have "buildSessionIndexFromEntries h cfg (xs @ [y]) (Some s1) = Inr index1"
    using build_snoc[OF b p a py, where ?s1.0="Some s1"] ap nx by simp
  ultimately show ?thesis by blast
qed

lemma append_updates_build:
  assumes "buildSessionIndexFromEntries h cfg xs (Some s0) = Inr idx0"
      and "list_all (plain_keys cfg) xs"
      and "fst (loadSessionIndex ff st (Some s0)) = Some idx0"
      and "list_all (\<lambda>y. appendable (fst y) \<and> plain_keys cfg (fst y)) ys"
  shows "\<exists>idx. buildSessionIndexFromEntries h cfg (xs @ map fst ys)
                   (Some (last (s0 # map snd ys))) = Inr idx
           \<and> fst (loadSessionIndex ff (append_updates h cfg ff st s0 ys)
                    (Some (last (s0 # map snd ys)))) = Some idx"
  using assms
proof (induction ys arbitrary: xs s0 idx0 st)
  case Nil
  then show ?case by simp
next
  case (Cons y ys)
  obtain e s1 where y: "y = (e, s1)" by (cases y)
  from Cons.prems(4) y have a: "appendable e" and py: "plain_keys cfg e"
    and rest: "list_all (\<lambda>y. appendable (fst y) \<and> plain_keys cfg (fst y)) ys"
    by simp_all
  from update_step[OF Cons.prems(1) Cons.prems(2) a py Cons.prems(3), where ?s1.0=s1]
  obtain idx1 where b1: "buildSessionIndexFromEntries h cfg (xs @ [e]) (Some s1) = Inr idx1"
    and c1: "fst (loadSessionIndex ff
                    (updateIndexOnAppend h cfg ff True st e (Some s0) (Some s1)) (Some s1))
               = Some idx1"
    by blast
  have p1: "list_all (plain_keys cfg) (xs @ [e])"
    using Cons.prems(2) py by simp
  from Cons.IH[OF b1 p1 c1 rest] show ?case
    by (simp add: y)
qed

text \<open>
  Where no entry has the project or the session id \<^verbatim>\<open>__proto__\<close>, the index is
  maintained as the specification asks. Take a log \<open>xs\<close> whose index, built from scratch,
  is the one the append path loads for the log's signature (from the cache of the
  process, or from the index file). Append the entries \<open>ys\<close> one at a time, each with
  the signature of the log after it, through the update that \<^verbatim>\<open>appendEntry\<close> runs.
  Then the index the next append loads is the index built from scratch over \<open>xs @ ys\<close>:
  the same summary for every project and session, and the same next file index.
\<close>

lemma plain_index_equals_rebuild:
  assumes "buildSessionIndexFromEntries h cfg xs (Some s0) = Inr idx0"
      and "list_all (plain_keys cfg) xs"
      and "fst (loadSessionIndex fromFile st (Some s0)) = Some idx0"
      and "list_all (\<lambda>y. appendable (fst y) \<and> plain_keys cfg (fst y)) ys"
  shows "\<exists>rebuilt incremental.
           buildSessionIndexFromEntries h cfg (xs @ map fst ys)
               (Some (last (s0 # map snd ys))) = Inr rebuilt
           \<and> fst (loadSessionIndex fromFile (append_updates h cfg fromFile st s0 ys)
                    (Some (last (s0 # map snd ys)))) = Some incremental
           \<and> incremental = rebuilt
           \<and> (\<forall>proj sid. session_summary_of incremental proj sid
                           = session_summary_of rebuilt proj sid)"
  using append_updates_build[OF assms] by blast

lemma example_note_plain: "plain_keys example_config (example_note ''a'' ts)"
  "plain_keys example_config (example_note ''b'' ts)"
  by (simp_all add: plain_keys_def example_note_def getSessionProject_def example_config_def
      normalizeSessionId_def PROTO_def js_def js_trim_def is_js_whitespace_def Let_def)

lemma example_index_built:
  "buildSessionIndexFromEntries example_host example_config [example_note ''a'' ''1000'']
     (Some (1, 5)) = Inr example_index"
  by (simp add: buildSessionIndexFromEntries_def makeSessionIndexSkeleton_def
      applyEntryToSessionIndex_def example_note_def normalizeSessionId_def js_def js_trim_def
      is_js_whitespace_def Let_def getSessionProject_def example_config_def PROTO_def
      makeSessionSummary_def applyEntryToSessionSummary_def example_host_def
      example_Date_parse_def is_digit_def numeral_value_def pushUniqueString_def
      show_nat.simps digit_char_def SESSION_INDEX_VERSION_def example_index_def)

lemma plain_index_equals_rebuild_example:
  "buildSessionIndexFromEntries example_host example_config
     ([example_note ''a'' ''1000''] @ map fst example_appends) (Some (3, 9))
     = Inr (the (fst (loadSessionIndex None
                        (append_updates example_host example_config None example_state (1, 5)
                           example_appends)
                        (Some (3, 9)))))"
proof -
  have l: "fst (loadSessionIndex None example_state (Some (1, 5))) = Some example_index"
    by (simp add: loadSessionIndex_def example_state_def example_index_def)
  have p: "list_all (plain_keys example_config) [example_note ''a'' ''1000'']"
    by (simp add: example_note_plain)
  have a: "list_all (\<lambda>y. appendable (fst y) \<and> plain_keys example_config (fst y))
             example_appends"
    by (simp add: example_appends_def appendable_def example_note_plain)
      (simp add: example_note_def)
  have s: "last ((1, 5) # map snd example_appends) = ((3, 9) :: signature)"
    by (simp add: example_appends_def)
  from plain_index_equals_rebuild[OF example_index_built p l a]
  show ?thesis unfolding s by force
qed

lemma proto_note_apply:
  "applyEntryToSessionIndex example_host example_config
     (example_index\<lparr>context_signature := Some (2, 7)\<rparr>) (example_note ''__proto__'' ''1005'') 1
   = (Some TypeError,
      [js ''entry_count'', js ''note_count'', js ''last_entry_kind'',
       js ''latest_file_index'', js ''project''],
      example_index\<lparr>context_signature := Some (2, 7), next_file_index := 2\<rparr>)"
  by (simp add: applyEntryToSessionIndex_def example_note_def normalizeSessionId_def js_def
      js_trim_def is_js_whitespace_def Let_def getSessionProject_def example_config_def
      PROTO_def object_prototype_writes_def example_index_def)

lemma proto_note_build:
  "buildSessionIndexFromEntries example_host example_config
     [example_note ''a'' ''1000'', example_note ''__proto__'' ''1005''] (Some (2, 7))
   = Inl TypeError"
  by (simp add: buildSessionIndexFromEntries_def makeSessionIndexSkeleton_def
      applyEntryToSessionIndex_def example_note_def normalizeSessionId_def js_def js_trim_def
      is_js_whitespace_def Let_def getSessionProject_def example_config_def PROTO_def
      makeSessionSummary_def applyEntryToSessionSummary_def example_host_def
      example_Date_parse_def is_digit_def numeral_value_def pushUniqueString_def
      show_nat.simps digit_char_def SESSION_INDEX_VERSION_def object_prototype_writes_def)

lemma proto_note_update:
  "updateIndexOnAppend example_host example_config None True example_state
     (example_note ''__proto__'' ''1005'') (Some (1, 5)) (Some (2, 7)) = empty_state"
proof -
  have l: "loadSessionIndex None example_state (Some (Suc 0, 5))
             = (Some example_index, example_state)"
    by (simp add: loadSessionIndex_def example_state_def example_index_def)
  have n: "next_file_index (example_index\<lparr>context_signature := Some (2, 7)\<rparr>) = 1"
    by (simp add: example_index_def)
  have t: "tryUpdateSessionIndexOnAppend example_host example_config None True example_state
             (example_note ''__proto__'' ''1005'') (Some (1, 5)) (Some (2, 7))
           = (Some TypeError,
              example_state\<lparr>sessionIndexCache :=
                (sessionIndexCache example_state)\<lparr>cache_index :=
                  Some (example_index\<lparr>context_signature := Some (2, 7),
                                       next_file_index := 2\<rparr>)\<rparr>\<rparr>)"
    by (simp add: tryUpdateSessionIndexOnAppend_def l n Let_def proto_note_apply)
  show ?thesis
    unfolding updateIndexOnAppend_def t
    by (simp add: invalidateSessionIndexCache_def example_state_def empty_state_def)
qed

lemma stale_index_file:
  "fst (loadSessionIndex (Some example_index) empty_state (Some (2, 7))) = None"
  by (simp add: loadSessionIndex_def empty_state_def example_index_def
      invalidateSessionIndexCache_def)

lemma proto_note_summaries:
  "map (\<lambda>s. (session_id s, entry_count s))
     (buildSessionSummaries example_host
        [example_note ''a'' ''1000'', example_note ''__proto__'' ''1005''] False)
   = [(js ''__proto__'', 1), (js ''a'', 1)]"
  by (simp add: buildSessionSummaries_def sortSessionSummaries_def array_sort_def
      compareSummaries_def getSummaryLatestTsMs_def example_note_def js_def js_trim_def
      is_js_whitespace_def Let_def makeSessionSummary_def applyEntryToSessionSummary_def
      example_host_def example_Date_parse_def is_digit_def numeral_value_def
      pushUniqueString_def show_nat.simps digit_char_def)

lemma proto_project_apply:
  "applyEntryToSessionIndex example_host example_config
     (example_index\<lparr>context_signature := Some (2, 7)\<rparr>)
     ((example_note ''b'' ''1005'')\<lparr>entry_project := JStr (js ''__proto__'')\<rparr>) 1
   = (None, [js ''b''],
      example_index\<lparr>context_signature := Some (2, 7), next_file_index := 2\<rparr>)"
  by (simp add: applyEntryToSessionIndex_def example_note_def normalizeSessionId_def js_def
      js_trim_def is_js_whitespace_def Let_def getSessionProject_def example_config_def
      PROTO_def example_index_def)

text \<open>
  C1. The index is not maintained for an entry whose session id is \<^verbatim>\<open>__proto__\<close>.
  The log holds one note of the session \<open>a\<close> and the process holds its index; a note of
  the session \<^verbatim>\<open>__proto__\<close> is appended (as \<^verbatim>\<open>append_shared_note\<close> builds it from
  the arguments \<^verbatim>\<open>agent\<close>, \<^verbatim>\<open>text\<close> and \<^verbatim>\<open>session_id\<close>). Building the index
  from scratch over the two entries throws a TypeError. Folding the entry into the held
  index takes \<^verbatim>\<open>Object.prototype\<close> for the summary of the session: it assigns five
  properties of \<^verbatim>\<open>Object.prototype\<close> and throws the same TypeError, which the append
  path catches: the process is left with an empty index cache and has written no index,
  and the index file of the old signature does not load for the new one. So the log has
  no summary of any of its sessions, built from scratch or kept up on append, where the
  specification asks both for the same summaries. \<^verbatim>\<open>buildSessionSummaries\<close>, which
  groups by a \<^verbatim>\<open>Map\<close>, summarizes both sessions of this log. An entry of the project
  \<^verbatim>\<open>__proto__\<close> leaves the summary of its session on \<^verbatim>\<open>Object.prototype\<close> and no
  key in the index.
\<close>

theorem proto_session_id_breaks_index:
  "buildSessionIndexFromEntries example_host example_config
     [example_note ''a'' ''1000'', example_note ''__proto__'' ''1005''] (Some (2, 7))
     = Inl TypeError
   \<and> applyEntryToSessionIndex example_host example_config
       (example_index\<lparr>context_signature := Some (2, 7)\<rparr>)
       (example_note ''__proto__'' ''1005'') 1
     = (Some TypeError,
        [js ''entry_count'', js ''note_count'', js ''last_entry_kind'',
         js ''latest_file_index'', js ''project''],
        example_index\<lparr>context_signature := Some (2, 7), next_file_index := 2\<rparr>)
   \<and> updateIndexOnAppend example_host example_config None True example_state
       (example_note ''__proto__'' ''1005'') (Some (1, 5)) (Some (2, 7))
     = empty_state
   \<and> fst (loadSessionIndex (Some example_index) empty_state (Some (2, 7))) = None
   \<and> map (\<lambda>s. (session_id s, entry_count s))
       (buildSessionSummaries example_host
          [example_note ''a'' ''1000'', example_note ''__proto__'' ''1005''] False)
     = [(js ''__proto__'', 1), (js ''a'', 1)]
   \<and> applyEntryToSessionIndex example_host example_config
       (example_index\<lparr>context_signature := Some (2, 7)\<rparr>)
       ((example_note ''b'' ''1005'')\<lparr>entry_project := JStr (js ''__proto__'')\<rparr>) 1
     = (None, [js ''b''],
        example_index\<lparr>context_signature := Some (2, 7), next_file_index := 2\<rparr>)"
  using proto_note_build proto_note_apply proto_note_update stale_index_file
    proto_note_summaries proto_project_apply
  by (intro conjI)

section \<open>Properties of sorting\<close>

lemma mset_insert_sorted: "mset (insert_sorted cmp x xs) = add_mset x (mset xs)"
  by (induction xs) auto

lemma mset_array_sort: "mset (array_sort cmp xs) = mset xs"
  by (induction xs) (auto simp: array_sort_def mset_insert_sorted)

lemma set_insert_sorted: "set (insert_sorted cmp x xs) = insert x (set xs)"
  by (induction xs) auto

lemma sorted_insert_sorted:
  assumes tot: "\<And>a b. \<not> cmp a b \<le> 0 \<Longrightarrow> cmp b a \<le> 0"
      and tr: "\<And>a b c. cmp a b \<le> 0 \<Longrightarrow> cmp b c \<le> 0 \<Longrightarrow> cmp a c \<le> 0"
  shows "sorted_wrt (\<lambda>a b. cmp a b \<le> 0) xs
           \<Longrightarrow> sorted_wrt (\<lambda>a b. cmp a b \<le> 0) (insert_sorted cmp x xs)"
proof (induction xs)
  case Nil
  then show ?case by simp
next
  case (Cons y ys)
  show ?case
  proof (cases "cmp x y \<le> 0")
    case True
    then show ?thesis using Cons.prems tr by auto
  next
    case False
    then have "cmp y x \<le> 0" by (rule tot)
    then show ?thesis using False Cons by (auto simp: set_insert_sorted)
  qed
qed

lemma sorted_array_sort:
  assumes tot: "\<And>a b. \<not> cmp a b \<le> 0 \<Longrightarrow> cmp b a \<le> 0"
      and tr: "\<And>a b c. cmp a b \<le> 0 \<Longrightarrow> cmp b c \<le> 0 \<Longrightarrow> cmp a c \<le> 0"
  shows "sorted_wrt (\<lambda>a b. cmp a b \<le> 0) (array_sort cmp xs)"
  by (induction xs) (auto simp: array_sort_def intro: sorted_insert_sorted[OF tot tr])

lemma compare_listed_before:
  "compareSummaries h a b \<le> 0 \<longleftrightarrow> listed_before h a b"
  by (auto simp: compareSummaries_def listed_before_def ts_greater_def Let_def
      split: option.splits)

lemma listed_before_total:
  assumes c: "consistent_collation (localeCompare h)" and n: "\<not> listed_before h a b"
  shows "listed_before h b a"
proof -
  from c have t: "localeCompare h (session_id a) (session_id b) \<le> 0
                  \<or> localeCompare h (session_id b) (session_id a) \<le> 0"
    unfolding consistent_collation_def by blast
  show ?thesis
  proof (cases "getSummaryLatestTsMs h a")
    case None
    then show ?thesis using n t
      by (cases "getSummaryLatestTsMs h b") (auto simp: listed_before_def ts_greater_def)
  next
    case (Some x)
    then show ?thesis using n t
      by (cases "getSummaryLatestTsMs h b") (auto simp: listed_before_def ts_greater_def)
  qed
qed

lemma ts_greater_trans: "ts_greater a b \<Longrightarrow> ts_greater b c \<Longrightarrow> ts_greater a c"
  by (auto simp: ts_greater_def split: option.splits)

lemma listed_before_trans:
  assumes c: "consistent_collation (localeCompare h)"
      and ab: "listed_before h a b" and bc: "listed_before h b c"
  shows "listed_before h a c"
proof -
  from c have tr: "\<And>x y z. localeCompare h x y \<le> 0 \<Longrightarrow> localeCompare h y z \<le> 0
                     \<Longrightarrow> localeCompare h x z \<le> 0"
    unfolding consistent_collation_def by blast
  let ?ta = "getSummaryLatestTsMs h a" and ?tb = "getSummaryLatestTsMs h b"
    and ?tc = "getSummaryLatestTsMs h c"
  consider (gt1) "ts_greater ?ta ?tb" | (eq1) "?ta = ?tb" "\<not> ts_greater ?ta ?tb"
    using ab unfolding listed_before_def by blast
  then show ?thesis
  proof cases
    case gt1
    then show ?thesis using bc ts_greater_trans[of ?ta ?tb ?tc]
      unfolding listed_before_def by metis
  next
    case eq1
    consider (gt2) "ts_greater ?tb ?tc" | (eq2) "?tb = ?tc" "\<not> ts_greater ?tb ?tc"
      using bc unfolding listed_before_def by blast
    then show ?thesis
    proof cases
      case gt2
      then show ?thesis using eq1 unfolding listed_before_def by simp
    next
      case eq2
      have iab: "latest_file_index a > latest_file_index b
                 \<or> (latest_file_index a = latest_file_index b
                     \<and> localeCompare h (session_id a) (session_id b) \<le> 0)"
        using ab eq1 unfolding listed_before_def by blast
      have ibc: "latest_file_index b > latest_file_index c
                 \<or> (latest_file_index b = latest_file_index c
                     \<and> localeCompare h (session_id b) (session_id c) \<le> 0)"
        using bc eq2 unfolding listed_before_def by blast
      have "latest_file_index a > latest_file_index c
            \<or> (latest_file_index a = latest_file_index c
                \<and> localeCompare h (session_id a) (session_id c) \<le> 0)"
        using iab ibc tr by (metis less_trans)
      then show ?thesis using eq1 eq2 unfolding listed_before_def by simp
    qed
  qed
qed

lemma sorted_summaries:
  assumes "consistent_collation (localeCompare h)"
  shows "sorted_wrt (listed_before h) (sortSessionSummaries h xs)"
proof -
  have "sorted_wrt (\<lambda>a b. compareSummaries h a b \<le> 0)
          (array_sort (compareSummaries h) xs)"
    by (rule sorted_array_sort)
      (auto simp: compare_listed_before
        intro: listed_before_total[OF assms] listed_before_trans[OF assms])
  then show ?thesis
    by (simp add: sortSessionSummaries_def compare_listed_before)
qed

lemma example_order:
  assumes "getSummaryLatestTsMs h A = Some T" "getSummaryLatestTsMs h B = Some T"
    "getSummaryLatestTsMs h C = Some (T - 1)" "latest_file_index A = 3" "latest_file_index B = 5"
  shows "sortSessionSummaries h [A, B, C] = [B, A, C]
       \<and> sortSessionSummaries h [A, C, B] = [B, A, C]
       \<and> sortSessionSummaries h [B, A, C] = [B, A, C]
       \<and> sortSessionSummaries h [B, C, A] = [B, A, C]
       \<and> sortSessionSummaries h [C, A, B] = [B, A, C]
       \<and> sortSessionSummaries h [C, B, A] = [B, A, C]"
  using assms by (simp add: sortSessionSummaries_def array_sort_def compareSummaries_def)

lemma code_unit_le: "code_unit_compare a b \<le> 0 \<longleftrightarrow> a \<le> b"
  by (auto simp: code_unit_compare_def)

lemma spec_order:
  assumes "\<forall>a b. localeCompare h a b \<le> 0 \<longleftrightarrow> a \<le> b"
  shows "consistent_collation (localeCompare h)" "listed_before h = spec_listed_before h"
proof -
  show "consistent_collation (localeCompare h)"
    unfolding consistent_collation_def using assms by (auto intro: order_trans)
  show "listed_before h = spec_listed_before h"
    using assms by (intro ext) (simp add: listed_before_def spec_listed_before_def)
qed

lemma sorted_spec_order:
  assumes "\<forall>a b. localeCompare h a b \<le> 0 \<longleftrightarrow> a \<le> b"
  shows "sorted_wrt (spec_listed_before h) (sortSessionSummaries h xs)"
  using sorted_summaries[OF spec_order(1)[OF assms], of xs] spec_order(2)[OF assms] by simp

lemma collation_le:
  "collation_compare a b \<le> 0 \<longleftrightarrow>
     map to_lower a < map to_lower b \<or> (map to_lower a = map to_lower b \<and> b \<le> a)"
  by (auto simp: collation_compare_def Let_def)

lemma collation_consistent: "consistent_collation collation_compare"
  unfolding consistent_collation_def collation_le
  by (intro conjI allI impI) (metis linorder_le_cases linorder_less_linear, auto)

lemma collating_example:
  "sortSessionSummaries collating_host [example_summary ''B'' 7 1, example_summary ''a'' 7 1]
     = [example_summary ''a'' 7 1, example_summary ''B'' 7 1]"
  by (simp add: sortSessionSummaries_def array_sort_def compareSummaries_def
      getSummaryLatestTsMs_def example_summary_def makeSessionSummary_def collating_host_def
      example_host_def collation_compare_def to_lower_def js_def Let_def)

lemma not_spec_order:
  "\<not> spec_listed_before collating_host (example_summary ''a'' 7 1) (example_summary ''B'' 7 1)"
  by (simp add: spec_listed_before_def ts_greater_def getSummaryLatestTsMs_def
      example_summary_def makeSessionSummary_def js_def)

text \<open>
  C3. The sorted summaries are a permutation of the given ones. Where the host's
  \<^verbatim>\<open>localeCompare\<close> is a total preorder of strings, every summary stands before
  every later one in the order: latest timestamp descending, then latest file index
  descending, then session id ascending by \<^verbatim>\<open>localeCompare\<close>. On a host whose
  \<^verbatim>\<open>localeCompare\<close> agrees with the lexicographic order of the strings, that is the
  order as the specification words it. For A (ts = T, idx = 3), B (ts = T, idx = 5),
  C (ts = T - 1), given in any order, the result is [B, A, C], whatever the string order.
\<close>

theorem sortSessionSummaries_order:
  "(consistent_collation (localeCompare h) \<longrightarrow>
      sorted_wrt (listed_before h) (sortSessionSummaries h xs))
   \<and> ((\<forall>a b. localeCompare h a b \<le> 0 \<longleftrightarrow> a \<le> b) \<longrightarrow>
        sorted_wrt (spec_listed_before h) (sortSessionSummaries h xs))
   \<and> mset (sortSessionSummaries h xs) = mset xs
   \<and> (getSummaryLatestTsMs h A = Some T \<and> getSummaryLatestTsMs h B = Some T
        \<and> getSummaryLatestTsMs h C = Some (T - 1)
        \<and> latest_file_index A = 3 \<and> latest_file_index B = 5 \<longrightarrow>
        sortSessionSummaries h [A, B, C] = [B, A, C]
        \<and> sortSessionSummaries h [A, C, B] = [B, A, C]
        \<and> sortSessionSummaries h [B, A, C] = [B, A, C]
        \<and> sortSessionSummaries h [B, C, A] = [B, A, C]
        \<and> sortSessionSummaries h [C, A, B] = [B, A, C]
        \<and> sortSessionSummaries h [C, B, A] = [B, A, C])"
  using sorted_summaries[of h xs] sorted_spec_order[of h xs]
    mset_array_sort[of "compareSummaries h" xs] example_order[of h A T B C]
  by (simp add: sortSessionSummaries_def)

lemma code_unit_collation: "consistent_collation code_unit_compare"
  by (auto simp: consistent_collation_def code_unit_compare_def)

theorem sortSessionSummaries_order_witness:
  "sortSessionSummaries example_host
     [example_summary ''A'' 1000 3, example_summary ''B'' 1000 5, example_summary ''C'' 999 0]
     = [example_summary ''B'' 1000 5, example_summary ''A'' 1000 3, example_summary ''C'' 999 0]
   \<and> sorted_wrt (listed_before example_host)
       (sortSessionSummaries example_host
          [example_summary ''x'' 7 1, example_summary ''b'' 7 1, example_summary ''a'' 7 1])
   \<and> sorted_wrt (spec_listed_before example_host)
       (sortSessionSummaries example_host
          [example_summary ''x'' 7 1, example_summary ''b'' 7 1, example_summary ''a'' 7 1])"
proof -
  have c: "consistent_collation (localeCompare example_host)"
    by (simp add: example_host_def code_unit_collation)
  have l: "\<forall>a b. localeCompare example_host a b \<le> 0 \<longleftrightarrow> a \<le> b"
    by (simp add: example_host_def code_unit_le)
  have e: "getSummaryLatestTsMs example_host (example_summary ''A'' 1000 3) = Some 1000
         \<and> getSummaryLatestTsMs example_host (example_summary ''B'' 1000 5) = Some 1000
         \<and> getSummaryLatestTsMs example_host (example_summary ''C'' 999 0) = Some (1000 - 1)
         \<and> latest_file_index (example_summary ''A'' 1000 3) = 3
         \<and> latest_file_index (example_summary ''B'' 1000 5) = 5"
    by (simp add: getSummaryLatestTsMs_def example_summary_def)
  from sortSessionSummaries_order[of example_host
      "[example_summary ''x'' 7 1, example_summary ''b'' 7 1, example_summary ''a'' 7 1]"
      "example_summary ''A'' 1000 3" 1000 "example_summary ''B'' 1000 5"
      "example_summary ''C'' 999 0"] c l e
  show ?thesis by blast
qed

text \<open>
  The session ids are not in lexicographic order on a host that collates. The summaries
  of the sessions \<open>B\<close> and \<open>a\<close> have the same latest timestamp and latest file index;
  \<^verbatim>\<open>localeCompare\<close> puts \<open>a\<close> first, and the lexicographic order \<open>B\<close>.
\<close>

theorem session_id_collation_counterexample:
  "consistent_collation (localeCompare collating_host)
   \<and> sortSessionSummaries collating_host
       [example_summary ''B'' 7 1, example_summary ''a'' 7 1]
     = [example_summary ''a'' 7 1, example_summary ''B'' 7 1]
   \<and> js ''B'' < js ''a''
   \<and> \<not> sorted_wrt (spec_listed_before collating_host)
         (sortSessionSummaries collating_host
            [example_summary ''B'' 7 1, example_summary ''a'' 7 1])"
proof -
  have "consistent_collation (localeCompare collating_host)"
    by (simp add: collating_host_def collation_consistent)
  moreover have "js ''B'' < js ''a''"
    by (simp add: js_def)
  moreover have "\<not> sorted_wrt (spec_listed_before collating_host)
         (sortSessionSummaries collating_host
            [example_summary ''B'' 7 1, example_summary ''a'' 7 1])"
    unfolding collating_example using not_spec_order by simp
  ultimately show ?thesis using collating_example by blast
qed

section \<open>Properties of the read cache\<close>

lemma makeFileSignature_None [simp]: "makeFileSignature None = None"
  by (simp add: makeFileSignature_def)

lemma makeFileSignature_Some [simp]:
  "makeFileSignature (Some s) = Some (stat_size s, Math_trunc (stat_mtimeMs s))"
  by (simp add: makeFileSignature_def)

lemma attempt_return_store:
  assumes "readEntries_attempt jp cfg ob st k = Return (res, st')"
  shows "(contextCache st' = contextCache st \<or> cc_signature (contextCache st') = None
          \<or> stored_by_attempt jp ob (contextCache st'))
         \<and> (\<forall>r. res = Inr r \<and> rr_signature r \<noteq> None \<longrightarrow>
               rr_signature r = cc_signature (contextCache st')
               \<and> rr_raw r = cc_raw (contextCache st')
               \<and> rr_entries r = cc_entries (contextCache st')
               \<and> rr_parseErrors r = cc_parseErrors (contextCache st'))"
proof (cases "obs_beforeStat ob")
  case (Inl e)
  with assms show ?thesis by (auto simp: readEntries_attempt_def)
next
  case (Inr beforeStat)
  note b = this
  show ?thesis
  proof (cases "makeFileSignature beforeStat \<noteq> None
                \<and> cc_signature (contextCache st) = makeFileSignature beforeStat")
    case True
    with assms b show ?thesis by (auto simp: readEntries_attempt_def Let_def)
  next
    case False
    note miss = this
    show ?thesis
    proof (cases beforeStat)
      case None
      with assms b miss show ?thesis
        by (auto simp: readEntries_attempt_def Let_def invalidateContextCache_def)
    next
      case (Some bs)
      note bs = this
      show ?thesis
      proof (cases "stat_size bs > MAX_CONTEXT_FILE_BYTES cfg")
        case True
        with assms b miss bs show ?thesis by (auto simp: readEntries_attempt_def Let_def)
      next
        case False
        note sz = this
        show ?thesis
        proof (cases "obs_readFile ob")
          case (Inl e)
          with assms b miss bs sz show ?thesis by (auto simp: readEntries_attempt_def Let_def)
        next
          case (Inr raw)
          note rd = this
          show ?thesis
          proof (cases "obs_afterStat ob")
            case (Inl e)
            with assms b miss bs sz rd show ?thesis
              by (auto simp: readEntries_attempt_def Let_def)
          next
            case (Inr afterStat)
            with assms b miss bs sz rd show ?thesis
              by (auto simp: readEntries_attempt_def Let_def stored_by_attempt_def
                    invalidateContextCache_def split: if_splits)
          qed
        qed
      qed
    qed
  qed
qed

lemma torn_attemptD:
  assumes "torn_attempt cfg st ob"
  shows "\<exists>bs raw as. obs_beforeStat ob = Inr (Some bs) \<and> obs_readFile ob = Inr raw
           \<and> obs_afterStat ob = Inr (Some as)
           \<and> cc_signature (contextCache st) \<noteq> makeFileSignature (Some bs)
           \<and> stat_size bs \<le> MAX_CONTEXT_FILE_BYTES cfg
           \<and> makeFileSignature (Some bs) \<noteq> makeFileSignature (Some as)"
proof -
  from assms obtain bs where b: "obs_beforeStat ob = Inr (Some bs)"
    by (cases "obs_beforeStat ob") (auto simp: torn_attempt_def split: option.splits)
  from assms b obtain raw where r: "obs_readFile ob = Inr raw"
    by (cases "obs_readFile ob") (auto simp: torn_attempt_def)
  from assms b r obtain as where a: "obs_afterStat ob = Inr (Some as)"
    by (cases "obs_afterStat ob") (auto simp: torn_attempt_def split: option.splits)
  from assms b r a show ?thesis by (simp add: torn_attempt_def)
qed

lemma attempt_continue:
  assumes "torn_attempt cfg st ob"
  shows "readEntries_attempt jp cfg ob st 0 = Continue"
proof -
  from torn_attemptD[OF assms] obtain bs raw as where
    "obs_beforeStat ob = Inr (Some bs)" "obs_readFile ob = Inr raw"
    "obs_afterStat ob = Inr (Some as)"
    "cc_signature (contextCache st) \<noteq> makeFileSignature (Some bs)"
    "stat_size bs \<le> MAX_CONTEXT_FILE_BYTES cfg"
    "makeFileSignature (Some bs) \<noteq> makeFileSignature (Some as)" by blast
  then show ?thesis by (simp add: readEntries_attempt_def Let_def)
qed

lemma attempt_torn_second:
  assumes "torn_attempt cfg st ob" and "k \<noteq> 0"
  shows "readEntries_attempt jp cfg ob st k =
     Return (Inr \<lparr>rr_raw = projr (obs_readFile ob),
             rr_entries = fst (parseEntries jp (projr (obs_readFile ob))),
             rr_parseErrors = snd (parseEntries jp (projr (obs_readFile ob))),
             rr_signature = None\<rparr>,
        invalidateContextCache st)"
proof -
  from torn_attemptD[OF assms(1)] obtain bs raw as where
    "obs_beforeStat ob = Inr (Some bs)" "obs_readFile ob = Inr raw"
    "obs_afterStat ob = Inr (Some as)"
    "cc_signature (contextCache st) \<noteq> makeFileSignature (Some bs)"
    "stat_size bs \<le> MAX_CONTEXT_FILE_BYTES cfg"
    "makeFileSignature (Some bs) \<noteq> makeFileSignature (Some as)" by blast
  then show ?thesis using assms(2) by (simp add: readEntries_attempt_def Let_def)
qed

lemma attempt_continue_only_first:
  assumes "readEntries_attempt jp cfg ob st k = Continue"
  shows "k = 0"
proof (rule ccontr)
  assume "k \<noteq> 0"
  then have "readEntries_attempt jp cfg ob st k \<noteq> Continue"
    by (simp add: readEntries_attempt_def Let_def split: sum.splits option.splits)
  with assms show False by simp
qed

lemma readEntries_from_1:
  "readEntries_from jp cfg w st (Suc 0) =
     (case readEntries_attempt jp cfg (attempt_obs w (Suc 0)) st (Suc 0) of
        Continue \<Rightarrow> readEntries_from jp cfg w st (Suc (Suc 0))
      | Return r \<Rightarrow> r)"
  by (subst readEntries_from.simps) (simp split: loop_step.splits)

lemma readEntries_from_0:
  "readEntries_from jp cfg w st 0 =
     (case readEntries_attempt jp cfg (attempt_obs w 0) st 0 of
        Continue \<Rightarrow> readEntries_from jp cfg w st (Suc 0)
      | Return r \<Rightarrow> r)"
  by (subst readEntries_from.simps) (simp split: loop_step.splits)

lemma second_attempt_returns:
  "\<exists>r. readEntries_attempt jp cfg (attempt_obs w (Suc 0)) st (Suc 0) = Return r
        \<and> readEntries_from jp cfg w st (Suc 0) = r"
proof (cases "readEntries_attempt jp cfg (attempt_obs w (Suc 0)) st (Suc 0)")
  case Continue
  from attempt_continue_only_first[OF this] show ?thesis by simp
next
  case (Return r)
  then show ?thesis by (simp add: readEntries_from_1)
qed

lemma readEntries_returns_attempt:
  assumes "readEntries jp cfg w st = (res, st')"
  shows "readEntries_attempt jp cfg (attempt_obs w 0) st 0 = Return (res, st')
         \<or> readEntries_attempt jp cfg (attempt_obs w (Suc 0)) st (Suc 0) = Return (res, st')"
proof (cases "readEntries_attempt jp cfg (attempt_obs w 0) st 0")
  case Continue
  then have "readEntries_from jp cfg w st (Suc 0) = (res, st')"
    using assms by (simp add: readEntries_def readEntries_from_0)
  with second_attempt_returns[of jp cfg w st] show ?thesis by auto
next
  case (Return r)
  then show ?thesis
    using assms by (simp add: readEntries_def readEntries_from_0)
qed

lemma readEntries_two_attempts:
  assumes "attempt_obs w' 0 = attempt_obs w 0"
      and "attempt_obs w' (Suc 0) = attempt_obs w (Suc 0)"
  shows "readEntries jp cfg w' st = readEntries jp cfg w st"
proof -
  from second_attempt_returns[of jp cfg w st] second_attempt_returns[of jp cfg w' st] assms(2)
  have "readEntries_from jp cfg w' st (Suc 0) = readEntries_from jp cfg w st (Suc 0)" by auto
  then show ?thesis
    by (simp add: readEntries_def readEntries_from_0 assms(1) split: loop_step.splits)
qed

lemma retry_once:
  "torn_attempt cfg st (attempt_obs w 0) \<Longrightarrow>
     readEntries jp cfg w st = readEntries_from jp cfg w st (Suc 0)"
  by (simp add: readEntries_def readEntries_from_0 attempt_continue)

lemma torn_twice:
  "torn_attempt cfg st (attempt_obs w 0) \<Longrightarrow> torn_attempt cfg st (attempt_obs w (Suc 0)) \<Longrightarrow>
     readEntries jp cfg w st =
       (Inr \<lparr>rr_raw = projr (obs_readFile (attempt_obs w (Suc 0))),
             rr_entries = fst (parseEntries jp (projr (obs_readFile (attempt_obs w (Suc 0))))),
             rr_parseErrors = snd (parseEntries jp (projr (obs_readFile (attempt_obs w (Suc 0))))),
             rr_signature = None\<rparr>,
        invalidateContextCache st)"
  by (simp add: retry_once readEntries_from_1 attempt_torn_second)

lemma same_state:
  assumes "grown s1 s2" "grown s2 s3"
      and "makeFileSignature (Some (stat_of s1)) = makeFileSignature (Some (stat_of s3))"
  shows "s2 = s1 \<and> s3 = s1"
  using assms by (auto simp: grown_def stat_of_def)

lemma stored_state:
  assumes "stored_by_attempt jp (obs_of s1 s2 s3) c" "grown s1 s2" "grown s2 s3"
  shows "cc_raw c = log_raw s2 \<and> cc_signature c = makeFileSignature (Some (stat_of s2))
         \<and> cache_coherent jp c"
proof -
  from assms(1) have a: "makeFileSignature (Some (stat_of s1)) = cc_signature c"
    and b: "makeFileSignature (Some (stat_of s3)) = cc_signature c"
    and r: "cc_raw c = log_raw s2"
    and p: "(cc_entries c, cc_parseErrors c) = parseEntries jp (cc_raw c)"
    by (auto simp: stored_by_attempt_def obs_of_def simp del: makeFileSignature_Some)
  from a b have "makeFileSignature (Some (stat_of s1)) = makeFileSignature (Some (stat_of s3))"
    by (simp del: makeFileSignature_Some)
  from same_state[OF assms(2,3) this] have "s2 = s1" by simp
  with a r p show ?thesis by (simp add: cache_coherent_def del: makeFileSignature_Some)
qed

lemma stored_coherent: "stored_by_attempt jp ob c \<Longrightarrow> cache_coherent jp c"
  by (cases "obs_beforeStat ob"; cases "obs_readFile ob"; cases "obs_afterStat ob")
    (auto simp: stored_by_attempt_def cache_coherent_def)

text \<open>
  C2. A read changes the cache only to empty it or to store the text of an attempt whose
  signatures before and after the read are equal, with that signature and the parse of
  that text; a result that reports a signature is the content of the cache. A torn first
  attempt is retried, once: the result depends on two attempts only. When the second is
  torn too, its freshly parsed text is returned with no signature and the cache is
  emptied. Where the log only grows between the three calls of an attempt, the stored
  signature is the signature of the very state whose text was read.
\<close>

theorem readEntries_cache_discipline:
  "(readEntries jp cfg w st = (res, st') \<longrightarrow>
      (contextCache st' = contextCache st \<or> cc_signature (contextCache st') = None
       \<or> stored_by_attempt jp (attempt_obs w 0) (contextCache st')
       \<or> stored_by_attempt jp (attempt_obs w 1) (contextCache st'))
      \<and> (\<forall>r. res = Inr r \<and> rr_signature r \<noteq> None \<longrightarrow>
            rr_signature r = cc_signature (contextCache st')
            \<and> rr_raw r = cc_raw (contextCache st')
            \<and> rr_entries r = cc_entries (contextCache st')
            \<and> rr_parseErrors r = cc_parseErrors (contextCache st'))
      \<and> (cache_coherent jp (contextCache st) \<longrightarrow> cache_coherent jp (contextCache st')))
   \<and> (torn_attempt cfg st (attempt_obs w 0) \<longrightarrow>
        readEntries jp cfg w st = readEntries_from jp cfg w st 1)
   \<and> (attempt_obs w' 0 = attempt_obs w 0 \<and> attempt_obs w' 1 = attempt_obs w 1 \<longrightarrow>
        readEntries jp cfg w' st = readEntries jp cfg w st)
   \<and> (torn_attempt cfg st (attempt_obs w 0) \<and> torn_attempt cfg st (attempt_obs w 1) \<longrightarrow>
        readEntries jp cfg w st =
          (Inr \<lparr>rr_raw = projr (obs_readFile (attempt_obs w 1)),
                rr_entries = fst (parseEntries jp (projr (obs_readFile (attempt_obs w 1)))),
                rr_parseErrors = snd (parseEntries jp (projr (obs_readFile (attempt_obs w 1)))),
                rr_signature = None\<rparr>,
           invalidateContextCache st))
   \<and> (stored_by_attempt jp (obs_of s1 s2 s3) c \<and> grown s1 s2 \<and> grown s2 s3 \<longrightarrow>
        cc_raw c = log_raw s2 \<and> cc_signature c = makeFileSignature (Some (stat_of s2))
        \<and> cache_coherent jp c)"
proof -
  have a: "readEntries jp cfg w st = (res, st') \<longrightarrow>
      (contextCache st' = contextCache st \<or> cc_signature (contextCache st') = None
       \<or> stored_by_attempt jp (attempt_obs w 0) (contextCache st')
       \<or> stored_by_attempt jp (attempt_obs w 1) (contextCache st'))
      \<and> (\<forall>r. res = Inr r \<and> rr_signature r \<noteq> None \<longrightarrow>
            rr_signature r = cc_signature (contextCache st')
            \<and> rr_raw r = cc_raw (contextCache st')
            \<and> rr_entries r = cc_entries (contextCache st')
            \<and> rr_parseErrors r = cc_parseErrors (contextCache st'))
      \<and> (cache_coherent jp (contextCache st) \<longrightarrow> cache_coherent jp (contextCache st'))"
  proof
    assume r: "readEntries jp cfg w st = (res, st')"
    from readEntries_returns_attempt[OF r] obtain k where
      k: "readEntries_attempt jp cfg (attempt_obs w k) st k = Return (res, st')"
      and k01: "k = 0 \<or> k = Suc 0" by blast
    note s = attempt_return_store[OF k]
    from s have c: "contextCache st' = contextCache st \<or> cc_signature (contextCache st') = None
          \<or> stored_by_attempt jp (attempt_obs w k) (contextCache st')" by blast
    then have "cache_coherent jp (contextCache st) \<longrightarrow> cache_coherent jp (contextCache st')"
      using stored_coherent[of jp "attempt_obs w k" "contextCache st'"]
      by (auto simp: cache_coherent_def)
    moreover from c k01 have "contextCache st' = contextCache st
       \<or> cc_signature (contextCache st') = None
       \<or> stored_by_attempt jp (attempt_obs w 0) (contextCache st')
       \<or> stored_by_attempt jp (attempt_obs w 1) (contextCache st')" by auto
    ultimately show "(contextCache st' = contextCache st \<or> cc_signature (contextCache st') = None
       \<or> stored_by_attempt jp (attempt_obs w 0) (contextCache st')
       \<or> stored_by_attempt jp (attempt_obs w 1) (contextCache st'))
      \<and> (\<forall>r. res = Inr r \<and> rr_signature r \<noteq> None \<longrightarrow>
            rr_signature r = cc_signature (contextCache st')
            \<and> rr_raw r = cc_raw (contextCache st')
            \<and> rr_entries r = cc_entries (contextCache st')
            \<and> rr_parseErrors r = cc_parseErrors (contextCache st'))
      \<and> (cache_coherent jp (contextCache st) \<longrightarrow> cache_coherent jp (contextCache st'))"
      using s by blast
  qed
  show ?thesis
    using a retry_once[of cfg st w jp] readEntries_two_attempts[of w' w jp cfg st]
      torn_twice[of cfg st w jp] stored_state[of jp s1 s2 s3 c]
    unfolding One_nat_def by blast
qed

lemma trunc_examples:
  "Math_trunc 1000 = 1000 \<and> Math_trunc (4001 / 2) = 2000 \<and> Math_trunc 3000 = 3000"
  by (simp add: Math_trunc_def floor_eq_iff)

lemma torn_once_first:
  "torn_attempt example_config empty_state (attempt_obs torn_once_world 0)"
  by (simp add: torn_attempt_def torn_once_world_def no_raw_read_def obs_of_def stat_of_def
      log_one_def log_two_def empty_state_def example_config_def trunc_examples)

lemma torn_twice_both:
  "torn_attempt example_config empty_state (attempt_obs torn_twice_world 0)
   \<and> torn_attempt example_config empty_state (attempt_obs torn_twice_world 1)"
  by (simp add: torn_attempt_def torn_twice_world_def no_raw_read_def obs_of_def stat_of_def
      log_one_def log_two_def log_three_def empty_state_def example_config_def trunc_examples)

lemma parse_log_two:
  "parseEntries toy_json_parse (log_raw log_two)
     = ([JObj []], [\<lparr>pe_line = 2, pe_error = ''Error: line is not a JSON object''\<rparr>])"
  by (simp add: parseEntries_def log_two_def js_def toy_json_parse_def is_blank_line_def
      js_trim_def is_js_whitespace_def)

theorem readEntries_cache_discipline_witness:
  "readEntries toy_json_parse example_config torn_once_world empty_state
     = (Inr \<lparr>rr_raw = log_raw log_two, rr_entries = [JObj []],
             rr_parseErrors = [\<lparr>pe_line = 2, pe_error = ''Error: line is not a JSON object''\<rparr>],
             rr_signature = Some (6, 2000)\<rparr>,
        empty_state\<lparr>contextCache :=
          \<lparr>cc_signature = Some (6, 2000), cc_raw = log_raw log_two, cc_entries = [JObj []],
           cc_parseErrors =
             [\<lparr>pe_line = 2, pe_error = ''Error: line is not a JSON object''\<rparr>]\<rparr>\<rparr>)
   \<and> readEntries toy_json_parse example_config torn_twice_world empty_state
     = (Inr \<lparr>rr_raw = log_raw log_two, rr_entries = [JObj []],
             rr_parseErrors = [\<lparr>pe_line = 2, pe_error = ''Error: line is not a JSON object''\<rparr>],
             rr_signature = None\<rparr>,
        empty_state)"
proof -
  from readEntries_cache_discipline[of toy_json_parse example_config torn_once_world
      empty_state] torn_once_first
  have "readEntries toy_json_parse example_config torn_once_world empty_state
          = readEntries_from toy_json_parse example_config torn_once_world empty_state 1"
    by blast
  moreover have "readEntries_from toy_json_parse example_config torn_once_world empty_state 1
     = (Inr \<lparr>rr_raw = log_raw log_two, rr_entries = [JObj []],
             rr_parseErrors = [\<lparr>pe_line = 2, pe_error = ''Error: line is not a JSON object''\<rparr>],
             rr_signature = Some (6, 2000)\<rparr>,
        empty_state\<lparr>contextCache :=
          \<lparr>cc_signature = Some (6, 2000), cc_raw = log_raw log_two, cc_entries = [JObj []],
           cc_parseErrors =
             [\<lparr>pe_line = 2, pe_error = ''Error: line is not a JSON object''\<rparr>]\<rparr>\<rparr>)"
    by (subst readEntries_from.simps)
      (simp add: readEntries_attempt_def torn_once_world_def no_raw_read_def obs_of_def
        stat_of_def parse_log_two empty_state_def example_config_def trunc_examples Let_def
        log_two_def[THEN arg_cong, of log_size] log_two_def[THEN arg_cong, of log_mtimeMs])
  moreover
  from readEntries_cache_discipline[of toy_json_parse example_config torn_twice_world
      empty_state] torn_twice_both
  have "readEntries toy_json_parse example_config torn_twice_world empty_state
     = (Inr \<lparr>rr_raw = projr (obs_readFile (attempt_obs torn_twice_world 1)),
             rr_entries = fst (parseEntries toy_json_parse
                                (projr (obs_readFile (attempt_obs torn_twice_world 1)))),
             rr_parseErrors = snd (parseEntries toy_json_parse
                                    (projr (obs_readFile (attempt_obs torn_twice_world 1)))),
             rr_signature = None\<rparr>,
        invalidateContextCache empty_state)"
    by blast
  moreover have "projr (obs_readFile (attempt_obs torn_twice_world 1)) = log_raw log_two"
    by (simp add: torn_twice_world_def no_raw_read_def obs_of_def)
  moreover have "invalidateContextCache empty_state = empty_state"
    by (simp add: invalidateContextCache_def empty_state_def)
  ultimately show ?thesis by (simp add: parse_log_two)
qed

section \<open>Properties of session resolution\<close>

lemma resolve_explicit:
  "normalizeSessionId v = Inr (Some explicit) \<Longrightarrow>
     resolveSessionIdInput env pointer v required = Inr (Some explicit)"
  by (simp add: resolveSessionIdInput_def)

lemma resolve_env:
  "normalizeSessionId v = Inr None \<Longrightarrow>
   normalizeSessionId (env_value env) = Inr (Some fromEnv) \<Longrightarrow>
     resolveSessionIdInput env pointer v required = Inr (Some fromEnv)"
  by (simp add: resolveSessionIdInput_def readActiveSessionId_def)

lemma resolve_pointer:
  "normalizeSessionId v = Inr None \<Longrightarrow> normalizeSessionId (env_value env) = Inr None \<Longrightarrow>
   normalizeSessionId (JStr stored) = Inr (Some active) \<Longrightarrow>
     resolveSessionIdInput env (Inr stored) v required = Inr (Some active)"
  by (simp add: resolveSessionIdInput_def readActiveSessionId_def)

lemma resolve_missing_file:
  "normalizeSessionId v = Inr None \<Longrightarrow> normalizeSessionId (env_value env) = Inr None \<Longrightarrow>
     resolveSessionIdInput env (Inl (SysError ''ENOENT'')) v required
       = (if required then Inl MissingSessionId else Inr None)"
  by (simp add: resolveSessionIdInput_def readActiveSessionId_def)

lemma resolve_blank_file:
  "normalizeSessionId v = Inr None \<Longrightarrow> normalizeSessionId (env_value env) = Inr None \<Longrightarrow>
   normalizeSessionId (JStr stored) = Inr None \<Longrightarrow>
     resolveSessionIdInput env (Inr stored) v required
       = (if required then Inl MissingSessionId else Inr None)"
  by (simp add: resolveSessionIdInput_def readActiveSessionId_def)

text \<open>
  C4. An explicit argument that is a non-blank string wins; otherwise a non-blank
  environment override wins; otherwise the non-blank content of the persisted pointer
  is used; and when all three are absent (the pointer file is missing or blank), an
  operation that requires a session fails with the MissingSessionId error, whose message
  names \<^verbatim>\<open>list_sessions/choose_session\<close>, while one that does not gets undefined.
\<close>

theorem resolveSessionIdInput_precedence:
  "(normalizeSessionId v = Inr (Some explicit) \<longrightarrow>
      resolveSessionIdInput env pointer v required = Inr (Some explicit))
   \<and> (normalizeSessionId v = Inr None
        \<and> normalizeSessionId (env_value env) = Inr (Some fromEnv) \<longrightarrow>
        resolveSessionIdInput env pointer v required = Inr (Some fromEnv))
   \<and> (normalizeSessionId v = Inr None \<and> normalizeSessionId (env_value env) = Inr None
        \<and> normalizeSessionId (JStr stored) = Inr (Some active) \<longrightarrow>
        resolveSessionIdInput env (Inr stored) v required = Inr (Some active))
   \<and> (normalizeSessionId v = Inr None \<and> normalizeSessionId (env_value env) = Inr None \<longrightarrow>
        resolveSessionIdInput env (Inl (SysError ''ENOENT'')) v True = Inl MissingSessionId
        \<and> resolveSessionIdInput env (Inl (SysError ''ENOENT'')) v False = Inr None)
   \<and> (normalizeSessionId v = Inr None \<and> normalizeSessionId (env_value env) = Inr None
        \<and> normalizeSessionId (JStr stored) = Inr None \<longrightarrow>
        resolveSessionIdInput env (Inr stored) v True = Inl MissingSessionId
        \<and> resolveSessionIdInput env (Inr stored) v False = Inr None)
   \<and> MissingSessionId =
       Error ''Missing session_id. Choose one with list_sessions/choose_session (or run pick-session.mjs) and try again.''"
proof (intro conjI impI)
  show "MissingSessionId =
       Error ''Missing session_id. Choose one with list_sessions/choose_session (or run pick-session.mjs) and try again.''"
    by (rule MissingSessionId_def)
qed (simp_all add: resolve_explicit resolve_env resolve_pointer resolve_missing_file
      resolve_blank_file)

lemma normalize_examples:
  "normalizeSessionId (JStr (js '' x '')) = Inr (Some (js ''x''))
   \<and> normalizeSessionId (JStr (js ''  '')) = Inr None
   \<and> normalizeSessionId JUndefined = Inr None
   \<and> normalizeSessionId (env_value (Some (js ''e''))) = Inr (Some (js ''e''))
   \<and> normalizeSessionId (env_value None) = Inr None
   \<and> normalizeSessionId (JStr (js ''f'' @ [0x0A])) = Inr (Some (js ''f''))"
  by (simp add: normalizeSessionId_def env_value_def js_def js_trim_def is_js_whitespace_def)

theorem resolveSessionIdInput_precedence_witness:
  "resolveSessionIdInput (Some (js ''e'')) (Inr (js ''f'' @ [0x0A])) (JStr (js '' x '')) True
     = Inr (Some (js ''x''))
   \<and> resolveSessionIdInput (Some (js ''e'')) (Inr (js ''f'' @ [0x0A])) JUndefined True
     = Inr (Some (js ''e''))
   \<and> resolveSessionIdInput None (Inr (js ''f'' @ [0x0A])) (JStr (js ''  '')) True
     = Inr (Some (js ''f''))
   \<and> resolveSessionIdInput None (Inl (SysError ''ENOENT'')) JUndefined True
     = Inl MissingSessionId
   \<and> resolveSessionIdInput None (Inl (SysError ''ENOENT'')) JUndefined False = Inr None"
proof -
  note n = normalize_examples
  have a: "resolveSessionIdInput (Some (js ''e'')) (Inr (js ''f'' @ [0x0A]))
             (JStr (js '' x '')) True = Inr (Some (js ''x''))"
    using resolveSessionIdInput_precedence[where v="JStr (js '' x '')" and explicit="js ''x''"
        and env="Some (js ''e'')" and pointer="Inr (js ''f'' @ [0x0A])" and required=True] n
    by simp
  have b: "resolveSessionIdInput (Some (js ''e'')) (Inr (js ''f'' @ [0x0A])) JUndefined True
             = Inr (Some (js ''e''))"
    using resolveSessionIdInput_precedence[where v=JUndefined and fromEnv="js ''e''"
        and env="Some (js ''e'')" and pointer="Inr (js ''f'' @ [0x0A])" and required=True] n
    by simp
  have c: "resolveSessionIdInput None (Inr (js ''f'' @ [0x0A])) (JStr (js ''  '')) True
             = Inr (Some (js ''f''))"
    using resolveSessionIdInput_precedence[where v="JStr (js ''  '')" and env=None
        and stored="js ''f'' @ [0x0A]" and active="js ''f''" and required=True] n
    by simp
  have d: "resolveSessionIdInput None (Inl (SysError ''ENOENT'')) JUndefined True
             = Inl MissingSessionId
           \<and> resolveSessionIdInput None (Inl (SysError ''ENOENT'')) JUndefined False = Inr None"
    using resolveSessionIdInput_precedence[where v=JUndefined and env=None] n
    by simp
  from a b c d show ?thesis by simp
qed

section \<open>Properties of the lock manager\<close>

lemma contended_pass:
  assumes "open_result ob = Some (SysError ''EEXIST'')"
  shows "withWriteLock cfg start (ob # rest) fn st =
     (if now_on_failure ob - start > MAX_LOCK_WAIT_MS then Some (Inl (LockTimeout cfg), st)
      else (case lock_stat ob of
              Inr mtimeMs \<Rightarrow>
                withWriteLock cfg start rest fn
                  (st\<lparr>effects := effects st
                        @ (if of_int (now_on_stat ob) - mtimeMs > STALE_LOCK_MS
                           then [UnlinkedStaleLock] else [])
                        @ [Slept (backoff_ms ob)]\<rparr>)
            | Inl err \<Rightarrow>
                (if error_code err = Some ''ENOENT''
                 then withWriteLock cfg start rest fn
                        (st\<lparr>effects := effects st @ [Slept (backoff_ms ob)]\<rparr>)
                 else Some (Inl err, st))))"
  using assms
  by (simp add: maybeBreakStaleLock_def add_effect_def split: sum.splits)

lemma backoff_range:
  assumes a: "0 \<le> random ob" and b: "random ob < 1"
  shows "40 \<le> backoff_ms ob \<and> backoff_ms ob \<le> 99"
proof -
  have "0 \<le> random ob * 60" using a by simp
  then have l: "0 \<le> \<lfloor>random ob * 60\<rfloor>" by simp
  have "random ob * 60 < 60" using b by simp
  then have "\<lfloor>random ob * 60\<rfloor> < 60" by (simp add: floor_less_iff)
  with l show ?thesis by (simp add: backoff_ms_def)
qed

text \<open>
  C5, as the code has it. When the exclusive creation of the marker fails because the
  marker exists: if more than 5000 ms have passed since the start, the acquisition fails
  with LockTimeout (before the age of the marker is looked at); otherwise a marker older
  than 30000 ms is unlinked, best effort, and in every case (stale, fresh or vanished
  marker) the process sleeps the randomized backoff and only then tries again. The
  backoff is between 40 and 99 ms.
\<close>

theorem withWriteLock_contended_pass:
  "(open_result ob = Some (SysError ''EEXIST'') \<longrightarrow>
      withWriteLock cfg start (ob # rest) fn st =
        (if now_on_failure ob - start > MAX_LOCK_WAIT_MS then Some (Inl (LockTimeout cfg), st)
         else (case lock_stat ob of
                 Inr mtimeMs \<Rightarrow>
                   withWriteLock cfg start rest fn
                     (st\<lparr>effects := effects st
                           @ (if of_int (now_on_stat ob) - mtimeMs > STALE_LOCK_MS
                              then [UnlinkedStaleLock] else [])
                           @ [Slept (backoff_ms ob)]\<rparr>)
               | Inl err \<Rightarrow>
                   (if error_code err = Some ''ENOENT''
                    then withWriteLock cfg start rest fn
                           (st\<lparr>effects := effects st @ [Slept (backoff_ms ob)]\<rparr>)
                    else Some (Inl err, st)))))
   \<and> (0 \<le> random ob \<and> random ob < 1 \<longrightarrow> 40 \<le> backoff_ms ob \<and> backoff_ms ob \<le> 99)"
  using contended_pass[of ob cfg start rest fn st] backoff_range[of ob] by blast

theorem withWriteLock_contended_pass_witness:
  "withWriteLock example_config 0 [stale_pass, free_pass] do_nothing empty_state
     = Some (Inr (),
             empty_state\<lparr>effects :=
               [UnlinkedStaleLock, Slept 40, WroteLockMetadata, ReleasedLock]\<rparr>)
   \<and> 40 \<le> backoff_ms stale_pass \<and> backoff_ms stale_pass \<le> 99"
proof -
  have o: "open_result stale_pass = Some (SysError ''EEXIST'')"
    and r: "0 \<le> random stale_pass \<and> random stale_pass < 1"
    by (simp_all add: stale_pass_def)
  from withWriteLock_contended_pass[of stale_pass example_config 0 "[free_pass]" do_nothing
      empty_state] o r
  have "withWriteLock example_config 0 [stale_pass, free_pass] do_nothing empty_state
          = withWriteLock example_config 0 [free_pass] do_nothing
              (empty_state\<lparr>effects := [UnlinkedStaleLock, Slept 40]\<rparr>)"
    and "40 \<le> backoff_ms stale_pass \<and> backoff_ms stale_pass \<le> 99"
    by (simp_all add: stale_pass_def MAX_LOCK_WAIT_MS_def STALE_LOCK_MS_def backoff_ms_def
        empty_state_def)
  then show ?thesis
    by (simp add: free_pass_def do_nothing_def add_effect_def empty_state_def)
qed

text \<open>
  The claim as written fails: after unlinking a stale marker the process does not try
  again at once; it sleeps 40 ms first.
\<close>

theorem stale_break_sleeps_counterexample:
  "withWriteLock example_config 0 [stale_pass, free_pass] do_nothing empty_state
     = Some (Inr (),
             empty_state\<lparr>effects :=
               [UnlinkedStaleLock, Slept 40, WroteLockMetadata, ReleasedLock]\<rparr>)
   \<and> sleeps_after_break
        (effects (snd (the (withWriteLock example_config 0 [stale_pass, free_pass] do_nothing
                              empty_state))))"
proof -
  have "withWriteLock example_config 0 [stale_pass, free_pass] do_nothing empty_state
     = Some (Inr (),
             empty_state\<lparr>effects :=
               [UnlinkedStaleLock, Slept 40, WroteLockMetadata, ReleasedLock]\<rparr>)"
    by (simp add: stale_pass_def free_pass_def do_nothing_def add_effect_def
        maybeBreakStaleLock_def MAX_LOCK_WAIT_MS_def STALE_LOCK_MS_def backoff_ms_def
        empty_state_def)
  then show ?thesis by simp
qed

section \<open>Properties of append under lock contention\<close>

lemma only_waited_iff:
  "only_waited st st' \<longleftrightarrow>
     contextCache st' = contextCache st \<and> sessionIndexCache st' = sessionIndexCache st
     \<and> (\<exists>es. effects st' = effects st @ es \<and> list_all is_wait_effect es)"
proof
  assume "only_waited st st'"
  then have "effects st' = effects st @ drop (length (effects st)) (effects st')"
    and "list_all is_wait_effect (drop (length (effects st)) (effects st'))"
    and "contextCache st' = contextCache st \<and> sessionIndexCache st' = sessionIndexCache st"
    unfolding only_waited_def by (metis append_take_drop_id, simp, simp)
  then show "contextCache st' = contextCache st \<and> sessionIndexCache st' = sessionIndexCache st
     \<and> (\<exists>es. effects st' = effects st @ es \<and> list_all is_wait_effect es)" by blast
next
  assume "contextCache st' = contextCache st \<and> sessionIndexCache st' = sessionIndexCache st
     \<and> (\<exists>es. effects st' = effects st @ es \<and> list_all is_wait_effect es)"
  then show "only_waited st st'" by (auto simp: only_waited_def)
qed

lemma only_waited_refl: "only_waited st st"
  by (simp add: only_waited_iff)

lemma only_waited_step:
  assumes "list_all is_wait_effect es"
      and "only_waited (st\<lparr>effects := effects st @ es\<rparr>) st'"
  shows "only_waited st st'"
proof -
  from assms(2) obtain es' where
    "effects st' = (effects st @ es) @ es'" "list_all is_wait_effect es'"
    "contextCache st' = contextCache st" "sessionIndexCache st' = sessionIndexCache st"
    by (auto simp: only_waited_iff)
  with assms(1) have "effects st' = effects st @ (es @ es')" "list_all is_wait_effect (es @ es')"
    by simp_all
  with \<open>contextCache st' = contextCache st\<close> \<open>sessionIndexCache st' = sessionIndexCache st\<close>
  show ?thesis unfolding only_waited_iff by blast
qed

lemma failed_open_pass:
  assumes "open_result ob = Some err"
  shows "withWriteLock cfg start (ob # rest) fn st =
     (if error_code err = Some ''EEXIST'' then
        (if now_on_failure ob - start > MAX_LOCK_WAIT_MS then Some (Inl (LockTimeout cfg), st)
         else (case maybeBreakStaleLock ob st of
                 (Some thrown, st2) \<Rightarrow> Some (Inl thrown, st2)
               | (None, st2) \<Rightarrow>
                   withWriteLock cfg start rest fn (add_effect st2 (Slept (backoff_ms ob)))))
      else Some (Inl err, st))"
  using assms by simp

lemma maybeBreak_cases:
  "maybeBreakStaleLock ob st = (r, st2) \<Longrightarrow>
     (r \<noteq> None \<longrightarrow> st2 = st)
     \<and> (\<exists>es. list_all is_wait_effect es \<and> st2 = st\<lparr>effects := effects st @ es\<rparr>)"
proof -
  assume a: "maybeBreakStaleLock ob st = (r, st2)"
  have n: "list_all is_wait_effect [] \<and> st = st\<lparr>effects := effects st @ []\<rparr>" by simp
  show ?thesis
  proof (cases "lock_stat ob")
    case (Inl err)
    with a have "st2 = st" by (auto simp: maybeBreakStaleLock_def split: if_splits)
    with n show ?thesis by blast
  next
    case (Inr m)
    show ?thesis
    proof (cases "of_int (now_on_stat ob) - m > STALE_LOCK_MS")
      case True
      with a Inr have "r = None" "st2 = st\<lparr>effects := effects st @ [UnlinkedStaleLock]\<rparr>"
        by (auto simp: maybeBreakStaleLock_def add_effect_def)
      moreover have "list_all is_wait_effect [UnlinkedStaleLock]" by simp
      ultimately show ?thesis by blast
    next
      case False
      with a Inr have "st2 = st" by (auto simp: maybeBreakStaleLock_def)
      with n show ?thesis by blast
    qed
  qed
qed

lemma never_created_waits:
  "never_created passes \<Longrightarrow> withWriteLock cfg start passes fn st = Some (res, st')
     \<Longrightarrow> isl res \<and> only_waited st st'"
proof (induction passes arbitrary: st)
  case Nil
  then show ?case by simp
next
  case (Cons ob rest)
  from Cons.prems(1) obtain err where o: "open_result ob = Some err"
    and nr: "never_created rest"
    by (auto simp: never_created_def)
  note p = failed_open_pass[OF o, of cfg start rest fn st]
  show ?case
  proof (cases "error_code err = Some ''EEXIST''")
    case False
    with p Cons.prems(2) show ?thesis by (auto simp: only_waited_refl)
  next
    case True
    note ex = this
    show ?thesis
    proof (cases "now_on_failure ob - start > MAX_LOCK_WAIT_MS")
      case True
      with p ex Cons.prems(2) show ?thesis by (auto simp: only_waited_refl)
    next
      case False
      obtain r st2 where m: "maybeBreakStaleLock ob st = (r, st2)"
        by (cases "maybeBreakStaleLock ob st")
      from maybeBreak_cases[OF m] obtain es where
        thrown: "r \<noteq> None \<longrightarrow> st2 = st" and es: "list_all is_wait_effect es"
        and st2: "st2 = st\<lparr>effects := effects st @ es\<rparr>" by blast
      show ?thesis
      proof (cases r)
        case (Some thrown')
        with p ex False m Cons.prems(2) thrown show ?thesis by (auto simp: only_waited_refl)
      next
        case None
        with p ex False m Cons.prems(2)
        have rec: "withWriteLock cfg start rest fn (add_effect st2 (Slept (backoff_ms ob)))
                     = Some (res, st')" by simp
        have eq: "add_effect st2 (Slept (backoff_ms ob))
                    = st\<lparr>effects := effects st @ (es @ [Slept (backoff_ms ob)])\<rparr>"
          by (simp add: add_effect_def st2)
        from Cons.IH[OF nr rec] have "isl res"
          and w: "only_waited (st\<lparr>effects := effects st @ (es @ [Slept (backoff_ms ob)])\<rparr>) st'"
          by (simp_all add: eq)
        have "list_all is_wait_effect (es @ [Slept (backoff_ms ob)])" using es by simp
        from only_waited_step[OF this w] \<open>isl res\<close> show ?thesis by simp
      qed
    qed
  qed
qed

lemma times_out_fails:
  "times_out start passes \<Longrightarrow>
     \<exists>st'. withWriteLock cfg start passes fn st = Some (Inl (LockTimeout cfg), st')
           \<and> only_waited st st'"
proof (induction passes arbitrary: st)
  case Nil
  then show ?case by simp
next
  case (Cons ob rest)
  from Cons.prems have o: "open_result ob = Some (SysError ''EEXIST'')" by simp
  note p = failed_open_pass[OF o, of cfg start rest fn st]
  show ?case
  proof (cases "now_on_failure ob - start > MAX_LOCK_WAIT_MS")
    case True
    with p show ?thesis by (auto simp: only_waited_refl)
  next
    case False
    with Cons.prems have ok: "case lock_stat ob of Inr _ \<Rightarrow> True
                                | Inl err \<Rightarrow> error_code err = Some ''ENOENT''"
      and tr: "times_out start rest" by simp_all
    obtain r st2 where m: "maybeBreakStaleLock ob st = (r, st2)"
      by (cases "maybeBreakStaleLock ob st")
    from ok m have r: "r = None"
      by (auto simp: maybeBreakStaleLock_def split: sum.splits if_splits)
    from maybeBreak_cases[OF m] obtain es where es: "list_all is_wait_effect es"
      and st2: "st2 = st\<lparr>effects := effects st @ es\<rparr>" by blast
    have eq: "add_effect st2 (Slept (backoff_ms ob))
                = st\<lparr>effects := effects st @ (es @ [Slept (backoff_ms ob)])\<rparr>"
      by (simp add: add_effect_def st2)
    from Cons.IH[OF tr, of "add_effect st2 (Slept (backoff_ms ob))"] obtain st' where
      rec: "withWriteLock cfg start rest fn (add_effect st2 (Slept (backoff_ms ob)))
              = Some (Inl (LockTimeout cfg), st')"
      and w: "only_waited (st\<lparr>effects := effects st @ (es @ [Slept (backoff_ms ob)])\<rparr>) st'"
      by (auto simp: eq)
    have "list_all is_wait_effect (es @ [Slept (backoff_ms ob)])" using es by simp
    from only_waited_step[OF this w] have "only_waited st st'" .
    moreover have "withWriteLock cfg start (ob # rest) fn st = Some (Inl (LockTimeout cfg), st')"
      using p False m r rec by simp
    ultimately show ?thesis by blast
  qed
qed

lemma appendEntry_never_created:
  assumes "never_created (lock_passes w)"
      and "appendEntry h cfg stringify w st e = Some (res, st')"
  shows "isl res \<and> only_waited st st'"
proof (cases "mkdir_result w")
  case (Some err)
  with assms(2) show ?thesis by (auto simp: appendEntry_def only_waited_refl)
next
  case None
  let ?fn = "append_critical_section h cfg w e (stringify e @ [0x0A])"
  show ?thesis
  proof (cases "withWriteLock cfg (lock_start w) (lock_passes w) ?fn st")
    case None
    with assms(2) \<open>mkdir_result w = None\<close> show ?thesis by (simp add: appendEntry_def)
  next
    case (Some out)
    obtain r st1 where out: "out = (r, st1)" by (cases out)
    from never_created_waits[OF assms(1) Some[unfolded out]]
    have "isl r" and w: "only_waited st st1" by simp_all
    then obtain err where "r = Inl err" by (cases r) auto
    with assms(2) \<open>mkdir_result w = None\<close> Some out w show ?thesis
      by (auto simp: appendEntry_def)
  qed
qed

lemma appendEntry_times_out:
  assumes "mkdir_result w = None" and "times_out (lock_start w) (lock_passes w)"
  shows "\<exists>st'. appendEntry h cfg stringify w st e = Some (Inl (LockTimeout cfg), st')
               \<and> only_waited st st'"
proof -
  from times_out_fails[OF assms(2), of cfg
      "append_critical_section h cfg w e (stringify e @ [0x0A])" st]
  obtain st' where
    "withWriteLock cfg (lock_start w) (lock_passes w)
       (append_critical_section h cfg w e (stringify e @ [0x0A])) st
       = Some (Inl (LockTimeout cfg), st')" and "only_waited st st'" by blast
  with assms(1) show ?thesis by (simp add: appendEntry_def)
qed

text \<open>
  C9. When the marker is never created in the passes of the lock loop, an append that
  returns has failed, and the process has only waited: nothing was appended to the log,
  no index was written, and both caches are as before. When every pass fails on the
  existing marker until one finds more than 5000 ms elapsed, the append returns, and it
  fails with LockTimeout.
\<close>

theorem appendEntry_lock_timeout:
  "(never_created (lock_passes w) \<and> appendEntry h cfg stringify w st e = Some (res, st') \<longrightarrow>
      isl res \<and> only_waited st st')
   \<and> (mkdir_result w = None \<and> times_out (lock_start w) (lock_passes w) \<longrightarrow>
        (\<exists>st2. appendEntry h cfg stringify w st e = Some (Inl (LockTimeout cfg), st2)
               \<and> only_waited st st2))"
  using appendEntry_never_created[of w h cfg stringify st e res st']
    appendEntry_times_out[of w h cfg stringify st e]
  by blast

theorem appendEntry_lock_timeout_witness:
  "appendEntry example_host example_config (\<lambda>e. js ''{}'') held_world empty_state
     (example_note ''a'' ''1000'')
     = Some (Inl (LockTimeout example_config), empty_state\<lparr>effects := [Slept 70]\<rparr>)
   \<and> only_waited empty_state (empty_state\<lparr>effects := [Slept 70]\<rparr>)"
proof -
  have t: "mkdir_result held_world = None
           \<and> times_out (lock_start held_world) (lock_passes held_world)"
    by (simp add: held_world_def busy_pass_def MAX_LOCK_WAIT_MS_def)
  have v: "appendEntry example_host example_config (\<lambda>e. js ''{}'') held_world empty_state
             (example_note ''a'' ''1000'')
           = Some (Inl (LockTimeout example_config), empty_state\<lparr>effects := [Slept 70]\<rparr>)"
    by (simp add: appendEntry_def held_world_def busy_pass_def MAX_LOCK_WAIT_MS_def
        STALE_LOCK_MS_def maybeBreakStaleLock_def add_effect_def backoff_ms_def
        empty_state_def)
  from appendEntry_lock_timeout[of held_world example_host example_config "\<lambda>e. js ''{}''"
      empty_state "example_note ''a'' ''1000''"] t
  obtain st2 where "appendEntry example_host example_config (\<lambda>e. js ''{}'') held_world
      empty_state (example_note ''a'' ''1000'') = Some (Inl (LockTimeout example_config), st2)"
    and "only_waited empty_state st2" by blast
  with v show ?thesis by simp
qed

section \<open>Properties of session listing\<close>








section \<open>Properties of \<^verbatim>\<open>choose_session\<close>\<close>

lemma asPositiveInt_supplied:
  "supplied v \<Longrightarrow> asPositiveInt v name None lo hi \<noteq> Inr None"
  by (cases v) (auto simp: supplied_def asPositiveInt_def)

lemma asPositiveInt_missing:
  "\<not> supplied v \<Longrightarrow> asPositiveInt v name None lo hi = Inr None"
  by (cases v) (auto simp: supplied_def asPositiveInt_def)

lemma asString_supplied:
  "supplied v \<Longrightarrow> asString v name False True \<noteq> Inr None"
  by (cases v) (auto simp: supplied_def asString_def Let_def)

lemma asString_missing:
  "\<not> supplied v \<Longrightarrow> asString v name False True = Inr None"
  by (cases v) (auto simp: supplied_def asString_def)

lemma asString_error: "asString v name r t = Inl e \<Longrightarrow> is_plain_error e"
  by (cases v) (auto simp: asString_def Let_def split: if_splits)

lemma asPositiveInt_error: "asPositiveInt v name f lo hi = Inl e \<Longrightarrow> is_plain_error e"
  by (cases v) (auto simp: asPositiveInt_def split: if_splits)

lemma asBoolean_error: "asBoolean v name f = Inl e \<Longrightarrow> is_plain_error e"
  by (cases v) (auto simp: asBoolean_def)

lemma asIsoDate_error:
  assumes "asIsoDateOrUndefined h v name = Inl e"
  shows "is_plain_error e"
proof (cases "asString v name False True")
  case (Inl e')
  with assms have "e' = e" by (simp add: asIsoDateOrUndefined_def)
  with asString_error[OF Inl] show ?thesis by simp
next
  case (Inr t)
  with assms show ?thesis
    by (cases t) (auto simp: asIsoDateOrUndefined_def split: if_splits option.splits)
qed

lemma normalizeFormat_error: "normalizeFormat v = Inl e \<Longrightarrow> is_plain_error e"
  by (auto simp: normalizeFormat_def Let_def split: if_splits)

lemma parseOptions_error:
  assumes "parseSessionListOptions h cfg args = Inl e"
  shows "is_plain_error e"
proof (cases "asString (arg_project args) ''project'' False True")
  case (Inl e1)
  with assms asString_error[OF Inl] show ?thesis by (simp add: parseSessionListOptions_def)
next
  case p: (Inr p)
  show ?thesis
  proof (cases "asString (arg_agent args) ''agent'' False True")
    case (Inl e1)
    with assms p asString_error[OF Inl] show ?thesis by (simp add: parseSessionListOptions_def)
  next
    case a: (Inr a)
    show ?thesis
    proof (cases "asIsoDateOrUndefined h (arg_since args) ''since''")
      case (Inl e1)
      with assms p a asIsoDate_error[OF Inl] show ?thesis
        by (simp add: parseSessionListOptions_def)
    next
      case s: (Inr s)
      show ?thesis
      proof (cases "asPositiveInt (arg_limit args) ''limit'' (Some 20) 1 200")
        case (Inl e1)
        with assms p a s asPositiveInt_error[OF Inl] show ?thesis
          by (simp add: parseSessionListOptions_def)
      next
        case l: (Inr l)
        show ?thesis
        proof (cases "asBoolean (arg_include_unsessioned args) ''include_unsessioned'' False")
          case (Inl e1)
          with assms p a s l asBoolean_error[OF Inl] show ?thesis
            by (simp add: parseSessionListOptions_def)
        next
          case u: (Inr u)
          show ?thesis
          proof (cases "normalizeFormat (arg_format args)")
            case (Inl e1)
            with assms p a s l u normalizeFormat_error[OF Inl] show ?thesis
              by (simp add: parseSessionListOptions_def)
          next
            case (Inr f)
            with assms p a s l u show ?thesis by (simp add: parseSessionListOptions_def)
          qed
        qed
      qed
    qed
  qed
qed

lemma choose_neither:
  assumes "parseSessionListOptions h cfg args = Inr options"
      and "\<not> supplied (arg_index args)" and "\<not> supplied (arg_session_id args)"
  shows "choose_session h jp cfg w st args
           = (Inl (Error ''choose_session requires either index or session_id''), st)"
  using assms asPositiveInt_missing[OF assms(2), of "''index''" 1 200]
    asString_missing[OF assms(3), of "''session_id''"]
  by (simp add: choose_session_def)

lemma choose_both:
  assumes "parseSessionListOptions h cfg args = Inr options"
      and "asPositiveInt (arg_index args) ''index'' None 1 200 = Inr (Some i)"
      and "asString (arg_session_id args) ''session_id'' False True = Inr (Some sid)"
  shows "choose_session h jp cfg w st args
           = (Inl (Error ''choose_session accepts either index or session_id, not both''), st)"
  using assms by (simp add: choose_session_def)

lemma choose_invalid:
  assumes "supplied (arg_index args) = supplied (arg_session_id args)"
  shows "\<exists>err. is_plain_error err \<and> choose_session h jp cfg w st args = (Inl err, st)"
proof (cases "parseSessionListOptions h cfg args")
  case (Inl e)
  with parseOptions_error[OF Inl] show ?thesis by (auto simp: choose_session_def)
next
  case (Inr options)
  note po = this
  show ?thesis
  proof (cases "asPositiveInt (arg_index args) ''index'' None 1 200")
    case (Inl e)
    with po asPositiveInt_error[OF Inl] show ?thesis by (auto simp: choose_session_def)
  next
    case (Inr index)
    note ix = this
    show ?thesis
    proof (cases "asString (arg_session_id args) ''session_id'' False True")
      case (Inl e)
      with po ix asString_error[OF Inl] show ?thesis by (auto simp: choose_session_def)
    next
      case (Inr sid)
      note sd = this
      show ?thesis
      proof (cases "supplied (arg_index args)")
        case True
        then have "index \<noteq> None"
          using asPositiveInt_supplied[OF True, of "''index''" 1 200] ix by auto
        then obtain i where i: "index = Some i" by auto
        have "sid \<noteq> None"
          using asString_supplied[of "arg_session_id args" "''session_id''"] True assms sd
          by auto
        then obtain s where s: "sid = Some s" by auto
        from choose_both[OF po ix[unfolded i] sd[unfolded s], of jp w st] show ?thesis
          by simp
      next
        case False
        with assms have "\<not> supplied (arg_session_id args)" by simp
        from choose_neither[OF po False this, of jp w st] show ?thesis by simp
      qed
    qed
  qed
qed

text \<open>
  C10. When neither or both of \<open>index\<close> and \<open>session_id\<close> are supplied (supplied: not
  undefined and not null), \<^verbatim>\<open>choose_session\<close> fails with a validation error and
  leaves the state of the process as it was: whatever the file system would answer, it
  is not asked, no session is selected and the pointer is not written. With valid
  listing options the error is the one of the check itself.
\<close>

theorem choose_session_exactly_one:
  "(supplied (arg_index args) = supplied (arg_session_id args) \<longrightarrow>
      (\<exists>err. is_plain_error err \<and> choose_session h jp cfg w st args = (Inl err, st)))
   \<and> (parseSessionListOptions h cfg args = Inr options
        \<and> \<not> supplied (arg_index args) \<and> \<not> supplied (arg_session_id args) \<longrightarrow>
        choose_session h jp cfg w st args
          = (Inl (Error ''choose_session requires either index or session_id''), st))
   \<and> (parseSessionListOptions h cfg args = Inr options
        \<and> asPositiveInt (arg_index args) ''index'' None 1 200 = Inr (Some i)
        \<and> asString (arg_session_id args) ''session_id'' False True = Inr (Some sid) \<longrightarrow>
        choose_session h jp cfg w st args
          = (Inl (Error ''choose_session accepts either index or session_id, not both''), st))"
  using choose_invalid[of args h jp cfg w st] choose_neither[of h cfg args options jp w st]
    choose_both[of h cfg args options i sid jp w st]
  by blast

lemma no_args_options:
  "parseSessionListOptions example_host example_config no_args = Inr plain_options
   \<and> parseSessionListOptions example_host example_config
       (no_args\<lparr>arg_index := JNum 1, arg_session_id := JStr (js ''a'')\<rparr>) = Inr plain_options"
  by (simp add: parseSessionListOptions_def no_args_def asString_def asIsoDateOrUndefined_def
      asPositiveInt_def asBoolean_def normalizeFormat_def normalizeProject_def
      example_config_def plain_options_def)

theorem choose_session_exactly_one_witness:
  "choose_session example_host toy_json_parse example_config choosing_world example_state
     no_args
     = (Inl (Error ''choose_session requires either index or session_id''), example_state)
   \<and> choose_session example_host toy_json_parse example_config choosing_world example_state
       (no_args\<lparr>arg_index := JNum 1, arg_session_id := JStr (js ''a'')\<rparr>)
     = (Inl (Error ''choose_session accepts either index or session_id, not both''),
        example_state)"
proof -
  have n: "\<not> supplied (arg_index no_args) \<and> \<not> supplied (arg_session_id no_args)"
    by (simp add: supplied_def no_args_def)
  have b: "asPositiveInt (arg_index (no_args\<lparr>arg_index := JNum 1,
                arg_session_id := JStr (js ''a'')\<rparr>)) ''index'' None 1 200 = Inr (Some 1)
         \<and> asString (arg_session_id (no_args\<lparr>arg_index := JNum 1,
                arg_session_id := JStr (js ''a'')\<rparr>)) ''session_id'' False True
             = Inr (Some (js ''a''))"
    by (simp add: asPositiveInt_def Number_isInteger_def asString_def js_def js_trim_def
        is_js_whitespace_def)
  from choose_session_exactly_one[of no_args example_host toy_json_parse example_config
      choosing_world example_state plain_options] n no_args_options
  have x: "choose_session example_host toy_json_parse example_config choosing_world
             example_state no_args
           = (Inl (Error ''choose_session requires either index or session_id''),
              example_state)"
    by blast
  from choose_session_exactly_one[of
      "no_args\<lparr>arg_index := JNum 1, arg_session_id := JStr (js ''a'')\<rparr>"
      example_host toy_json_parse example_config choosing_world example_state plain_options
      1 "js ''a''"] b no_args_options
  have y: "choose_session example_host toy_json_parse example_config choosing_world
             example_state (no_args\<lparr>arg_index := JNum 1, arg_session_id := JStr (js ''a'')\<rparr>)
           = (Inl (Error ''choose_session accepts either index or session_id, not both''),
              example_state)"
    by blast
  from x y show ?thesis by simp
qed

end
